(* ===== verification/Prelude.thy ===== *)
theory Prelude
  imports Main
begin

text \<open>
  Shared vocabulary of the development: the Python exceptions the modelled code can
  raise, the types of the spreadsheet cells and rows it reads, the collections of
  rewrite rules the component theories contribute to, and the generic facts on
  association lists, enumerations and function updates that several components use.
\<close>

section \<open>Python-level values\<close>

text \<open>
  An exception of the Python code is a value of \<open>py_error\<close>; a fallible step returns
  \<open>py_error + 'a\<close> with \<open>Inl\<close> the exception. Only the exceptions the modelled code
  can raise are listed: \<open>KeyError\<close> from indexing a missing column,
  \<open>ValueError\<close> from a pandas length mismatch (it carries the length of the values
  and that of the index, which its message prints), \<open>IndexError\<close> from positional
  access out of range.
\<close>

datatype py_error = KeyError string | ValueError nat nat | IndexError

text \<open>
  A spreadsheet cell after \<open>pd.read_excel(..., converters=str)\<close> is a string or
  NaN; \<open>None\<close> is NaN. A row maps a column name to its cell.
\<close>

type_synonym cell = "string option"
type_synonym row = "string \<Rightarrow> cell"

named_theorems frame_simps "characteristic equations of the pandas frame model"
named_theorems hab_simps "evaluation rules of the .hab encoder"

section \<open>Association lists indexed by position\<close>

text \<open>
  A pandas index is a list of labels; \<open>enumerate\<close> gives the default
  \<open>RangeIndex\<close>. Filtering keeps labels, so lookup by label in a filtered
  enumeration answers the original position or nothing.
\<close>

lemma map_of_filter_enumerate:
  "map_of (filter (\<lambda>(i, r). P r) (enumerate n xs)) i =
     (if n \<le> i \<and> i < n + length xs \<and> P (xs ! (i - n)) then Some (xs ! (i - n)) else None)"
proof (induction xs arbitrary: n)
  case Nil
  then show ?case by simp
next
  case (Cons x xs)
  show ?case
  proof (cases "i = n")
    case True
    then show ?thesis using Cons.IH [of "Suc n"] by auto
  next
    case False
    then show ?thesis using Cons.IH [of "Suc n"]
      by (auto simp: nth_Cons' Suc_diff_Suc)
  qed
qed

lemma distinct_fst_filter_enumerate [simp]:
  "distinct (map fst (filter P (enumerate n xs)))"
  by (simp add: distinct_map_filter enumerate_eq_zip)

lemma map_snd_filter_enumerate:
  "map snd (filter (\<lambda>(i, r). P r) (enumerate n xs)) = filter P xs"
proof (induction xs arbitrary: n)
  case Nil
  then show ?case by simp
next
  case (Cons x xs)
  then show ?case by simp
qed

lemma map_filter_enumerate_commute:
  "(\<And>x. P (f x) = P x) \<Longrightarrow>
   map (\<lambda>(i, r). (i, f r)) (filter (\<lambda>(i, r). P r) (enumerate n xs)) =
   filter (\<lambda>(i, r). P r) (enumerate n (map f xs))"
  by (induction xs arbitrary: n) auto

lemma length_filter_enumerate [simp]:
  "length (filter (\<lambda>(i, r). P r) (enumerate n xs)) = length (filter P xs)"
  by (metis length_map map_snd_filter_enumerate)

text \<open>
  A list whose elements without property \<open>P\<close> all come before those with it (the
  booleans \<open>map P xs\<close> are sorted, \<open>False < True\<close>) keeps a prefix under
  \<open>filter (Not o P)\<close>.
\<close>

lemma sorted_bool_filter_prefix:
  "sorted (map P xs) \<Longrightarrow> filter (\<lambda>x. \<not> P x) xs = take (length (filter (\<lambda>x. \<not> P x) xs)) xs"
proof (induction xs)
  case Nil
  then show ?case by simp
next
  case (Cons x xs)
  show ?case
  proof (cases "P x")
    case True
    with Cons.prems have "\<forall>y \<in> set xs. P y" by (auto simp: le_bool_def)
    with True show ?thesis by (simp add: filter_empty_conv)
  next
    case False
    with Cons show ?thesis by simp
  qed
qed

lemma length_filter_eq_iff: "length (filter P xs) = length xs \<longleftrightarrow> (\<forall>x \<in> set xs. P x)"
proof (intro iffI ballI)
  fix x assume l: "length (filter P xs) = length xs" and x: "x \<in> set xs"
  show "P x"
  proof (rule ccontr)
    assume "\<not> P x"
    with x have "length (filter P xs) < length xs" by (rule length_filter_less)
    with l show False by simp
  qed
next
  assume "\<forall>x \<in> set xs. P x"
  then show "length (filter P xs) = length xs" by simp
qed

lemma sorted_map_const: "\<forall>x \<in> set ys. P x = b \<Longrightarrow> sorted (map P ys)"
  by (induction ys) auto

lemma length_filter_take_drop:
  "length (filter Q xs) = length (filter Q (take n xs)) + length (filter Q (drop n xs))"
proof -
  have "filter Q xs = filter Q (take n xs @ drop n xs)" by simp
  then show ?thesis by (simp only: filter_append length_append)
qed

lemma sorted_bool_iff_prefix:
  "sorted (map P xs) \<longleftrightarrow> (\<forall>i < length (filter (\<lambda>x. \<not> P x) xs). \<not> P (xs ! i))"
proof -
  define k where "k = length (filter (\<lambda>x. \<not> P x) xs)"
  have k: "k \<le> length xs"
    unfolding k_def by (rule length_filter_le)
  have "sorted (map P xs) \<longleftrightarrow> (\<forall>i < k. \<not> P (xs ! i))"
  proof
    assume s: "sorted (map P xs)"
    have eq: "filter (\<lambda>x. \<not> P x) xs = take k xs"
      unfolding k_def using s by (rule sorted_bool_filter_prefix)
    show "\<forall>i < k. \<not> P (xs ! i)"
    proof (intro allI impI)
      fix i assume i: "i < k"
      have "take k xs ! i \<in> set (filter (\<lambda>x. \<not> P x) xs)"
        unfolding eq using i k by (intro nth_mem) simp
      then show "\<not> P (xs ! i)"
        using i by simp
    qed
  next
    assume all: "\<forall>i < k. \<not> P (xs ! i)"
    have take: "\<forall>x \<in> set (take k xs). \<not> P x"
      using all k by (auto simp: in_set_conv_nth)
    have "k = length (filter (\<lambda>x. \<not> P x) (take k xs)) + length (filter (\<lambda>x. \<not> P x) (drop k xs))"
      using length_filter_take_drop [of "\<lambda>x. \<not> P x" xs k] by (simp only: k_def [symmetric])
    moreover have "filter (\<lambda>x. \<not> P x) (take k xs) = take k xs"
      using take by simp
    ultimately have "filter (\<lambda>x. \<not> P x) (drop k xs) = []"
      using k by simp
    then have drop: "\<forall>x \<in> set (drop k xs). P x"
      by (simp add: filter_empty_conv)
    have "map P xs = map P (take k xs) @ map P (drop k xs)"
      by (simp flip: map_append)
    moreover have "sorted (map P (take k xs))"
      using take by (intro sorted_map_const [where b = False]) simp
    moreover have "sorted (map P (drop k xs))"
      using drop by (intro sorted_map_const [where b = True]) simp
    ultimately show "sorted (map P xs)"
      using take drop by (auto simp: sorted_append le_bool_def)
  qed
  then show ?thesis by (simp add: k_def)
qed

section \<open>Repeated function update\<close>

text \<open>
  A row built by assigning one column after another: with distinct column names, the
  value read back at a column is the one assigned to it.
\<close>

lemma fold_upd_other:
  "k \<notin> key ` set fs \<Longrightarrow> fold (\<lambda>f g. g(key f := v f)) fs g0 k = g0 k"
  by (induction fs arbitrary: g0) auto

lemma fold_upd_at:
  "distinct (map key fs) \<Longrightarrow> f \<in> set fs \<Longrightarrow> fold (\<lambda>f g. g(key f := v f)) fs g0 (key f) = v f"
proof (induction fs arbitrary: g0)
  case Nil
  then show ?case by simp
next
  case (Cons f' fs)
  show ?case
  proof (cases "f' = f")
    case True
    with Cons.prems have "key f \<notin> key ` set fs" by auto
    then have "fold (\<lambda>f g. g(key f := v f)) fs (g0(key f := v f)) (key f) = (g0(key f := v f)) (key f)"
      by (rule fold_upd_other)
    with True show ?thesis by (simp only: fold_Cons o_apply fun_upd_same)
  next
    case False
    with Cons show ?thesis by auto
  qed
qed

lemma concat_map_fold_upd:
  "distinct (map key fs) \<Longrightarrow>
   concat (map (\<lambda>f. h (fold (\<lambda>f g. g(key f := v f)) fs g0 (key f))) fs) = concat (map (\<lambda>f. h (v f)) fs)"
  by (simp add: fold_upd_at cong: map_cong)

end
