(* ===== verification/PyStr.thy ===== *)
theory PyStr
  imports Prelude
begin

text \<open>
  The Python string operations that \<open>src/app.py\<close> applies to cell values:
  \<open>str(x)\<close> of a cell, \<open>str.zfill\<close>, \<open>str.strip\<close> (through its
  \<open>isspace\<close> test), \<open>sep.join\<close> and \<open>str.endswith\<close>. Characters are the
  Latin-1 code points (an Isabelle \<open>char\<close> is one byte), the repertoire of the
  file the program writes. The lemmas give each operation's length and shape:
  \<open>zfill\<close> pads on the left to at least the width, keeps a leading sign first,
  never truncates, and is idempotent.
\<close>

section \<open>Definitions\<close>

text \<open>\<open>str(x)\<close> of a cell: a string is itself, NaN prints as \<open>nan\<close>.\<close>

fun py_str :: "cell \<Rightarrow> string" where
  "py_str (Some s) = s"
| "py_str None = ''nan''"

text \<open>
  CPython's \<open>str.zfill(width)\<close>: a string at least \<open>width\<close> long is returned
  unchanged; otherwise \<open>'0'\<close>s are put in front, and a leading \<open>'+'\<close> or
  \<open>'-'\<close> is moved before them.
\<close>

definition zfill :: "string \<Rightarrow> nat \<Rightarrow> string" where
  "zfill s width =
     (if width \<le> length s then s
      else let fill = width - length s in
        (case s of
           [] \<Rightarrow> replicate fill CHR ''0''
         | c # cs \<Rightarrow>
             if c = CHR ''+'' \<or> c = CHR ''-'' then c # replicate fill CHR ''0'' @ cs
             else replicate fill CHR ''0'' @ s))"

text \<open>
  \<open>str.isspace\<close> on a Latin-1 code point: tab, line feed, vertical tab, form feed,
  carriage return, the four separators \<open>0x1C\<close>--\<open>0x1F\<close>, space, NEL
  (\<open>0x85\<close>) and no-break space (\<open>0xA0\<close>).
\<close>

definition py_isspace :: "char \<Rightarrow> bool" where
  "py_isspace c =
     (let n = of_char c :: nat in
      (9 \<le> n \<and> n \<le> 13) \<or> (28 \<le> n \<and> n \<le> 32) \<or> n = 133 \<or> n = 160)"

definition py_strip :: "string \<Rightarrow> string" where
  "py_strip s = rev (dropWhile py_isspace (rev (dropWhile py_isspace s)))"

text \<open>\<open>sep.join(xs)\<close>.\<close>

fun py_join :: "string \<Rightarrow> string list \<Rightarrow> string" where
  "py_join sep [] = []"
| "py_join sep [x] = x"
| "py_join sep (x # xs) = x @ sep @ py_join sep xs"

text \<open>\<open>s.endswith(t)\<close>.\<close>

definition py_endswith :: "string \<Rightarrow> string \<Rightarrow> bool" where
  "py_endswith s t = (length t \<le> length s \<and> drop (length s - length t) s = t)"

text \<open>
  \<open>s.split(c)\<close> for a one-character separator: the pieces between the
  occurrences of \<open>c\<close>. It is also how a browser cuts an HTML tag at its quotes.
\<close>

fun dividir_aux :: "char \<Rightarrow> string \<Rightarrow> string \<Rightarrow> string list" where
  "dividir_aux c acc [] = [rev acc]"
| "dividir_aux c acc (x # xs) =
     (if x = c then rev acc # dividir_aux c [] xs else dividir_aux c (x # acc) xs)"

definition dividir :: "char \<Rightarrow> string \<Rightarrow> string list" where
  "dividir c s = dividir_aux c [] s"

text \<open>
  \<open>str(n)\<close> of a count (a Python \<open>int\<close> that is never negative here): its
  decimal digits, most significant first. The recursion divides by ten, so it is a
  \<^theory_text>\<open>function\<close> with a termination proof by the measure \<open>n\<close>.
\<close>

function (domintros) py_str_nat :: "nat \<Rightarrow> string" where
  "py_str_nat n =
     (if n < 10 then [char_of (48 + n)] else py_str_nat (n div 10) @ [char_of (48 + n mod 10)])"
  by pat_completeness auto
termination by (relation "measure id") auto

declare py_str_nat.simps [simp del]

text \<open>
  \<open>str(e)\<close> of the exceptions the code can meet: a \<open>KeyError\<close> prints the repr of
  its key, the pandas \<open>ValueError\<close> of a length mismatch and the \<open>IndexError\<close> of
  \<open>iloc\<close> print their fixed messages.
\<close>

fun py_error_str :: "py_error \<Rightarrow> string" where
  "py_error_str (KeyError k) = CHR 0x27 # k @ [CHR 0x27]"
| "py_error_str (ValueError n m) =
     ''Length of values ('' @ py_str_nat n @ '') does not match length of index ('' @ py_str_nat m @ '')''"
| "py_error_str IndexError = ''single positional indexer is out-of-bounds''"

text \<open>How a reader gets a count back from its digits: \<open>int(s)\<close>.\<close>

definition valor_digito :: "char \<Rightarrow> nat" where
  "valor_digito c = of_char c - 48"

definition leer_nat :: "string \<Rightarrow> nat" where
  "leer_nat s = foldl (\<lambda>acc c. 10 * acc + valor_digito c) 0 s"

section \<open>zfill\<close>

text \<open>A string that does not start with a sign is padded with zeros in front.\<close>

definition sin_signo :: "string \<Rightarrow> bool" where
  "sin_signo s = (case s of [] \<Rightarrow> True | c # _ \<Rightarrow> c \<noteq> CHR ''+'' \<and> c \<noteq> CHR ''-'')"

lemma zfill_sin_signo:
  "sin_signo s \<Longrightarrow> zfill s w = replicate (w - length s) CHR ''0'' @ s"
  by (auto simp: zfill_def sin_signo_def Let_def split: list.splits)

lemma zfill_signed:
  "c = CHR ''+'' \<or> c = CHR ''-'' \<Longrightarrow> length (c # cs) < w \<Longrightarrow>
   zfill (c # cs) w = c # replicate (w - length (c # cs)) CHR ''0'' @ cs"
  by (auto simp: zfill_def Let_def)

lemma zfill_long [simp]: "w \<le> length s \<Longrightarrow> zfill s w = s"
  by (simp add: zfill_def)

lemma length_zfill [simp]: "length (zfill s w) = max w (length s)"
  by (auto simp: zfill_def Let_def split: list.splits)

lemma zfill_idem [simp]: "zfill (zfill s w) w = zfill s w"
  by simp

lemma sin_signo_Cons [simp]:
  "sin_signo (c # cs) = (c \<noteq> CHR ''+'' \<and> c \<noteq> CHR ''-'')"
  by (simp add: sin_signo_def)

lemma sin_signo_append_digit [simp]:
  "c \<in> set ''0123456789'' \<Longrightarrow> sin_signo (c # cs)"
  by auto

lemma zfill_fits_drop:
  "sin_signo s \<Longrightarrow> length s \<le> w \<Longrightarrow> drop (w - length s) (zfill s w) = s"
  by (simp add: zfill_sin_signo)

section \<open>strip, join, endswith\<close>

lemma dropWhile_Nil_iff: "dropWhile P xs = [] \<longleftrightarrow> (\<forall>x \<in> set xs. P x)"
  by (induction xs) auto

lemma py_strip_Nil_iff: "py_strip s = [] \<longleftrightarrow> (\<forall>c \<in> set s. py_isspace c)"
proof -
  have "py_strip s = [] \<longleftrightarrow> dropWhile py_isspace (rev (dropWhile py_isspace s)) = []"
    by (simp add: py_strip_def)
  also have "\<dots> \<longleftrightarrow> (\<forall>c \<in> set (dropWhile py_isspace s). py_isspace c)"
    by (simp add: dropWhile_Nil_iff)
  also have "\<dots> \<longleftrightarrow> (\<forall>c \<in> set s. py_isspace c)"
    by (induction s) auto
  finally show ?thesis .
qed

lemma py_join_Cons: "xs \<noteq> [] \<Longrightarrow> py_join sep (x # xs) = x @ sep @ py_join sep xs"
  by (cases xs) auto

lemma length_py_join:
  "length (py_join sep xs) = sum_list (map length xs) + (length xs - 1) * length sep"
proof (induction sep xs rule: py_join.induct)
  case (3 sep x y ys)
  then show ?case by (simp add: algebra_simps)
qed simp_all

lemma py_join_append_sep:
  "xs \<noteq> [] \<Longrightarrow> py_join sep xs @ sep = concat (map (\<lambda>x. x @ sep) xs)"
proof (induction sep xs rule: py_join.induct)
  case (3 sep x y ys)
  then show ?case by simp
qed simp_all

lemma py_join_append_sep_suffix:
  "py_endswith (py_join sep xs @ sep) sep"
  by (simp add: py_endswith_def)

lemma py_endswith_append [simp]: "py_endswith (s @ t) t"
  by (simp add: py_endswith_def)

lemma py_endswith_Cons [simp]: "py_endswith s t \<Longrightarrow> py_endswith (c # s) t"
  by (auto simp: py_endswith_def Suc_diff_le)

lemma py_endswith_prefix [simp]: "py_endswith s t \<Longrightarrow> py_endswith (u @ s) t"
  by (induction u) simp_all

section \<open>split\<close>

lemma dividir_aux_libre:
  "c \<notin> set a \<Longrightarrow> dividir_aux c acc (a @ b) = dividir_aux c (rev a @ acc) b"
  by (induction a arbitrary: acc) auto


text \<open>Splitting a join at the separator's first character gives the pieces back.\<close>

lemma dividir_aux_py_join:
  assumes "\<forall>x \<in> set xs. c \<notin> set x" and "c \<notin> set sep" and "xs \<noteq> []"
  shows "dividir_aux c acc (py_join (c # sep) xs) = (rev acc @ hd xs) # map (\<lambda>x. sep @ x) (tl xs)"
  using assms
proof (induction "c # sep" xs arbitrary: acc rule: py_join.induct)
  case (2 x)
  then show ?case
    using dividir_aux_libre [of c x acc "[]"] by simp
next
  case (3 x y ys)
  have "dividir_aux c acc (x @ c # sep @ py_join (c # sep) (y # ys)) =
        (rev acc @ x) # dividir_aux c (rev sep) (py_join (c # sep) (y # ys))"
    using 3(2,3) by (simp add: dividir_aux_libre)
  also have "\<dots> = (rev acc @ x) # (sep @ y) # map (\<lambda>x. sep @ x) ys"
    using 3 by simp
  finally show ?case by simp
qed simp

lemma dividir_py_join:
  "\<forall>x \<in> set xs. c \<notin> set x \<Longrightarrow> c \<notin> set sep \<Longrightarrow> xs \<noteq> [] \<Longrightarrow>
   dividir c (py_join (c # sep) xs) = hd xs # map (\<lambda>x. sep @ x) (tl xs)"
  by (simp add: dividir_def dividir_aux_py_join)

section \<open>str of a count\<close>

text \<open>The recursion of \<open>str(n)\<close> terminates on every count.\<close>

lemma py_str_nat_dom_total: "py_str_nat_dom n"
  by (induction n rule: less_induct) (rule py_str_nat.domintros, simp)

lemma valor_digito_char: "d < 10 \<Longrightarrow> valor_digito (char_of (48 + d)) = d"
  by (simp add: valor_digito_def of_char_of)

lemma leer_nat_snoc: "leer_nat (s @ [c]) = 10 * leer_nat s + valor_digito c"
  by (simp add: leer_nat_def)

lemma leer_nat_py_str_nat: "leer_nat (py_str_nat n) = n"
proof (induction n rule: less_induct)
  case (less n)
  show ?case
  proof (cases "n < 10")
    case True
    then show ?thesis by (subst py_str_nat.simps) (simp add: leer_nat_def valor_digito_char)
  next
    case False
    then have "leer_nat (py_str_nat (n div 10)) = n div 10"
      using less by simp
    then show ?thesis
      using False by (subst py_str_nat.simps) (simp add: leer_nat_snoc valor_digito_char)
  qed
qed

lemma py_str_nat_digitos:
  "c \<in> set (py_str_nat n) \<Longrightarrow> 48 \<le> (of_char c :: nat) \<and> (of_char c :: nat) < 58"
proof (induction n rule: less_induct)
  case (less n)
  have d: "d < 10 \<Longrightarrow> of_char (char_of (48 + d)) = (48 + d :: nat)" for d :: nat
    by (simp add: of_char_of)
  have "\<not> n < 10 \<Longrightarrow> n div 10 < n"
    by simp
  then show ?case
    using less.prems less.IH [of "n div 10"] d [of n] d [of "n mod 10"]
    by (subst (asm) py_str_nat.simps) (auto split: if_splits)
qed

lemma py_str_nat_Nil [simp]: "py_str_nat n \<noteq> []"
  by (subst py_str_nat.simps) simp


text \<open>
  \<open>str(n).zfill(k)\<close>: the digits of \<open>n\<close> after leading zeros; it reads back as \<open>n\<close>
  and \<open>n\<close> has at most \<open>k\<close> digits exactly when \<open>n < 10 ^ k\<close>.
\<close>

lemma leer_nat_append: "leer_nat (xs @ ys) = leer_nat xs * 10 ^ length ys + leer_nat ys"
proof (induction ys rule: rev_induct)
  case Nil
  then show ?case by (simp add: leer_nat_def)
next
  case (snoc y ys)
  then show ?case
    by (simp only: append_assoc [symmetric] leer_nat_snoc) (simp add: algebra_simps leer_nat_def)
qed

lemma leer_nat_ceros [simp]: "leer_nat (replicate m CHR ''0'') = 0"
proof (induction m)
  case 0
  then show ?case by (simp add: leer_nat_def)
next
  case (Suc m)
  have "replicate (Suc m) CHR ''0'' = replicate m CHR ''0'' @ [CHR ''0'']"
    by (simp add: replicate_append_same)
  then show ?case using Suc by (simp add: leer_nat_snoc valor_digito_def)
qed

lemma length_py_str_nat: "0 < k \<Longrightarrow> length (py_str_nat n) \<le> k \<longleftrightarrow> n < 10 ^ k"
proof (induction n arbitrary: k rule: less_induct)
  case (less n)
  show ?case
  proof (cases "n < 10")
    case True
    then show ?thesis
      using less.prems power_increasing [of 1 k "10::nat"] by (subst py_str_nat.simps) simp
  next
    case False
    then obtain j where k: "k = Suc j" using less.prems by (cases k) auto
    show ?thesis
    proof (cases j)
      case 0
      then show ?thesis using False k by (subst py_str_nat.simps) simp
    next
      case (Suc i)
      have "length (py_str_nat (n div 10)) \<le> j \<longleftrightarrow> n div 10 < 10 ^ j"
        using less.IH [of "n div 10" j] False Suc by simp
      moreover have "n div 10 < 10 ^ j \<longleftrightarrow> n < 10 ^ k"
        using k by (auto simp: less_mult_imp_div_less div_less_iff_less_mult mult.commute)
      ultimately show ?thesis using False k by (subst py_str_nat.simps) simp
    qed
  qed
qed

lemma sin_signo_py_str_nat [simp]: "sin_signo (py_str_nat n)"
proof (cases "py_str_nat n")
  case Nil
  then show ?thesis by simp
next
  case (Cons c cs)
  then have "48 \<le> (of_char c :: nat)" using py_str_nat_digitos [of c n] by simp
  then show ?thesis using Cons by auto
qed

lemma leer_nat_zfill_py_str_nat [simp]: "leer_nat (zfill (py_str_nat n) k) = n"
  by (simp add: zfill_sin_signo leer_nat_append leer_nat_py_str_nat)

end
