(* ===== verification/Schema.thy ===== *)
theory Schema
  imports PyStr
begin

text \<open>
  The output layout of the \<open>.hab\<close> file: the table \<open>datos_formato_cliente\<close>
  that \<open>procesar_archivo\<close> builds at the start of every run
  (\<open>src/app.py\<close>, lines 68--81), one entry per output column, and the list
  \<open>campos\<close> of the columns read from the spreadsheet (line 87), and the
  required columns of the upload check with the missing ones. The lemmas give the
  facts of the table the encoder's proofs use: its length, its distinct names and
  the columns it reads.
\<close>

section \<open>The field table\<close>

text \<open>\<open>'Tipo'\<close>: \<open>'N'\<close> numeric, \<open>'A'\<close> alphanumeric.\<close>

datatype tipo = N | A

text \<open>One dictionary of \<open>datos_formato_cliente\<close>; \<open>default = None\<close> is Python's \<open>None\<close>.\<close>

record field_spec =
  orden :: nat
  campo :: string
  enteros :: nat
  decimales :: nat
  total :: nat
  tipo :: tipo
  default :: "string option"

definition datos_formato_cliente :: "string \<Rightarrow> field_spec list" where
  "datos_formato_cliente fecha_seleccionada =
    [\<lparr>orden = 1, campo = ''TIPO DE CONVENIO'', enteros = 3, decimales = 0, total = 3, tipo = N, default = Some ''013''\<rparr>,
     \<lparr>orden = 2, campo = ''SUCURSAL'', enteros = 5, decimales = 0, total = 5, tipo = N, default = None\<rparr>,
     \<lparr>orden = 3, campo = ''MONEDA'', enteros = 2, decimales = 0, total = 2, tipo = N, default = Some ''01''\<rparr>,
     \<lparr>orden = 4, campo = ''SISTEMA'', enteros = 1, decimales = 0, total = 1, tipo = N, default = Some ''3''\<rparr>,
     \<lparr>orden = 5, campo = ''CUENTA'', enteros = 9, decimales = 0, total = 9, tipo = N, default = None\<rparr>,
     \<lparr>orden = 6, campo = ''IMPORTE'', enteros = 18, decimales = 2, total = 18, tipo = N, default = None\<rparr>,
     \<lparr>orden = 7, campo = ''FECHA'', enteros = 8, decimales = 0, total = 8, tipo = N, default = Some fecha_seleccionada\<rparr>,
     \<lparr>orden = 8, campo = ''NRO CONVENIO CON LA EMPRESA'', enteros = 5, decimales = 0, total = 5, tipo = N, default = Some ''01465''\<rparr>,
     \<lparr>orden = 9, campo = ''SOLICITUD'', enteros = 6, decimales = 0, total = 6, tipo = N, default = None\<rparr>,
     \<lparr>orden = 10, campo = ''CBU'', enteros = 22, decimales = 0, total = 22, tipo = N, default = None\<rparr>,
     \<lparr>orden = 11, campo = ''CUOTA'', enteros = 2, decimales = 0, total = 2, tipo = N, default = Some ''00''\<rparr>,
     \<lparr>orden = 12, campo = ''CUIL'', enteros = 22, decimales = 0, total = 22, tipo = A, default = None\<rparr>]"

text \<open>\<open>campos\<close>: the names of the fields without a default, in table order.\<close>

definition campos :: "field_spec list \<Rightarrow> string list" where
  "campos fs = map campo (filter (\<lambda>f. default f = None) fs)"

text \<open>
  The columns the upload step requires of the sheet before it calls
  \<open>procesar_archivo\<close> (lines 208--209), and the missing ones, in order.
\<close>

definition columnas_requeridas :: "string list" where
  "columnas_requeridas =
     [''SUCURSAL'', ''CUENTA'', ''IMPORTE'', ''SOLICITUD'', ''CBU'', ''CUOTA'', ''CUIL'', ''CUIL_APODERADO'']"

definition columnas_faltantes :: "string list \<Rightarrow> string list" where
  "columnas_faltantes cols = [col \<leftarrow> columnas_requeridas. col \<notin> set cols]"

section \<open>Facts of the table\<close>

lemma datos_formato_cliente_length [simp]: "length (datos_formato_cliente fecha) = 12"
  by (simp add: datos_formato_cliente_def)


lemma campos_datos_formato_cliente:
  "campos (datos_formato_cliente fecha) = [''SUCURSAL'', ''CUENTA'', ''IMPORTE'', ''SOLICITUD'', ''CBU'', ''CUIL'']"
  by (simp add: campos_def datos_formato_cliente_def)

lemma distinct_campo_datos_formato_cliente [simp]:
  "distinct (map campo (datos_formato_cliente fecha))"
  by (simp add: datos_formato_cliente_def)

lemma columnas_faltantes_Nil_iff:
  "columnas_faltantes cols = [] \<longleftrightarrow> set columnas_requeridas \<subseteq> set cols"
  by (auto simp: columnas_faltantes_def filter_empty_conv)

end
