(* ===== verification/Frame.thy ===== *)
theory Frame
  imports Prelude
begin

text \<open>
  The part of pandas that \<open>procesar_archivo\<close> relies on, modelled from the pandas
  semantics of the calls \<open>src/app.py\<close> makes (the library is not under
  \<open>src/\<close>). A \<open>DataFrame\<close> is its ordered column names and its rows, each row
  with its index label. The point of the model is index alignment:
  \<open>df[c] = series\<close> matches the series to the frame by label (a label missing
  from the series gives NaN), while \<open>df.iloc[k]\<close> reads by position and
  \<open>df.at[i, c]\<close> writes by label. Boolean-mask filtering keeps labels, so after a
  filter labels and positions differ.

  The lemmas describe each operation on a frame whose index is the range
  \<open>0..n-1\<close> (\<open>range_rows\<close>), the shape of the result table of the encoder,
  and on frames whose labels are distinct, the shape of the filtered input.
\<close>

section \<open>Frames and series\<close>

record frame =
  columns :: "string list"
  rows :: "(nat \<times> row) list"

type_synonym series = "(nat \<times> cell) list"

text \<open>\<open>pd.DataFrame()\<close>.\<close>

definition empty_frame :: frame where
  "empty_frame = \<lparr>columns = [], rows = []\<rparr>"

text \<open>
  \<open>pd.read_excel(...)\<close> with the default \<open>RangeIndex\<close>: row \<open>k\<close> of the sheet
  has label \<open>k\<close>.
\<close>

definition frame_of_rows :: "string list \<Rightarrow> row list \<Rightarrow> frame" where
  "frame_of_rows cols rs = \<lparr>columns = cols, rows = enumerate 0 rs\<rparr>"

definition frame_len :: "frame \<Rightarrow> nat" where
  "frame_len df = length (rows df)"

definition add_col :: "string list \<Rightarrow> string \<Rightarrow> string list" where
  "add_col cs c = (if c \<in> set cs then cs else cs @ [c])"

text \<open>Reading a series at a label after reindexing: a missing label is NaN.\<close>

definition series_get :: "series \<Rightarrow> nat \<Rightarrow> cell" where
  "series_get s i = (case map_of s i of Some v \<Rightarrow> v | None \<Rightarrow> None)"

text \<open>\<open>df[df[c] <op> v]\<close>: a boolean mask on one column; \<open>KeyError\<close> if the column is missing.\<close>

definition frame_filter_col :: "frame \<Rightarrow> string \<Rightarrow> (cell \<Rightarrow> bool) \<Rightarrow> py_error + frame" where
  "frame_filter_col df c P =
     (if c \<in> set (columns df) then Inr (df\<lparr>rows := filter (\<lambda>(i, r). P (r c)) (rows df)\<rparr>)
      else Inl (KeyError c))"

text \<open>
  \<open>df[c] = [v0, v1, ...]\<close>: a frame with an empty index takes a \<open>RangeIndex\<close> of the
  list's length; otherwise the list must have the index's length (\<open>ValueError\<close>).
\<close>

definition frame_set_col_list :: "frame \<Rightarrow> string \<Rightarrow> cell list \<Rightarrow> py_error + frame" where
  "frame_set_col_list df c vs =
     (let rs = (if rows df = [] \<and> vs \<noteq> [] then map (\<lambda>i. (i, \<lambda>_. None)) [0..<length vs] else rows df)
      in if length vs \<noteq> length rs then Inl (ValueError (length vs) (length rs))
         else Inr \<lparr>columns = add_col (columns df) c,
                   rows = map (\<lambda>((i, r), v). (i, r(c := v))) (zip rs vs)\<rparr>)"

text \<open>
  \<open>df[c] = series\<close>: the series is aligned to the frame's index by label; a frame with
  an empty index takes the series' index.
\<close>

definition frame_set_col_series :: "frame \<Rightarrow> string \<Rightarrow> series \<Rightarrow> frame" where
  "frame_set_col_series df c s =
     (let rs = (if rows df = [] \<and> s \<noteq> [] then map (\<lambda>(i, _). (i, \<lambda>_. None)) s else rows df)
      in \<lparr>columns = add_col (columns df) c,
          rows = map (\<lambda>(i, r). (i, r(c := series_get s i))) rs\<rparr>)"

text \<open>\<open>df.iloc[k]\<close>: the row at position \<open>k\<close>.\<close>

definition frame_iloc :: "frame \<Rightarrow> nat \<Rightarrow> py_error + row" where
  "frame_iloc df k = (if k < length (rows df) then Inr (snd (rows df ! k)) else Inl IndexError)"

text \<open>\<open>row.get(c, d)\<close> on a row of a frame with columns \<open>cols\<close>.\<close>

definition row_get :: "string list \<Rightarrow> row \<Rightarrow> string \<Rightarrow> cell \<Rightarrow> cell" where
  "row_get cols r c d = (if c \<in> set cols then r c else d)"

text \<open>\<open>df.at[i, c] = v\<close>: writes at label \<open>i\<close>; a new label appends a row.\<close>

definition frame_at_set :: "frame \<Rightarrow> nat \<Rightarrow> string \<Rightarrow> cell \<Rightarrow> frame" where
  "frame_at_set df i c v =
     (if i \<in> fst ` set (rows df)
      then \<lparr>columns = add_col (columns df) c,
            rows = map (\<lambda>(j, r). if j = i then (j, r(c := v)) else (j, r)) (rows df)\<rparr>
      else \<lparr>columns = add_col (columns df) c, rows = rows df @ [(i, (\<lambda>_. None)(c := v))]\<rparr>)"

text \<open>
  A well-formed frame: distinct column names and an index whose labels strictly
  increase, as every frame the encoder builds from a \<open>RangeIndex\<close> has.
\<close>

definition frame_wf :: "frame \<Rightarrow> bool" where
  "frame_wf df \<longleftrightarrow> distinct (columns df) \<and> sorted_wrt (<) (map fst (rows df))"

text \<open>\<open>df.head(n)\<close>: the first \<open>n\<close> rows.\<close>

definition frame_head :: "nat \<Rightarrow> frame \<Rightarrow> frame" where
  "frame_head n df = df\<lparr>rows := take n (rows df)\<rparr>"

section \<open>Frames indexed by a range\<close>

definition range_rows :: "nat \<Rightarrow> (nat \<Rightarrow> row) \<Rightarrow> (nat \<times> row) list" where
  "range_rows n g = map (\<lambda>i. (i, g i)) [0..<n]"

lemma range_rows_0 [simp]: "range_rows 0 g = []"
  by (simp add: range_rows_def)

lemma range_rows_Nil_iff [simp]: "range_rows n g = [] \<longleftrightarrow> n = 0"
  by (simp add: range_rows_def)

lemma range_rows_cong:
  "(\<And>i. i < n \<Longrightarrow> g i = g' i) \<Longrightarrow> range_rows n g = range_rows n g'"
  by (simp add: range_rows_def)

lemma length_range_rows [simp]: "length (range_rows n g) = n"
  by (simp add: range_rows_def)

lemma labels_range_rows [simp]: "fst ` set (range_rows n g) = {..<n}"
  by (auto simp: range_rows_def image_iff)

lemma frame_set_col_list_empty [frame_simps]:
  "frame_set_col_list empty_frame c vs =
     Inr \<lparr>columns = [c], rows = range_rows (length vs) (\<lambda>i. (\<lambda>_. None)(c := vs ! i))\<rparr>"
proof -
  have "map (\<lambda>((i, r), v). (i, r(c := v))) (zip (map (\<lambda>i. (i, \<lambda>_. None)) [0..<length vs]) vs) =
        range_rows (length vs) (\<lambda>i. (\<lambda>_. None)(c := vs ! i))"
    by (rule nth_equalityI) (simp_all add: range_rows_def)
  then show ?thesis
    by (simp add: frame_set_col_list_def empty_frame_def add_col_def)
qed

lemma frame_set_col_list_range [frame_simps]:
  "length vs = n \<Longrightarrow>
   frame_set_col_list \<lparr>columns = cs, rows = range_rows n g\<rparr> c vs =
     Inr \<lparr>columns = add_col cs c, rows = range_rows n (\<lambda>i. (g i)(c := vs ! i))\<rparr>"
proof -
  assume len: "length vs = n"
  have "map (\<lambda>((i, r), v). (i, r(c := v))) (zip (range_rows n g) vs) =
        range_rows n (\<lambda>i. (g i)(c := vs ! i))"
    using len by (intro nth_equalityI) (simp_all add: range_rows_def)
  with len show ?thesis
    by (simp add: frame_set_col_list_def)
qed

lemma frame_set_col_series_range [frame_simps]:
  "length s = n \<Longrightarrow>
   frame_set_col_series \<lparr>columns = cs, rows = range_rows n g\<rparr> c s =
     \<lparr>columns = add_col cs c, rows = range_rows n (\<lambda>i. (g i)(c := series_get s i))\<rparr>"
  by (auto simp: frame_set_col_series_def range_rows_def)

lemma frame_at_set_range [frame_simps]:
  "i < n \<Longrightarrow>
   frame_at_set \<lparr>columns = cs, rows = range_rows n g\<rparr> i c v =
     \<lparr>columns = add_col cs c, rows = range_rows n (g(i := (g i)(c := v)))\<rparr>"
proof -
  assume "i < n"
  then have "i \<in> fst ` set (range_rows n g)" by simp
  then show ?thesis
    by (auto simp: frame_at_set_def range_rows_def)
qed

lemma frame_filter_col_range [frame_simps]:
  "c \<in> set cs \<Longrightarrow>
   frame_filter_col \<lparr>columns = cs, rows = range_rows n g\<rparr> c P =
     Inr \<lparr>columns = cs, rows = map (\<lambda>i. (i, g i)) (filter (\<lambda>i. P (g i c)) [0..<n])\<rparr>"
  by (simp add: frame_filter_col_def range_rows_def filter_map comp_def)

section \<open>Series built from a frame's own rows\<close>

lemma series_get_map:
  "series_get (map (\<lambda>(j, r). (j, Some (h r))) xs) i = map_option h (map_of xs i)"
proof (induction xs)
  case Nil
  then show ?case by (simp add: series_get_def)
next
  case (Cons x xs)
  then show ?case by (cases x) (simp add: series_get_def)
qed

lemma series_get_map_cell:
  "series_get (map (\<lambda>(j, r). (j, h r)) xs) i = (case map_of xs i of Some r \<Rightarrow> h r | None \<Rightarrow> None)"
proof (induction xs)
  case Nil
  then show ?case by (simp add: series_get_def)
next
  case (Cons x xs)
  then show ?case by (cases x) (simp add: series_get_def)
qed

text \<open>
  Assigning a series computed from the frame's own column realigns to the same labels,
  so with distinct labels it is a row-wise update.
\<close>

lemma frame_set_col_series_self [frame_simps]:
  assumes "distinct (map fst (rows df))"
  shows "frame_set_col_series df c (map (\<lambda>(j, r). (j, h r)) (rows df)) =
     \<lparr>columns = add_col (columns df) c, rows = map (\<lambda>(i, r). (i, r(c := h r))) (rows df)\<rparr>"
proof -
  have "\<And>i r. (i, r) \<in> set (rows df) \<Longrightarrow> map_of (rows df) i = Some r"
    using assms by (simp add: map_of_is_SomeI)
  then have "map (\<lambda>(i, r). (i, r(c := series_get (map (\<lambda>(j, r). (j, h r)) (rows df)) i))) (rows df) =
             map (\<lambda>(i, r). (i, r(c := h r))) (rows df)"
    by (auto simp: series_get_map_cell)
  then show ?thesis
    by (cases "rows df") (auto simp: frame_set_col_series_def)
qed

lemma frame_filter_col_of_rows [frame_simps]:
  "c \<in> set cols \<Longrightarrow>
   frame_filter_col (frame_of_rows cols rs) c P =
     Inr \<lparr>columns = cols, rows = filter (\<lambda>(i, r). P (r c)) (enumerate 0 rs)\<rparr>"
  by (simp add: frame_filter_col_def frame_of_rows_def)

lemma columns_frame_of_rows [simp]: "columns (frame_of_rows cols rs) = cols"
  by (simp add: frame_of_rows_def)

lemma frame_iloc_nth [frame_simps]:
  "k < length (rows df) \<Longrightarrow> frame_iloc df k = Inr (snd (rows df ! k))"
  by (simp add: frame_iloc_def)

lemma fold_add_col:
  "distinct xs \<Longrightarrow> set xs \<inter> set cs = {} \<Longrightarrow> fold (\<lambda>x cs. add_col cs x) xs cs = cs @ xs"
  by (induction xs arbitrary: cs) (auto simp: add_col_def)

end
