(* ===== verification/Carga.thy ===== *)
theory Carga
  imports Schema Frame
begin

text \<open>
  The upload step of \<open>src/app.py\<close> (lines 198--215 and 273--274): the uploaded
  file is read with \<open>pd.read_excel\<close>, the required columns are checked, and a
  sheet that lacks some of them is refused with a message listing the missing
  ones. The reader of that message splits it at its commas. The lemmas show that
  the message names exactly the missing columns, in the order of
  \<open>columnas_requeridas\<close>, and that a sheet is accepted exactly when it has all
  eight.
\<close>

section \<open>Reading the file\<close>

text \<open>
  An uploaded file: a sheet \<open>pd.read_excel\<close> can read (its columns and rows, the
  cells as the string converters of lines 201--205 give them), or one it cannot
  (any exception of the reader, caught at line 273, with the text \<open>str(e)\<close>).
\<close>

datatype archivo = Hoja "string list" "row list" | Ilegible string

text \<open>Lines 199--205: \<open>pd.read_excel\<close>; \<open>Inl (str(e))\<close> when it raises.\<close>

definition leer_excel :: "archivo \<Rightarrow> string + frame" where
  "leer_excel a = (case a of Hoja cols rs \<Rightarrow> Inr (frame_of_rows cols rs) | Ilegible e \<Rightarrow> Inl e)"

section \<open>The column check\<close>

definition prefijo_faltantes :: string where
  "prefijo_faltantes = ''El archivo no contiene las siguientes columnas requeridas: ''"

text \<open>Line 212: the message shown when columns are missing.\<close>

definition mensaje_columnas_faltantes :: "string list \<Rightarrow> string" where
  "mensaje_columnas_faltantes cols =
     prefijo_faltantes @ py_join '', '' (columnas_faltantes cols)"

text \<open>
  Lines 210--214: a readable sheet is accepted when no column is missing, and refused
  with the message otherwise.
\<close>

definition verificar_columnas :: "frame \<Rightarrow> string + frame" where
  "verificar_columnas df =
     (if columnas_faltantes (columns df) \<noteq> [] then Inl (mensaje_columnas_faltantes (columns df))
      else Inr df)"

text \<open>How a reader gets the list back: drop the fixed text, split at commas, trim.\<close>

definition leer_columnas :: "string \<Rightarrow> string list" where
  "leer_columnas msg =
     map (dropWhile (\<lambda>c. c = CHR '' '')) (dividir (CHR '','') (drop (length prefijo_faltantes) msg))"

section \<open>Lemmas\<close>

lemma columnas_faltantes_requeridas: "set (columnas_faltantes cols) \<subseteq> set columnas_requeridas"
  by (auto simp: columnas_faltantes_def)

lemma nombres_requeridos:
  "\<forall>x \<in> set columnas_requeridas. CHR '','' \<notin> set x \<and> x \<noteq> [] \<and> hd x \<noteq> CHR '' ''"
  by (simp add: columnas_requeridas_def)

lemma leer_columnas_mensaje:
  assumes "columnas_faltantes cols \<noteq> []"
  shows "leer_columnas (mensaje_columnas_faltantes cols) = columnas_faltantes cols"
proof -
  obtain y ys where e: "columnas_faltantes cols = y # ys"
    using assms by (cases "columnas_faltantes cols") auto
  have n: "\<forall>x \<in> set (y # ys). CHR '','' \<notin> set x \<and> x \<noteq> [] \<and> hd x \<noteq> CHR '' ''"
    using nombres_requeridos columnas_faltantes_requeridas [of cols] unfolding e by blast
  have d: "dividir (CHR '','') (py_join (CHR '','' # '' '') (y # ys)) = y # map (\<lambda>x. '' '' @ x) ys"
    using n by (subst dividir_py_join) auto
  have t: "dropWhile (\<lambda>c. c = CHR '' '') x = x" if "x \<in> set (y # ys)" for x
    using n that by (cases x) auto
  have "map (dropWhile (\<lambda>c. c = CHR '' '')) (y # map (\<lambda>x. '' '' @ x) ys) = y # ys"
    using t by (simp add: map_idI)
  then show ?thesis
    using d by (simp add: leer_columnas_def mensaje_columnas_faltantes_def e)
qed

lemma verificar_columnas_Inr_iff:
  "verificar_columnas df = Inr df' \<longleftrightarrow> set columnas_requeridas \<subseteq> set (columns df) \<and> df' = df"
  by (auto simp: verificar_columnas_def columnas_faltantes_Nil_iff)

end
