(* ===== verification/Procesar.thy ===== *)
theory Procesar
  imports Schema Frame
begin

text \<open>
  The encoder \<open>procesar_archivo(lote_df, fecha_seleccionada)\<close> of
  \<open>src/app.py\<close> (lines 66--146), one definition per step, composed as the function
  composes them: the \<open>CUOTA\<close> filter, the \<open>IMPORTE\<close> suffix, the field loop that
  builds the result table, the \<open>CUIL\<close> prefix rule, the \<open>SOLICITUD\<close> filter, and
  the assembly of the CRLF-terminated file content. Every exception the steps can raise
  is an \<open>Inl\<close> branch.

  The lemmas first follow each step on the shapes the previous step produces, then
  combine them into a closed description of the result of a run on a sheet that has the
  required columns: its lines are given by \<open>linea_esperada\<close>.
\<close>

section \<open>The steps of procesar_archivo\<close>

text \<open>Line 91: \<open>lote = lote[(lote['CUOTA'] != '3')]\<close>; NaN differs from \<open>'3'\<close>.\<close>

definition filtrar_cuota :: "frame \<Rightarrow> py_error + frame" where
  "filtrar_cuota lote = frame_filter_col lote ''CUOTA'' (\<lambda>v. v \<noteq> Some ''3'')"

text \<open>Lines 94--95: \<open>lote['IMPORTE'] = lote['IMPORTE'].astype(str) + '00'\<close>.\<close>

definition importe_con_ceros :: "cell \<Rightarrow> cell" where
  "importe_con_ceros v = Some (py_str v @ ''00'')"

definition agregar_ceros_importe :: "frame \<Rightarrow> frame" where
  "agregar_ceros_importe lote =
     (if ''IMPORTE'' \<in> set (columns lote)
      then frame_set_col_series lote ''IMPORTE''
             (map (\<lambda>(i, r). (i, importe_con_ceros (r ''IMPORTE''))) (rows lote))
      else lote)"

text \<open>
  Lines 100--109: for each field in table order, a field with a default gets the
  zero-filled default on every row (a list, so positions count); otherwise, if the
  sheet has the column, the zero-filled \<open>str\<close> of the cell (a series, so labels
  count); a missing column is skipped.
\<close>

fun resolver_campos :: "frame \<Rightarrow> field_spec list \<Rightarrow> frame \<Rightarrow> py_error + frame" where
  "resolver_campos lote [] resultado = Inr resultado"
| "resolver_campos lote (f # fs) resultado =
     (case default f of
        Some d \<Rightarrow>
          (case frame_set_col_list resultado (campo f)
                  (replicate (frame_len lote) (Some (zfill d (enteros f)))) of
             Inl e \<Rightarrow> Inl e
           | Inr resultado' \<Rightarrow> resolver_campos lote fs resultado')
      | None \<Rightarrow>
          (if campo f \<in> set (columns lote)
           then resolver_campos lote fs
                  (frame_set_col_series resultado (campo f)
                     (map (\<lambda>(i, r). (i, Some (zfill (py_str (r (campo f))) (enteros f)))) (rows lote)))
           else resolver_campos lote fs resultado))"

text \<open>Line 123: the prefix is \<open>'2'\<close> when \<open>CUIL_APODERADO\<close> is NaN, \<open>None\<close> or empty.\<close>

definition prefijo_cuil :: "cell \<Rightarrow> string" where
  "prefijo_cuil cuil_apoderado =
     (if cuil_apoderado = None \<or> cuil_apoderado = Some '''' then ''2'' else ''1'')"

text \<open>Lines 126--133: prefix and pad to 22, or the empty string for a blank CUIL.\<close>

definition valor_cuil :: "cell \<Rightarrow> string \<Rightarrow> string" where
  "valor_cuil cuil_apoderado cuil_original =
     (if cuil_original \<noteq> [] \<and> py_strip cuil_original \<noteq> []
      then zfill (prefijo_cuil cuil_apoderado @ cuil_original) 22
      else [])"

text \<open>
  Lines 117--133 on one source row: \<open>lote_row.get('CUIL_APODERADO', None)\<close>,
  \<open>str(lote_row.get('CUIL', ''))\<close>, then the rule above.
\<close>

definition cuil_de_fila :: "string list \<Rightarrow> row \<Rightarrow> string" where
  "cuil_de_fila cols lote_row =
     (let cuil_apoderado = row_get cols lote_row ''CUIL_APODERADO'' None;
          cuil_original = py_str (row_get cols lote_row ''CUIL'' (Some ''''))
      in valor_cuil cuil_apoderado cuil_original)"

text \<open>
  Lines 114--133, the body of the loop for one label \<open>idx\<close> of the result table:
  the source row is read by position (\<open>lote.iloc[idx]\<close>), the result is written by
  label (\<open>resultado.at[idx, 'CUIL']\<close>).
\<close>

definition regla_cuil_fila :: "frame \<Rightarrow> frame \<Rightarrow> nat \<Rightarrow> py_error + frame" where
  "regla_cuil_fila lote resultado idx =
     (case frame_iloc lote idx of
        Inl e \<Rightarrow> Inl e
      | Inr lote_row \<Rightarrow>
          Inr (frame_at_set resultado idx ''CUIL'' (Some (cuil_de_fila (columns lote) lote_row))))"

fun aplicar_regla_cuil :: "frame \<Rightarrow> nat list \<Rightarrow> frame \<Rightarrow> py_error + frame" where
  "aplicar_regla_cuil lote [] resultado = Inr resultado"
| "aplicar_regla_cuil lote (idx # idxs) resultado =
     (case regla_cuil_fila lote resultado idx of
        Inl e \<Rightarrow> Inl e
      | Inr resultado' \<Rightarrow> aplicar_regla_cuil lote idxs resultado')"

text \<open>Lines 112--114: the loop runs over the labels of the result table, in order.\<close>

definition regla_cuil :: "frame \<Rightarrow> frame \<Rightarrow> py_error + frame" where
  "regla_cuil lote resultado =
     (if ''CUIL'' \<in> set (columns resultado)
      then aplicar_regla_cuil lote (map fst (rows resultado)) resultado
      else Inr resultado)"

text \<open>Line 136: \<open>resultado = resultado[(resultado['SOLICITUD'].notna())]\<close>.\<close>

definition filtrar_solicitud :: "frame \<Rightarrow> py_error + frame" where
  "filtrar_solicitud resultado = frame_filter_col resultado ''SOLICITUD'' (\<lambda>v. v \<noteq> None)"

text \<open>Lines 139--141: each row's cells, \<open>str\<close>-converted, concatenated in column order.\<close>

definition lineas_hab :: "frame \<Rightarrow> string list" where
  "lineas_hab resultado =
     map (\<lambda>(i, r). concat (map (\<lambda>c. py_str (r c)) (columns resultado))) (rows resultado)"

definition crlf :: string where
  "crlf = [CHR 0x0D, CHR 0x0A]"

text \<open>Line 144: \<open>'\r\n'.join(contenido_hab) + '\r\n'\<close>.\<close>

definition contenido_hab :: "string list \<Rightarrow> string" where
  "contenido_hab lineas = py_join crlf lineas @ crlf"

text \<open>Lines 66--146: the whole function; it returns the result table and the content.\<close>

definition procesar_archivo :: "frame \<Rightarrow> string \<Rightarrow> py_error + (frame \<times> string)" where
  "procesar_archivo lote_df fecha_seleccionada =
     (case filtrar_cuota lote_df of
        Inl e \<Rightarrow> Inl e
      | Inr lote1 \<Rightarrow>
          (let lote = agregar_ceros_importe lote1 in
           case resolver_campos lote (datos_formato_cliente fecha_seleccionada) empty_frame of
             Inl e \<Rightarrow> Inl e
           | Inr res1 \<Rightarrow>
               (case regla_cuil lote res1 of
                  Inl e \<Rightarrow> Inl e
                | Inr res2 \<Rightarrow>
                    (case filtrar_solicitud res2 of
                       Inl e \<Rightarrow> Inl e
                     | Inr resultado \<Rightarrow> Inr (resultado, contenido_hab (lineas_hab resultado))))))"

section \<open>Describing a run\<close>

text \<open>
  The values a run computes, stated row by row so that the lemmas below can say what
  each step returns. \<open>campos_presentes\<close> are the fields that get a column: those
  with a default and those whose column the sheet has (line 108).
  \<open>valor_campo f r\<close> is the zero-filled text of field \<open>f\<close> for source row \<open>r\<close>,
  \<open>valor_resuelto lote f i\<close> the cell the field loop leaves at label \<open>i\<close> of the
  result table: NaN when \<open>i\<close> is no label of \<open>lote\<close>.
\<close>

definition campos_presentes :: "string list \<Rightarrow> field_spec list \<Rightarrow> field_spec list" where
  "campos_presentes cols fs = filter (\<lambda>f. default f \<noteq> None \<or> campo f \<in> set cols) fs"

definition valor_campo :: "field_spec \<Rightarrow> row \<Rightarrow> string" where
  "valor_campo f r =
     (case default f of
        Some d \<Rightarrow> zfill d (enteros f)
      | None \<Rightarrow> zfill (py_str (r (campo f))) (enteros f))"

definition valor_resuelto :: "frame \<Rightarrow> field_spec \<Rightarrow> nat \<Rightarrow> cell" where
  "valor_resuelto lote f i =
     (case default f of
        Some d \<Rightarrow> Some (zfill d (enteros f))
      | None \<Rightarrow> map_option (valor_campo f) (map_of (rows lote) i))"

definition con_ceros :: "row list \<Rightarrow> row list" where
  "con_ceros rs = map (\<lambda>r. r(''IMPORTE'' := importe_con_ceros (r ''IMPORTE''))) rs"

text \<open>The source rows after the \<open>IMPORTE\<close> step, when the sheet has the column.\<close>

definition filas_lote :: "string list \<Rightarrow> row list \<Rightarrow> row list" where
  "filas_lote cols rs = (if ''IMPORTE'' \<in> set cols then con_ceros rs else rs)"

text \<open>\<open>lote\<close> after lines 90--95: the eligible rows, with their original labels.\<close>

definition lote_esperado :: "string list \<Rightarrow> row list \<Rightarrow> frame" where
  "lote_esperado cols rs =
     \<lparr>columns = cols,
      rows = filter (\<lambda>(i, r). r ''CUOTA'' \<noteq> Some ''3'') (enumerate 0 (filas_lote cols rs))\<rparr>"

text \<open>
  Row \<open>i\<close> of the result table before the \<open>SOLICITUD\<close> filter: the field loop's
  cells, with \<open>CUIL\<close> overwritten from the source row at position \<open>i\<close>.
\<close>

definition fila_esperada :: "string list \<Rightarrow> string \<Rightarrow> row list \<Rightarrow> nat \<Rightarrow> row" where
  "fila_esperada cols fecha rs i =
     (let lote = lote_esperado cols rs;
          g = fold (\<lambda>f r. r(campo f := valor_resuelto lote f i))
                (campos_presentes cols (datos_formato_cliente fecha)) (\<lambda>_. None)
      in if ''CUIL'' \<in> set cols
         then g(''CUIL'' := Some (cuil_de_fila cols (snd (rows lote ! i))))
         else g)"

definition tabla_esperada :: "string list \<Rightarrow> string \<Rightarrow> row list \<Rightarrow> frame" where
  "tabla_esperada cols fecha rs =
     \<lparr>columns = map campo (campos_presentes cols (datos_formato_cliente fecha)),
      rows = range_rows (length (rows (lote_esperado cols rs))) (fila_esperada cols fecha rs)\<rparr>"

text \<open>
  The line of the \<open>.hab\<close> file built from source row \<open>r\<close>, with the \<open>CUIL\<close>
  taken from row \<open>r_cuil\<close>; and the lines of a whole run: the result table has one
  row per eligible source row, but a row survives only if its label is the label of an
  eligible row, and its \<open>CUIL\<close> comes from the eligible row at that position.
\<close>

definition linea_esperada :: "string list \<Rightarrow> string \<Rightarrow> row \<Rightarrow> row \<Rightarrow> string" where
  "linea_esperada cols fecha r r_cuil =
     concat (map (\<lambda>f. if campo f = ''CUIL'' then cuil_de_fila cols r_cuil else valor_campo f r)
                 (campos_presentes cols (datos_formato_cliente fecha)))"

definition lineas_esperadas :: "string list \<Rightarrow> string \<Rightarrow> row list \<Rightarrow> string list" where
  "lineas_esperadas cols fecha rs =
     (let rs' = filas_lote cols rs; kept = filter (\<lambda>r. r ''CUOTA'' \<noteq> Some ''3'') rs'
      in map (\<lambda>i. linea_esperada cols fecha (rs' ! i) (kept ! i))
             (filter (\<lambda>i. (rs ! i) ''CUOTA'' \<noteq> Some ''3'') [0..<length kept]))"

section \<open>Each step on the shapes of a run\<close>

lemma resolver_campos_range:
  assumes "length (rows lote) = n"
  shows "resolver_campos lote fs \<lparr>columns = cs, rows = range_rows n g\<rparr> =
    Inr \<lparr>columns = fold (\<lambda>f cs. add_col cs (campo f)) (campos_presentes (columns lote) fs) cs,
         rows = range_rows n (\<lambda>i. fold (\<lambda>f r. r(campo f := valor_resuelto lote f i))
                                   (campos_presentes (columns lote) fs) (g i))\<rparr>"
proof (induction fs arbitrary: cs g)
  case Nil
  show ?case by (simp add: campos_presentes_def)
next
  case (Cons f fs)
  show ?case
  proof (cases "default f")
    case None
    show ?thesis
    proof (cases "campo f \<in> set (columns lote)")
      case True
      have sg: "series_get (map (\<lambda>(i, r). (i, Some (zfill (py_str (r (campo f))) (enteros f)))) (rows lote)) =
                valor_resuelto lote f"
      proof -
        have vc: "valor_campo f = (\<lambda>r. zfill (py_str (r (campo f))) (enteros f))"
          using None by (simp add: fun_eq_iff valor_campo_def)
        show ?thesis by (rule ext) (simp add: series_get_map valor_resuelto_def None vc)
      qed
      from True None Cons.IH assms show ?thesis
        by (simp add: frame_set_col_series_range campos_presentes_def sg del: fun_upd_apply)
    next
      case False
      with None Cons.IH show ?thesis
        by (simp add: campos_presentes_def)
    qed
  next
    case (Some d)
    let ?v = "Some (zfill d (enteros f))"
    have "range_rows n (\<lambda>i. fold (\<lambda>f r. r(campo f := valor_resuelto lote f i)) (campos_presentes (columns lote) fs)
             ((g i)(campo f := replicate n ?v ! i))) =
          range_rows n (\<lambda>i. fold (\<lambda>f r. r(campo f := valor_resuelto lote f i)) (campos_presentes (columns lote) fs)
             ((g i)(campo f := valor_resuelto lote f i)))"
      using Some by (intro range_rows_cong) (simp add: valor_resuelto_def del: fun_upd_apply)
    with Some Cons.IH assms show ?thesis
      by (simp add: frame_set_col_list_range frame_len_def campos_presentes_def del: fun_upd_apply)
  qed
qed

lemma resolver_campos_empty:
  assumes "default f = Some d"
  shows "resolver_campos lote (f # fs) empty_frame =
         resolver_campos lote (f # fs) \<lparr>columns = [], rows = range_rows (length (rows lote)) (\<lambda>_ _. None)\<rparr>"
proof -
  let ?vs = "replicate (frame_len lote) (Some (zfill d (enteros f)))"
  have "frame_set_col_list empty_frame (campo f) ?vs =
        frame_set_col_list \<lparr>columns = [], rows = range_rows (length (rows lote)) (\<lambda>_ _. None)\<rparr> (campo f) ?vs"
    by (simp only: frame_set_col_list_empty frame_set_col_list_range length_replicate frame_len_def)
       (simp add: add_col_def)
  then show ?thesis
    using assms by (simp only: resolver_campos.simps option.case)
qed

lemma map_fst_range_rows [simp]: "map fst (range_rows n g) = [0..<n]"
  by (simp add: range_rows_def comp_def)

lemma aplicar_regla_cuil_range:
  assumes "\<forall>i \<in> set idxs. i < n" and "length (rows lote) = n" and "''CUIL'' \<in> set cs"
  shows "aplicar_regla_cuil lote idxs \<lparr>columns = cs, rows = range_rows n g\<rparr> =
    Inr \<lparr>columns = cs, rows = range_rows n (\<lambda>i. if i \<in> set idxs
          then (g i)(''CUIL'' := Some (cuil_de_fila (columns lote) (snd (rows lote ! i)))) else g i)\<rparr>"
  using assms(1)
proof (induction idxs arbitrary: g)
  case Nil
  then show ?case by simp
next
  case (Cons idx idxs)
  let ?v = "\<lambda>i. Some (cuil_de_fila (columns lote) (snd (rows lote ! i)))"
  from Cons.prems have idx: "idx < n" and rest: "\<forall>i \<in> set idxs. i < n" by auto
  have step: "regla_cuil_fila lote \<lparr>columns = cs, rows = range_rows n g\<rparr> idx =
              Inr \<lparr>columns = cs, rows = range_rows n (g(idx := (g idx)(''CUIL'' := ?v idx)))\<rparr>"
    using idx assms(2,3) by (simp add: regla_cuil_fila_def frame_iloc_nth frame_at_set_range add_col_def)
  have "range_rows n (\<lambda>i. if i \<in> set idxs then ((g(idx := (g idx)(''CUIL'' := ?v idx))) i)(''CUIL'' := ?v i)
                          else (g(idx := (g idx)(''CUIL'' := ?v idx))) i) =
        range_rows n (\<lambda>i. if i \<in> set (idx # idxs) then (g i)(''CUIL'' := ?v i) else g i)"
    by (intro range_rows_cong) auto
  with step Cons.IH [OF rest] show ?case by simp
qed

lemma regla_cuil_range:
  assumes "length (rows lote) = n" and "''CUIL'' \<in> set cs"
  shows "regla_cuil lote \<lparr>columns = cs, rows = range_rows n g\<rparr> =
    Inr \<lparr>columns = cs, rows = range_rows n (\<lambda>i.
          (g i)(''CUIL'' := Some (cuil_de_fila (columns lote) (snd (rows lote ! i)))))\<rparr>"
proof -
  have "aplicar_regla_cuil lote [0..<n] \<lparr>columns = cs, rows = range_rows n g\<rparr> =
    Inr \<lparr>columns = cs, rows = range_rows n (\<lambda>i.
          (g i)(''CUIL'' := Some (cuil_de_fila (columns lote) (snd (rows lote ! i)))))\<rparr>"
  proof -
    have "range_rows n (\<lambda>i. if i \<in> set [0..<n]
            then (g i)(''CUIL'' := Some (cuil_de_fila (columns lote) (snd (rows lote ! i)))) else g i) =
          range_rows n (\<lambda>i. (g i)(''CUIL'' := Some (cuil_de_fila (columns lote) (snd (rows lote ! i)))))"
      by (rule range_rows_cong) simp
    with aplicar_regla_cuil_range [of "[0..<n]" n lote cs g] assms show ?thesis
      by simp
  qed
  with assms show ?thesis by (simp add: regla_cuil_def)
qed

lemma agregar_ceros_importe_lote:
  "agregar_ceros_importe \<lparr>columns = cols, rows = filter (\<lambda>(i, r). r ''CUOTA'' \<noteq> Some ''3'') (enumerate 0 rs)\<rparr> =
   lote_esperado cols rs"
proof (cases "''IMPORTE'' \<in> set cols")
  case True
  let ?f = "\<lambda>r. r(''IMPORTE'' := importe_con_ceros (r ''IMPORTE''))"
  have "map (\<lambda>(i, r). (i, ?f r)) (filter (\<lambda>(i, r). r ''CUOTA'' \<noteq> Some ''3'') (enumerate 0 rs)) =
        filter (\<lambda>(i, r). r ''CUOTA'' \<noteq> Some ''3'') (enumerate 0 (map ?f rs))"
    by (rule map_filter_enumerate_commute) simp
  then show ?thesis
    using True frame_set_col_series_self [of "\<lparr>columns = cols, rows = filter (\<lambda>(i, r). r ''CUOTA'' \<noteq> Some ''3'') (enumerate 0 rs)\<rparr>"]
    by (simp add: agregar_ceros_importe_def lote_esperado_def filas_lote_def con_ceros_def add_col_def)
next
  case False
  then show ?thesis
    by (simp add: agregar_ceros_importe_def lote_esperado_def filas_lote_def)
qed

lemma length_filas_lote [simp]: "length (filas_lote cols rs) = length rs"
  by (simp add: filas_lote_def con_ceros_def)

lemma filas_lote_cuota:
  "i < length rs \<Longrightarrow> (filas_lote cols rs ! i) ''CUOTA'' = (rs ! i) ''CUOTA''"
  by (simp add: filas_lote_def con_ceros_def)

lemma length_rows_lote_esperado:
  "length (rows (lote_esperado cols rs)) = length (filter (\<lambda>r. r ''CUOTA'' \<noteq> Some ''3'') (filas_lote cols rs))"
  by (simp add: lote_esperado_def)

lemma length_rows_lote_esperado_le: "length (rows (lote_esperado cols rs)) \<le> length rs"
  using length_filter_le [of _ "filas_lote cols rs"] by (simp add: length_rows_lote_esperado)

lemma snd_rows_lote_esperado:
  "i < length (rows (lote_esperado cols rs)) \<Longrightarrow>
   snd (rows (lote_esperado cols rs) ! i) = filter (\<lambda>r. r ''CUOTA'' \<noteq> Some ''3'') (filas_lote cols rs) ! i"
proof -
  assume i: "i < length (rows (lote_esperado cols rs))"
  have "map snd (rows (lote_esperado cols rs)) = filter (\<lambda>r. r ''CUOTA'' \<noteq> Some ''3'') (filas_lote cols rs)"
    by (simp add: lote_esperado_def map_snd_filter_enumerate)
  moreover from i have "map snd (rows (lote_esperado cols rs)) ! i = snd (rows (lote_esperado cols rs) ! i)"
    by simp
  ultimately show ?thesis by simp
qed

lemma map_of_lote_esperado:
  "map_of (rows (lote_esperado cols rs)) i =
     (if i < length rs \<and> (rs ! i) ''CUOTA'' \<noteq> Some ''3'' then Some (filas_lote cols rs ! i) else None)"
  by (auto simp: lote_esperado_def map_of_filter_enumerate filas_lote_cuota)

lemma distinct_campos_presentes [simp]:
  "distinct (map campo (campos_presentes cols (datos_formato_cliente fecha)))"
  by (simp add: campos_presentes_def distinct_map_filter)

lemma campo_presente_leido:
  "c \<in> {''SUCURSAL'', ''CUENTA'', ''IMPORTE'', ''SOLICITUD'', ''CBU'', ''CUIL''} \<Longrightarrow>
   c \<in> set (map campo (campos_presentes cols (datos_formato_cliente fecha))) \<longleftrightarrow> c \<in> set cols"
  by (auto simp: campos_presentes_def datos_formato_cliente_def)

text \<open>With every required column present, every field of the table gets a column.\<close>

lemma campos_presentes_datos_formato_cliente:
  "set columnas_requeridas \<subseteq> set cols \<Longrightarrow>
   campos_presentes cols (datos_formato_cliente fecha) = datos_formato_cliente fecha"
  by (simp add: campos_presentes_def datos_formato_cliente_def columnas_requeridas_def)

lemma linea_esperada_completa:
  "set columnas_requeridas \<subseteq> set cols \<Longrightarrow>
   linea_esperada cols fecha r r_cuil =
     concat (map (\<lambda>f. if campo f = ''CUIL'' then cuil_de_fila cols r_cuil else valor_campo f r)
                 (datos_formato_cliente fecha))"
  by (simp only: linea_esperada_def campos_presentes_datos_formato_cliente)

lemma resolver_campos_formato:
  "resolver_campos lote (datos_formato_cliente fecha) empty_frame =
    Inr \<lparr>columns = map campo (campos_presentes (columns lote) (datos_formato_cliente fecha)),
         rows = range_rows (length (rows lote)) (\<lambda>i. fold (\<lambda>f r. r(campo f := valor_resuelto lote f i))
                   (campos_presentes (columns lote) (datos_formato_cliente fecha)) (\<lambda>_. None))\<rparr>"
proof -
  let ?P = "campos_presentes (columns lote) (datos_formato_cliente fecha)"
  obtain f fs where split: "datos_formato_cliente fecha = f # fs" and df: "default f = Some ''013''"
    by (simp add: datos_formato_cliente_def)
  have "resolver_campos lote (datos_formato_cliente fecha) empty_frame =
        resolver_campos lote (datos_formato_cliente fecha)
          \<lparr>columns = [], rows = range_rows (length (rows lote)) (\<lambda>_ _. None)\<rparr>"
    unfolding split using df by (rule resolver_campos_empty)
  also have "\<dots> = Inr \<lparr>columns = fold (\<lambda>f cs. add_col cs (campo f)) ?P [],
         rows = range_rows (length (rows lote)) (\<lambda>i. fold (\<lambda>f r. r(campo f := valor_resuelto lote f i)) ?P (\<lambda>_. None))\<rparr>"
    by (rule resolver_campos_range) simp
  also have "fold (\<lambda>f cs. add_col cs (campo f)) ?P [] = map campo ?P"
    using fold_add_col [of "map campo ?P" "[]"] by (simp add: fold_map comp_def)
  finally show ?thesis .
qed

lemma length_prefijo_cuil [simp]: "length (prefijo_cuil v) = 1"
  by (simp add: prefijo_cuil_def)

lemma sin_signo_prefijo_cuil [simp]: "sin_signo (prefijo_cuil v @ s)"
  by (simp add: prefijo_cuil_def)

lemma valor_cuil_blanco: "\<forall>x \<in> set c. py_isspace x \<Longrightarrow> valor_cuil ap c = []"
  by (simp add: valor_cuil_def py_strip_Nil_iff)

lemma valor_cuil_no_blanco:
  "\<not> (\<forall>x \<in> set c. py_isspace x) \<Longrightarrow> valor_cuil ap c = zfill (prefijo_cuil ap @ c) 22"
  by (auto simp: valor_cuil_def py_strip_Nil_iff)

lemma cuil_de_fila_columnas:
  "''CUIL'' \<in> set cols \<Longrightarrow> ''CUIL_APODERADO'' \<in> set cols \<Longrightarrow>
   cuil_de_fila cols r = valor_cuil (r ''CUIL_APODERADO'') (py_str (r ''CUIL''))"
  by (simp add: cuil_de_fila_def row_get_def)

text \<open>Every line starts with the convention type, a default that is always present.\<close>

lemma linea_esperada_tipo_convenio: "take 3 (linea_esperada cols fecha r r') = ''013''"
  by (simp add: linea_esperada_def campos_presentes_def datos_formato_cliente_def valor_campo_def)

section \<open>A whole run\<close>

text \<open>
  With a \<open>CUOTA\<close> column the run reaches the \<open>SOLICITUD\<close> filter with the table
  \<open>tabla_esperada\<close>: the field loop and the \<open>CUIL\<close> loop never fail.
\<close>

lemma procesar_archivo_tabla:
  assumes "''CUOTA'' \<in> set cols"
  shows "procesar_archivo (frame_of_rows cols rs) fecha =
    (case filtrar_solicitud (tabla_esperada cols fecha rs) of
       Inl e \<Rightarrow> Inl e
     | Inr resultado \<Rightarrow> Inr (resultado, contenido_hab (lineas_hab resultado)))"
proof -
  let ?lote = "lote_esperado cols rs"
  let ?P = "campos_presentes cols (datos_formato_cliente fecha)"
  let ?n = "length (rows ?lote)"
  let ?G0 = "\<lambda>i. fold (\<lambda>f r. r(campo f := valor_resuelto ?lote f i)) ?P (\<lambda>_. None)"
  have s1: "filtrar_cuota (frame_of_rows cols rs) =
            Inr \<lparr>columns = cols, rows = filter (\<lambda>(i, r). r ''CUOTA'' \<noteq> Some ''3'') (enumerate 0 rs)\<rparr>"
    using assms by (simp add: filtrar_cuota_def frame_filter_col_of_rows)
  have cols_lote: "columns ?lote = cols"
    by (simp add: lote_esperado_def)
  have s3: "resolver_campos ?lote (datos_formato_cliente fecha) empty_frame =
            Inr \<lparr>columns = map campo ?P, rows = range_rows ?n ?G0\<rparr>"
    using resolver_campos_formato [of ?lote fecha] unfolding cols_lote .
  have s4: "regla_cuil ?lote \<lparr>columns = map campo ?P, rows = range_rows ?n ?G0\<rparr> = Inr (tabla_esperada cols fecha rs)"
  proof (cases "''CUIL'' \<in> set cols")
    case True
    then have cm: "''CUIL'' \<in> set (map campo ?P)"
      using campo_presente_leido [of "''CUIL''" cols fecha] by simp
    have "fila_esperada cols fecha rs =
          (\<lambda>i. (?G0 i)(''CUIL'' := Some (cuil_de_fila cols (snd (rows ?lote ! i)))))"
      using True by (intro ext) (simp add: fila_esperada_def Let_def del: fun_upd_apply)
    with regla_cuil_range [OF refl cm, of ?lote ?G0] show ?thesis
      by (simp add: tabla_esperada_def cols_lote del: fun_upd_apply)
  next
    case False
    then have "''CUIL'' \<notin> set (map campo ?P)"
      using campo_presente_leido [of "''CUIL''" cols fecha] by simp
    have "fila_esperada cols fecha rs = ?G0"
      using False by (intro ext) (simp add: fila_esperada_def Let_def del: fun_upd_apply)
    with \<open>''CUIL'' \<notin> set (map campo ?P)\<close> show ?thesis
      by (simp add: regla_cuil_def tabla_esperada_def)
  qed
  show ?thesis
    using s1 s3 s4 by (simp add: procesar_archivo_def agregar_ceros_importe_lote)
qed

lemma fila_esperada_campo:
  assumes "f \<in> set (campos_presentes cols (datos_formato_cliente fecha))"
  shows "fila_esperada cols fecha rs i (campo f) =
    (if campo f = ''CUIL''
     then Some (cuil_de_fila cols (snd (rows (lote_esperado cols rs) ! i)))
     else valor_resuelto (lote_esperado cols rs) f i)"
proof -
  have "''CUIL'' \<notin> set cols \<Longrightarrow> campo f \<noteq> ''CUIL''"
    using assms campo_presente_leido [of "''CUIL''" cols fecha] by force
  moreover have "fold (\<lambda>f r. r(campo f := valor_resuelto (lote_esperado cols rs) f i))
          (campos_presentes cols (datos_formato_cliente fecha)) (\<lambda>_. None) (campo f) =
        valor_resuelto (lote_esperado cols rs) f i"
    using assms by (rule fold_upd_at [OF distinct_campos_presentes])
  ultimately show ?thesis
    by (auto simp: fila_esperada_def Let_def)
qed

lemma valor_resuelto_lote_esperado:
  "i < length rs \<Longrightarrow> (rs ! i) ''CUOTA'' \<noteq> Some ''3'' \<Longrightarrow>
   valor_resuelto (lote_esperado cols rs) f i = Some (valor_campo f (filas_lote cols rs ! i))"
  by (simp add: valor_resuelto_def map_of_lote_esperado valor_campo_def split: option.split)

text \<open>
  The \<open>SOLICITUD\<close> cell of a row of the table is NaN exactly when its label is not
  the label of an eligible row: the filter removes the rows that index alignment left
  empty, never a row whose \<open>SOLICITUD\<close> was empty in the sheet.
\<close>

lemma filtrar_solicitud_tabla:
  assumes "''SOLICITUD'' \<in> set cols"
  shows "filtrar_solicitud (tabla_esperada cols fecha rs) =
    Inr \<lparr>columns = map campo (campos_presentes cols (datos_formato_cliente fecha)),
         rows = map (\<lambda>i. (i, fila_esperada cols fecha rs i))
                  (filter (\<lambda>i. (rs ! i) ''CUOTA'' \<noteq> Some ''3'') [0..<length (rows (lote_esperado cols rs))])\<rparr>"
proof -
  let ?n = "length (rows (lote_esperado cols rs))"
  define fsol where "fsol = datos_formato_cliente fecha ! 8"
  have fsol: "fsol \<in> set (campos_presentes cols (datos_formato_cliente fecha))"
    "campo fsol = ''SOLICITUD''" "default fsol = None"
    using assms by (simp_all add: fsol_def campos_presentes_def datos_formato_cliente_def)
  have col: "''SOLICITUD'' \<in> set (map campo (campos_presentes cols (datos_formato_cliente fecha)))"
    using assms campo_presente_leido [of "''SOLICITUD''" cols fecha] by simp
  have "filter (\<lambda>i. fila_esperada cols fecha rs i ''SOLICITUD'' \<noteq> None) [0..<?n] =
        filter (\<lambda>i. (rs ! i) ''CUOTA'' \<noteq> Some ''3'') [0..<?n]"
  proof (rule filter_cong)
    fix i assume "i \<in> set [0..<?n]"
    then have "i < length rs"
      using length_rows_lote_esperado_le [of cols rs] by simp
    then show "(fila_esperada cols fecha rs i ''SOLICITUD'' \<noteq> None) = ((rs ! i) ''CUOTA'' \<noteq> Some ''3'')"
      using fila_esperada_campo [OF fsol(1), of rs i] fsol(2,3)
      by (simp add: valor_resuelto_def map_of_lote_esperado)
  qed simp
  with col show ?thesis
    by (simp add: filtrar_solicitud_def tabla_esperada_def frame_filter_col_range)
qed

lemma filtrar_solicitud_tabla_sin_columna:
  "''SOLICITUD'' \<notin> set cols \<Longrightarrow>
   filtrar_solicitud (tabla_esperada cols fecha rs) = Inl (KeyError ''SOLICITUD'')"
  using campo_presente_leido [of "''SOLICITUD''" cols fecha]
  by (simp add: filtrar_solicitud_def frame_filter_col_def tabla_esperada_def)

text \<open>The text of a surviving row of the table is \<open>linea_esperada\<close>.\<close>

lemma fila_esperada_linea:
  assumes i: "i < length (rows (lote_esperado cols rs))" and keep: "(rs ! i) ''CUOTA'' \<noteq> Some ''3''"
  shows "concat (map (\<lambda>c. py_str (fila_esperada cols fecha rs i c))
                     (map campo (campos_presentes cols (datos_formato_cliente fecha)))) =
         linea_esperada cols fecha (filas_lote cols rs ! i)
           (filter (\<lambda>r. r ''CUOTA'' \<noteq> Some ''3'') (filas_lote cols rs) ! i)"
proof -
  have lt: "i < length rs"
    using i length_rows_lote_esperado_le [of cols rs] by simp
  have "\<And>f. f \<in> set (campos_presentes cols (datos_formato_cliente fecha)) \<Longrightarrow>
      py_str (fila_esperada cols fecha rs i (campo f)) =
      (if campo f = ''CUIL''
       then cuil_de_fila cols (filter (\<lambda>r. r ''CUOTA'' \<noteq> Some ''3'') (filas_lote cols rs) ! i)
       else valor_campo f (filas_lote cols rs ! i))"
    using fila_esperada_campo snd_rows_lote_esperado [OF i] valor_resuelto_lote_esperado [OF lt keep]
    by simp
  then show ?thesis
    by (simp add: linea_esperada_def comp_def cong: map_cong)
qed

text \<open>
  A run on a sheet with the \<open>CUOTA\<close> and \<open>SOLICITUD\<close> columns succeeds, and the
  lines of its result table, which are the lines of the file, are
  \<open>lineas_esperadas\<close>.
\<close>

lemma procesar_archivo_exito:
  assumes "''CUOTA'' \<in> set cols" and "''SOLICITUD'' \<in> set cols"
  shows "\<exists>resultado. procesar_archivo (frame_of_rows cols rs) fecha =
           Inr (resultado, contenido_hab (lineas_esperadas cols fecha rs)) \<and>
         lineas_hab resultado = lineas_esperadas cols fecha rs"
proof -
  let ?n = "length (rows (lote_esperado cols rs))"
  let ?P = "campos_presentes cols (datos_formato_cliente fecha)"
  let ?res = "\<lparr>columns = map campo ?P, rows = map (\<lambda>i. (i, fila_esperada cols fecha rs i))
                  (filter (\<lambda>i. (rs ! i) ''CUOTA'' \<noteq> Some ''3'') [0..<?n])\<rparr>"
  have "lineas_hab ?res = lineas_esperadas cols fecha rs"
    using fila_esperada_linea [of _ cols rs fecha]
    by (simp add: lineas_hab_def lineas_esperadas_def Let_def length_rows_lote_esperado comp_def cong: map_cong)
  moreover have "procesar_archivo (frame_of_rows cols rs) fecha = Inr (?res, contenido_hab (lineas_hab ?res))"
    using procesar_archivo_tabla [OF assms(1)] filtrar_solicitud_tabla [OF assms(2)] by simp
  ultimately show ?thesis by auto
qed

text \<open>
  When every eligible row comes before every row with \<open>CUOTA = '3'\<close>, labels and
  positions of the eligible rows agree, and each line is built from one source row.
\<close>

lemma cuota_filas_lote:
  "map (\<lambda>r. r ''CUOTA'' = Some ''3'') (filas_lote cols rs) = map (\<lambda>r. r ''CUOTA'' = Some ''3'') rs"
  by (simp add: filas_lote_def con_ceros_def)

lemma lineas_esperadas_ordenadas:
  assumes "sorted (map (\<lambda>r. r ''CUOTA'' = Some ''3'') rs)"
  shows "lineas_esperadas cols fecha rs =
           map (\<lambda>r. linea_esperada cols fecha r r) (filter (\<lambda>r. r ''CUOTA'' \<noteq> Some ''3'') (filas_lote cols rs))"
proof -
  let ?rs' = "filas_lote cols rs"
  let ?kept = "filter (\<lambda>r. r ''CUOTA'' \<noteq> Some ''3'') ?rs'"
  have "sorted (map (\<lambda>r. r ''CUOTA'' = Some ''3'') ?rs')"
    using assms by (simp only: cuota_filas_lote)
  then have take: "?kept = take (length ?kept) ?rs'"
    by (rule sorted_bool_filter_prefix)
  have kept_nth: "?kept ! i = ?rs' ! i" if "i < length ?kept" for i
    using that by (subst take) simp
  have keep: "(rs ! i) ''CUOTA'' \<noteq> Some ''3''" if "i < length ?kept" for i
  proof -
    have "?kept ! i \<in> set ?kept" using that by (rule nth_mem)
    then have "(?rs' ! i) ''CUOTA'' \<noteq> Some ''3''" using kept_nth [OF that] by simp
    moreover have "i < length rs"
      using that length_filter_le [of "\<lambda>r. r ''CUOTA'' \<noteq> Some ''3''" ?rs'] by simp
    ultimately show ?thesis by (simp add: filas_lote_cuota)
  qed
  have "filter (\<lambda>i. (rs ! i) ''CUOTA'' \<noteq> Some ''3'') [0..<length ?kept] = [0..<length ?kept]"
    using keep by (simp add: filter_id_conv)
  then have "lineas_esperadas cols fecha rs = map (\<lambda>i. linea_esperada cols fecha (?kept ! i) (?kept ! i)) [0..<length ?kept]"
    using kept_nth by (simp add: lineas_esperadas_def Let_def)
  also have "\<dots> = map (\<lambda>r. linea_esperada cols fecha r r) ?kept"
  proof -
    have "map (\<lambda>r. linea_esperada cols fecha r r) ?kept =
          map (\<lambda>r. linea_esperada cols fecha r r) (map (\<lambda>i. ?kept ! i) [0..<length ?kept])"
      by (simp only: map_nth)
    then show ?thesis by simp
  qed
  finally show ?thesis .
qed

text \<open>Without a \<open>CUOTA\<close> column the first step raises.\<close>

lemma procesar_archivo_sin_cuota:
  "''CUOTA'' \<notin> set cols \<Longrightarrow> procesar_archivo (frame_of_rows cols rs) fecha = Inl (KeyError ''CUOTA'')"
  by (simp add: procesar_archivo_def filtrar_cuota_def frame_filter_col_def frame_of_rows_def)

text \<open>A successful run had both columns and produced \<open>lineas_esperadas\<close>.\<close>

lemma procesar_archivo_Inr:
  assumes "procesar_archivo (frame_of_rows cols rs) fecha = Inr (resultado, contenido)"
  shows "''CUOTA'' \<in> set cols" and "''SOLICITUD'' \<in> set cols"
    and "lineas_hab resultado = lineas_esperadas cols fecha rs"
    and "contenido = contenido_hab (lineas_esperadas cols fecha rs)"
proof -
  show c: "''CUOTA'' \<in> set cols"
  proof (rule ccontr)
    assume "''CUOTA'' \<notin> set cols"
    then have "procesar_archivo (frame_of_rows cols rs) fecha = Inl (KeyError ''CUOTA'')"
      by (rule procesar_archivo_sin_cuota)
    with assms show False by simp
  qed
  show s: "''SOLICITUD'' \<in> set cols"
  proof (rule ccontr)
    assume "''SOLICITUD'' \<notin> set cols"
    then have "procesar_archivo (frame_of_rows cols rs) fecha = Inl (KeyError ''SOLICITUD'')"
      using procesar_archivo_tabla [OF c] filtrar_solicitud_tabla_sin_columna by simp
    with assms show False by simp
  qed
  from procesar_archivo_exito [OF c s, of rs fecha] assms
  show "lineas_hab resultado = lineas_esperadas cols fecha rs"
    and "contenido = contenido_hab (lineas_esperadas cols fecha rs)"
    by auto
qed

lemma length_filter_filas_lote:
  "length (filter (\<lambda>r. r ''CUOTA'' \<noteq> Some ''3'') (filas_lote cols rs)) =
   length (filter (\<lambda>r. r ''CUOTA'' \<noteq> Some ''3'') rs)"
  by (simp add: filas_lote_def con_ceros_def filter_map comp_def)

lemma length_lineas_esperadas:
  "length (lineas_esperadas cols fecha rs) =
   length (filter (\<lambda>i. (rs ! i) ''CUOTA'' \<noteq> Some ''3'') [0..<length (filter (\<lambda>r. r ''CUOTA'' \<noteq> Some ''3'') rs)])"
  using length_filter_filas_lote [of cols rs] by (simp add: lineas_esperadas_def Let_def)

text \<open>
  The number of lines never exceeds the number of eligible rows, and equals it
  exactly when every eligible row precedes every row with \<open>CUOTA = '3'\<close>.
\<close>

lemma length_lineas_esperadas_elegibles:
  "length (lineas_esperadas cols fecha rs) \<le> length (filter (\<lambda>r. r ''CUOTA'' \<noteq> Some ''3'') rs) \<and>
   (length (lineas_esperadas cols fecha rs) = length (filter (\<lambda>r. r ''CUOTA'' \<noteq> Some ''3'') rs) \<longleftrightarrow>
    sorted (map (\<lambda>r. r ''CUOTA'' = Some ''3'') rs))"
proof -
  let ?k = "length (filter (\<lambda>r. r ''CUOTA'' \<noteq> Some ''3'') rs)"
  have "length (filter (\<lambda>i. (rs ! i) ''CUOTA'' \<noteq> Some ''3'') [0..<?k]) = ?k \<longleftrightarrow>
        (\<forall>i < ?k. (rs ! i) ''CUOTA'' \<noteq> Some ''3'')"
    using length_filter_eq_iff [of "\<lambda>i. (rs ! i) ''CUOTA'' \<noteq> Some ''3''" "[0..<?k]"] by auto
  also have "\<dots> \<longleftrightarrow> sorted (map (\<lambda>r. r ''CUOTA'' = Some ''3'') rs)"
    by (simp add: sorted_bool_iff_prefix)
  finally show ?thesis
    using length_filter_le [of _ "[0..<?k]"] by (simp add: length_lineas_esperadas)
qed

end
