(* ===== verification/Descarga.thy ===== *)
theory Descarga
  imports PyStr "HOL-Library.Word"
begin

text \<open>
  The download link of \<open>src/app.py\<close>, \<open>get_download_link(content, filename)\<close>
  (lines 149--153): the content is encoded in Latin-1, the bytes in base64, and
  both are placed in an HTML anchor with a \<open>data:\<close> URI. Bytes are \<open>8 word\<close>s and
  base64 cuts every three bytes into four 6-bit indices with \<open>drop_bit\<close>,
  \<open>push_bit\<close>, \<open>OR\<close> and \<open>take_bit 6\<close>, as \<open>base64.b64encode\<close> does. The reading
  side (what the browser does with the anchor: split at the quotes, decode the
  \<open>data:\<close> URI) is modelled from RFC 4648 and HTML, since it is not code of the
  program. The lemmas show that the encoder is injective through the decoder
  (\<open>b64decode (b64encode bs) = Some bs\<close>), its output length and alphabet, and
  that a browser following the link saves exactly the Latin-1 bytes of the
  content under the given name, as long as the name contains no double quote.
\<close>

unbundle bit_operations_syntax

type_synonym byte = "8 word"

section \<open>Latin-1\<close>

text \<open>\<open>content.encode('latin-1')\<close>: each character is its code point as a byte.\<close>

definition latin1_encode :: "string \<Rightarrow> byte list" where
  "latin1_encode s = map (\<lambda>c. of_nat (of_char c)) s"

definition latin1_decode :: "byte list \<Rightarrow> string" where
  "latin1_decode bs = map (\<lambda>b. char_of (unat b)) bs"

section \<open>Base64\<close>

definition b64_alfabeto :: string where
  "b64_alfabeto = ''ABCDEFGHIJKLMNOPQRSTUVWXYZabcdefghijklmnopqrstuvwxyz0123456789+/''"

text \<open>The character of the low six bits of a byte.\<close>

definition b64_char :: "byte \<Rightarrow> char" where
  "b64_char x = b64_alfabeto ! unat (take_bit 6 x)"

text \<open>
  \<open>base64.b64encode(bs).decode()\<close>: every group of three bytes \<open>a b c\<close> is the
  24 bits \<open>a b c\<close> cut into four 6-bit indices; a last group of two or one bytes
  is completed with zero bits and padded with \<open>=\<close>. The \<open>.decode()\<close> of the
  ASCII result is the identity on its characters.
\<close>

fun b64encode :: "byte list \<Rightarrow> string" where
  "b64encode (a # b # c # rest) =
     [b64_char (drop_bit 2 a), b64_char (push_bit 4 a OR drop_bit 4 b),
      b64_char (push_bit 2 b OR drop_bit 6 c), b64_char c] @ b64encode rest"
| "b64encode [a, b] =
     [b64_char (drop_bit 2 a), b64_char (push_bit 4 a OR drop_bit 4 b), b64_char (push_bit 2 b), CHR ''='']"
| "b64encode [a] = [b64_char (drop_bit 2 a), b64_char (push_bit 4 a), CHR ''='', CHR ''='']"
| "b64encode [] = []"

text \<open>The decoder of RFC 4648, as the browser applies it to a \<open>data:\<close> URI.\<close>

definition b64_valor :: "char \<Rightarrow> byte option" where
  "b64_valor c = map_of (zip b64_alfabeto (map of_nat [0..<64])) c"

fun b64decode :: "string \<Rightarrow> byte list option" where
  "b64decode [] = Some []"
| "b64decode (c1 # c2 # c3 # c4 # rest) =
     (case (b64_valor c1, b64_valor c2) of
        (Some x1, Some x2) \<Rightarrow>
          (let a = push_bit 2 x1 OR drop_bit 4 x2 in
           if rest = [] \<and> c3 = CHR ''='' \<and> c4 = CHR ''='' then Some [a]
           else (case b64_valor c3 of
             None \<Rightarrow> None
           | Some x3 \<Rightarrow>
               (let b = push_bit 4 x2 OR drop_bit 2 x3 in
                if rest = [] \<and> c4 = CHR ''='' then Some [a, b]
                else (case b64_valor c4 of
                  None \<Rightarrow> None
                | Some x4 \<Rightarrow> map_option (\<lambda>bs. a # b # (push_bit 6 x3 OR x4) # bs) (b64decode rest)))))
      | _ \<Rightarrow> None)"
| "b64decode _ = None"

section \<open>The anchor\<close>

definition comillas :: char where
  "comillas = CHR 0x22"

definition prefijo_datos :: string where
  "prefijo_datos = ''data:file/txt;base64,''"

text \<open>
  Lines 149--153: \<open>b64\<close> is the base64 text of the Latin-1 bytes; the f-string puts
  it and the file name, unescaped, into the anchor.
\<close>

definition get_download_link :: "string \<Rightarrow> string \<Rightarrow> string" where
  "get_download_link content filename =
     (let b64 = b64encode (latin1_encode content) in
      ''<a href='' @ [comillas] @ prefijo_datos @ b64 @ [comillas] @
      '' download='' @ [comillas] @ filename @ [comillas] @
      '' class='' @ [comillas] @ ''download-link'' @ [comillas] @
      ''>Descargar archivo '' @ filename @ ''</a>'')"

text \<open>
  Following the link saves the bytes of the \<open>data:\<close> URI of \<open>href\<close> under the
  name of the \<open>download\<close> attribute.
\<close>

definition descargar :: "string \<Rightarrow> (byte list \<times> string) option" where
  "descargar html =
     (case dividir comillas html of
        _ # href # _ # nombre # _ \<Rightarrow>
          if take (length prefijo_datos) href = prefijo_datos
          then map_option (\<lambda>bs. (bs, nombre)) (b64decode (drop (length prefijo_datos) href))
          else None
      | _ \<Rightarrow> None)"

section \<open>Latin-1 round trip\<close>

lemma latin1_decode_encode [simp]: "latin1_decode (latin1_encode s) = s"
proof -
  have "\<And>c. char_of (unat (of_nat (of_char c) :: byte)) = c"
    by (simp add: unat_of_nat)
  then show ?thesis
    by (simp add: latin1_decode_def latin1_encode_def comp_def)
qed

lemma length_latin1_encode [simp]: "length (latin1_encode s) = length s"
  by (simp add: latin1_encode_def)

section \<open>Six-bit groups\<close>

lemma suc_suc_minus_2: "2 \<le> n \<Longrightarrow> Suc (Suc (n - 2)) = n"
  by arith

lemma unat_take_bit_6: "unat (take_bit 6 (w :: byte)) < 64"
  using take_bit_nat_less_exp [of 6 "unat w"] by (simp add: unsigned_take_bit_eq)

text \<open>Reassembling the three bytes from the four 6-bit indices.\<close>

lemma b64_byte_1:
  "push_bit 2 (take_bit 6 (drop_bit 2 (a :: byte))) OR drop_bit 4 (take_bit 6 (push_bit 4 a OR drop_bit 4 b)) = a"
  apply (rule bit_word_eqI)
  subgoal for n by (cases "n < 2") (auto simp: bit_simps suc_suc_minus_2 dest: bit_imp_le_length)
  done

lemma b64_byte_2:
  "push_bit 4 (take_bit 6 (push_bit 4 (a :: byte) OR drop_bit 4 b)) OR
   drop_bit 2 (take_bit 6 (push_bit 2 b OR drop_bit 6 (c :: byte))) = b"
  by (rule bit_word_eqI) (auto simp: bit_simps dest: bit_imp_le_length)

lemma b64_byte_3:
  "push_bit 6 (take_bit 6 (push_bit 2 (b :: byte) OR drop_bit 6 c)) OR take_bit 6 c = c"
  by (rule bit_word_eqI) (auto simp: bit_simps)

lemma distinct_b64_alfabeto: "distinct b64_alfabeto"
  by (simp add: b64_alfabeto_def)

lemma length_b64_alfabeto [simp]: "length b64_alfabeto = 64"
  by (simp add: b64_alfabeto_def)

lemma b64_valor_nth: "n < 64 \<Longrightarrow> b64_valor (b64_alfabeto ! n) = Some (of_nat n)"
  using map_of_zip_nth [of b64_alfabeto "map of_nat [0..<64] :: byte list" n] distinct_b64_alfabeto
  by (simp add: b64_valor_def)

lemma b64_valor_char [simp]: "b64_valor (b64_char x) = Some (take_bit 6 x)"
  using b64_valor_nth [OF unat_take_bit_6 [of x]] by (simp add: b64_char_def)

lemma b64_char_alfabeto: "b64_char x \<in> set b64_alfabeto"
  using unat_take_bit_6 [of x] by (simp add: b64_char_def)

lemma b64_char_no_igual [simp]: "b64_char x \<noteq> CHR ''=''"
proof
  assume "b64_char x = CHR ''=''"
  then have "CHR ''='' \<in> set b64_alfabeto" using b64_char_alfabeto by metis
  then show False by (simp add: b64_alfabeto_def)
qed

lemma b64_char_no_comillas [simp]: "b64_char x \<noteq> comillas"
proof
  assume "b64_char x = comillas"
  then have "comillas \<in> set b64_alfabeto" using b64_char_alfabeto by metis
  then show False by (simp add: b64_alfabeto_def comillas_def)
qed

section \<open>Base64 round trip\<close>

lemma b64_padding:
  "push_bit 2 (take_bit 6 (drop_bit 2 (a :: byte))) OR drop_bit 4 (take_bit 6 (push_bit 4 a)) = a"
  "push_bit 4 (take_bit 6 (push_bit 4 (a :: byte) OR drop_bit 4 b)) OR drop_bit 2 (take_bit 6 (push_bit 2 b)) = b"
  using b64_byte_1 [of a 0] b64_byte_2 [of a b 0] by simp_all

lemma b64decode_b64encode: "b64decode (b64encode bs) = Some bs"
  by (induction bs rule: b64encode.induct)
     (simp_all add: Let_def b64_byte_1 b64_byte_2 b64_byte_3 b64_padding del: take_bit_or)

lemma length_b64encode: "length (b64encode bs) = 4 * ((length bs + 2) div 3)"
  by (induction bs rule: b64encode.induct) (simp_all, presburger)

lemma set_b64encode: "set (b64encode bs) \<subseteq> insert (CHR ''='') (set b64_alfabeto)"
  by (induction bs rule: b64encode.induct) (auto simp: b64_char_alfabeto)

lemma comillas_b64encode [simp]: "comillas \<notin> set (b64encode bs)"
  using set_b64encode [of bs] by (auto simp: comillas_def b64_alfabeto_def)

text \<open>The anchor, cut at its double quotes, when the name has none.\<close>

lemma dividir_get_download_link:
  assumes "comillas \<notin> set filename"
  shows "dividir comillas (get_download_link content filename) =
           [''<a href='', prefijo_datos @ b64encode (latin1_encode content), '' download='', filename,
            '' class='', ''download-link'', ''>Descargar archivo '' @ filename @ ''</a>'']"
proof -
  have "CHR 0x22 \<notin> set (b64encode (latin1_encode content))" "CHR 0x22 \<notin> set filename"
    using comillas_b64encode assms by (simp_all add: comillas_def)
  then show ?thesis
    by (simp add: get_download_link_def Let_def dividir_def dividir_aux_libre comillas_def prefijo_datos_def)
qed

lemma descargar_get_download_link:
  "comillas \<notin> set filename \<Longrightarrow>
   descargar (get_download_link content filename) = Some (latin1_encode content, filename)"
  by (simp add: descargar_def dividir_get_download_link b64decode_b64encode)

end
