(* ===== verification/Sesion.thy ===== *)
theory Sesion
  imports Carga Procesar Descarga
begin

text \<open>
  The page of \<open>src/app.py\<close> around the encoder: \<open>st.session_state\<close> (lines
  155--169), \<open>reiniciar_procesamiento\<close> (lines 171--175), and the script body that
  Streamlit reruns on every interaction (lines 185--275): read the uploaded sheet,
  check the required columns, store the sheet, run \<open>procesar_archivo\<close> when the
  button is pressed, and, once processed, offer the rename field, the summary and
  the download link. The session is a record; one rerun is \<open>ejecutar_pagina\<close>; an
  interaction is an \<open>evento\<close>, whose \<open>on_change\<close> callback runs before the rerun
  (\<open>paso\<close>); the states a user can reach are the inductive \<open>alcanzable\<close>. The
  lemmas show by rule induction that every reachable state keeps the invariant
  \<open>inv_sesion\<close>: the file name ends in \<open>.hab\<close>, no error is ever recorded, and a
  processed session holds exactly the result of \<open>procesar_archivo\<close> on the sheet
  now uploaded and the date now selected.
\<close>

section \<open>State\<close>

text \<open>
  \<open>st.session_state\<close>, one field per key (prefixed \<open>ss_\<close>), and the file the
  uploader widget holds. The date is kept as its \<open>YYYYMMDD\<close> text, the only form
  in which the code uses it; an exception is kept as its text \<open>str(e)\<close>.
\<close>

record sesion =
  ss_lote_df :: "frame option"
  ss_fecha :: string
  ss_resultado_df :: "frame option"
  ss_contenido_hab :: "string option"
  ss_nombre_archivo :: string
  ss_procesado :: bool
  ss_error :: "string option"
  archivo_subido :: "archivo option"

text \<open>Lines 155--169, on the first run: every key gets its initial value.\<close>

definition sesion_inicial :: "string \<Rightarrow> sesion" where
  "sesion_inicial hoy =
     \<lparr>ss_lote_df = None, ss_fecha = hoy, ss_resultado_df = None, ss_contenido_hab = None,
      ss_nombre_archivo = ''deposito.hab'', ss_procesado = False, ss_error = None,
      archivo_subido = None\<rparr>"

text \<open>Lines 171--175.\<close>

definition reiniciar_procesamiento :: "sesion \<Rightarrow> sesion" where
  "reiniciar_procesamiento st =
     st\<lparr>ss_procesado := False, ss_resultado_df := None, ss_contenido_hab := None\<rparr>"

section \<open>One run of the script\<close>

text \<open>
  Lines 222--237, the button: run the encoder on the stored sheet; on success store
  the table, the content, the name \<open>deposito_YYYYMMDD.hab\<close>, and mark the session
  processed; on an exception store it.
\<close>

definition procesar_datos :: "sesion \<Rightarrow> string \<Rightarrow> sesion" where
  "procesar_datos st fecha_formateada =
     (case ss_lote_df st of
        None \<Rightarrow> st
      | Some lote \<Rightarrow>
          (case procesar_archivo lote fecha_formateada of
             Inr (resultado_df, contenido) \<Rightarrow>
               st\<lparr>ss_resultado_df := Some resultado_df, ss_contenido_hab := Some contenido,
                  ss_nombre_archivo := ''deposito_'' @ fecha_formateada @ ''.hab'',
                  ss_procesado := True, ss_error := None\<rparr>
           | Inl e \<Rightarrow> st\<lparr>ss_error := Some (py_error_str e)\<rparr>))"

text \<open>Lines 256--260: a changed name gets \<open>.hab\<close> appended unless it ends with it.\<close>

definition renombrar :: "sesion \<Rightarrow> string \<Rightarrow> sesion" where
  "renombrar st nuevo_nombre =
     (if nuevo_nombre \<noteq> ss_nombre_archivo st
      then st\<lparr>ss_nombre_archivo :=
                (if py_endswith nuevo_nombre ''.hab'' then nuevo_nombre else nuevo_nombre @ ''.hab'')\<rparr>
      else st)"

text \<open>
  Lines 185--275, one rerun of the script: the selected date is stored; with a file,
  the sheet is read (a reader exception is displayed and changes nothing); with a
  column missing, the message of \<open>verificar_columnas\<close> is displayed and nothing
  is stored; otherwise the sheet
  is stored, the button processes it, and, once processed without error, the rename
  field applies the name typed in it (\<open>None\<close>: the field was not edited).
\<close>

definition ejecutar_pagina :: "sesion \<Rightarrow> string \<Rightarrow> bool \<Rightarrow> string option \<Rightarrow> sesion" where
  "ejecutar_pagina st0 fecha boton nuevo_nombre =
     (let st = st0\<lparr>ss_fecha := fecha\<rparr> in
      case archivo_subido st of
        None \<Rightarrow> st
      | Some a \<Rightarrow>
          (case leer_excel a of
             Inl e \<Rightarrow> st
           | Inr df \<Rightarrow>
               (case verificar_columnas df of
                  Inl mensaje \<Rightarrow> st
                | Inr df \<Rightarrow>
                    (let st1 = st\<lparr>ss_lote_df := Some df\<rparr>;
                         st2 = (if boton then procesar_datos st1 fecha else st1)
                     in if ss_procesado st2 \<and> ss_error st2 = None
                        then (case nuevo_nombre of None \<Rightarrow> st2 | Some n \<Rightarrow> renombrar st2 n)
                        else st2))))"

section \<open>Interactions\<close>

text \<open>
  What a user does: choose or clear a file (the uploader's \<open>on_change\<close> resets the
  processing when the file changes), choose a date (likewise), press the button,
  or type a file name.
\<close>

datatype evento =
    SubirArchivo "archivo option"
  | ElegirFecha string
  | PulsarProcesar
  | EscribirNombre string

fun paso :: "sesion \<Rightarrow> evento \<Rightarrow> sesion" where
  "paso st (SubirArchivo a) =
     ejecutar_pagina
       ((if a \<noteq> archivo_subido st then reiniciar_procesamiento st else st)\<lparr>archivo_subido := a\<rparr>)
       (ss_fecha st) False None"
| "paso st (ElegirFecha f) =
     ejecutar_pagina (if f \<noteq> ss_fecha st then reiniciar_procesamiento st else st) f False None"
| "paso st PulsarProcesar = ejecutar_pagina st (ss_fecha st) True None"
| "paso st (EscribirNombre n) = ejecutar_pagina st (ss_fecha st) False (Some n)"

text \<open>The session after the first run and a sequence of interactions.\<close>

definition inicio :: "string \<Rightarrow> sesion" where
  "inicio hoy = ejecutar_pagina (sesion_inicial hoy) hoy False None"

definition ejecutar :: "string \<Rightarrow> evento list \<Rightarrow> sesion" where
  "ejecutar hoy evs = fold (\<lambda>ev st. paso st ev) evs (inicio hoy)"

inductive alcanzable :: "string \<Rightarrow> sesion \<Rightarrow> bool" for hoy where
  alcanzable_inicio: "alcanzable hoy (inicio hoy)"
| alcanzable_paso: "alcanzable hoy st \<Longrightarrow> alcanzable hoy (paso st ev)"

section \<open>The session invariant\<close>

text \<open>
  The name ends in \<open>.hab\<close>; no exception is stored; a processed session holds
  the sheet now in the uploader, with every required column, and the table and
  content \<open>procesar_archivo\<close> gives for it and the stored date.
\<close>

definition sesion_consistente :: "sesion \<Rightarrow> bool" where
  "sesion_consistente st =
     (case archivo_subido st of
        Some (Hoja cols rs) \<Rightarrow>
          columnas_faltantes cols = [] \<and> ss_lote_df st = Some (frame_of_rows cols rs) \<and>
          (case procesar_archivo (frame_of_rows cols rs) (ss_fecha st) of
             Inr (resultado, contenido) \<Rightarrow>
               ss_resultado_df st = Some resultado \<and> ss_contenido_hab st = Some contenido
           | Inl _ \<Rightarrow> False)
      | _ \<Rightarrow> False)"

definition inv_sesion :: "sesion \<Rightarrow> bool" where
  "inv_sesion st =
     (py_endswith (ss_nombre_archivo st) ''.hab'' \<and> ss_error st = None \<and>
      (ss_procesado st \<longrightarrow> sesion_consistente st))"

text \<open>The stored sheet, if any, has every required column.\<close>

definition lote_valido :: "sesion \<Rightarrow> bool" where
  "lote_valido st = (case ss_lote_df st of None \<Rightarrow> True | Some df \<Rightarrow> columnas_faltantes (columns df) = [])"

section \<open>What the page shows\<close>

text \<open>
  Lines 262--264: once processed without error, the download anchor for the stored
  content and name.
\<close>

definition enlace_descarga :: "sesion \<Rightarrow> string option" where
  "enlace_descarga st =
     (if ss_procesado st \<and> ss_error st = None
      then map_option (\<lambda>c. get_download_link c (ss_nombre_archivo st)) (ss_contenido_hab st)
      else None)"

text \<open>Lines 244--252: the summary of the stored sheet and result table.\<close>

record resumen =
  registros_totales :: nat
  registros_excluidos :: nat
  registros_procesados :: nat
  apoderado_nulo :: nat
  apoderado_no_nulo :: nat

definition resumen_datos :: "frame \<Rightarrow> frame \<Rightarrow> resumen" where
  "resumen_datos lote resultado =
     (let nulos = length (filter (\<lambda>(i, r). r ''CUIL_APODERADO'' = None) (rows lote)) in
      \<lparr>registros_totales = frame_len lote,
       registros_excluidos = length (filter (\<lambda>(i, r). r ''CUOTA'' = Some ''3'') (rows lote)),
       registros_procesados = frame_len resultado,
       apoderado_nulo = nulos,
       apoderado_no_nulo = frame_len lote - nulos\<rparr>)"

definition resumen_sesion :: "sesion \<Rightarrow> resumen option" where
  "resumen_sesion st =
     (if ss_procesado st \<and> ss_error st = None
      then (case (ss_lote_df st, ss_resultado_df st) of
              (Some lote, Some resultado) \<Rightarrow> Some (resumen_datos lote resultado)
            | _ \<Rightarrow> None)
      else None)"

section \<open>The invariant holds in every reachable state\<close>

lemma procesar_archivo_completo:
  "columnas_faltantes cols = [] \<Longrightarrow>
   \<exists>resultado. procesar_archivo (frame_of_rows cols rs) fecha =
     Inr (resultado, contenido_hab (lineas_esperadas cols fecha rs))"
  using procesar_archivo_exito [of cols rs fecha]
  by (auto simp: columnas_faltantes_Nil_iff columnas_requeridas_def)

lemma renombrar_hab:
  "py_endswith (ss_nombre_archivo st) ''.hab'' \<Longrightarrow>
   py_endswith (ss_nombre_archivo (renombrar st n)) ''.hab''"
  by (simp add: renombrar_def)

lemma inv_sesion_inicio: "inv_sesion (inicio hoy)"
  by (simp add: inicio_def ejecutar_pagina_def verificar_columnas_def sesion_inicial_def inv_sesion_def py_endswith_def)

lemma inv_reiniciar: "inv_sesion st \<Longrightarrow> inv_sesion (reiniciar_procesamiento st)"
  by (simp add: inv_sesion_def reiniciar_procesamiento_def)

text \<open>Consistency reads five fields of the session.\<close>

lemma sesion_consistente_campos:
  "archivo_subido st' = archivo_subido st \<Longrightarrow> ss_lote_df st' = ss_lote_df st \<Longrightarrow>
   ss_fecha st' = ss_fecha st \<Longrightarrow> ss_resultado_df st' = ss_resultado_df st \<Longrightarrow>
   ss_contenido_hab st' = ss_contenido_hab st \<Longrightarrow> sesion_consistente st' = sesion_consistente st"
  by (simp add: sesion_consistente_def cong: option.case_cong archivo.case_cong sum.case_cong)

lemma sesion_consistente_nombre [simp]:
  "sesion_consistente (st\<lparr>ss_nombre_archivo := x\<rparr>) = sesion_consistente st"
  by (rule sesion_consistente_campos) simp_all

lemma inv_renombrar: "inv_sesion st \<Longrightarrow> inv_sesion (renombrar st n)"
  by (simp add: inv_sesion_def renombrar_def)

text \<open>A rerun on a readable sheet with every required column.\<close>

lemma ejecutar_pagina_hoja:
  assumes "archivo_subido st = Some (Hoja cols rs)" and "columnas_faltantes cols = []"
  shows "ejecutar_pagina st fecha boton nuevo_nombre =
    (let st1 = st\<lparr>ss_fecha := fecha, ss_lote_df := Some (frame_of_rows cols rs)\<rparr>;
         st2 = (if boton then procesar_datos st1 fecha else st1)
     in if ss_procesado st2 \<and> ss_error st2 = None
        then (case nuevo_nombre of None \<Rightarrow> st2 | Some n \<Rightarrow> renombrar st2 n)
        else st2)"
  using assms by (simp add: ejecutar_pagina_def verificar_columnas_def leer_excel_def Let_def)

lemma procesar_datos_Inr:
  "ss_lote_df st = Some lote \<Longrightarrow> procesar_archivo lote fecha = Inr (resultado, contenido) \<Longrightarrow>
   procesar_datos st fecha =
     st\<lparr>ss_resultado_df := Some resultado, ss_contenido_hab := Some contenido,
        ss_nombre_archivo := ''deposito_'' @ fecha @ ''.hab'', ss_procesado := True, ss_error := None\<rparr>"
  by (simp add: procesar_datos_def)

text \<open>
  One rerun keeps the invariant, provided a processed session is rerun with the date
  it was processed with (a changed date resets the processing first).
\<close>

lemma inv_ejecutar_pagina:
  assumes inv: "inv_sesion st" and fecha: "ss_procesado st \<Longrightarrow> fecha = ss_fecha st"
  shows "inv_sesion (ejecutar_pagina st fecha boton nuevo_nombre)"
proof (cases "archivo_subido st")
  case None
  then show ?thesis
    using inv by (simp add: ejecutar_pagina_def verificar_columnas_def inv_sesion_def sesion_consistente_def)
next
  case (Some a)
  show ?thesis
  proof (cases a)
    case (Ilegible e)
    then show ?thesis
      using inv Some by (simp add: ejecutar_pagina_def verificar_columnas_def leer_excel_def inv_sesion_def sesion_consistente_def)
  next
    case (Hoja cols rs)
    show ?thesis
    proof (cases "columnas_faltantes cols = []")
      case False
      then show ?thesis
        using inv Some Hoja
        by (simp add: ejecutar_pagina_def verificar_columnas_def Let_def leer_excel_def inv_sesion_def sesion_consistente_def)
    next
      case True
      define st1 where "st1 = st\<lparr>ss_fecha := fecha, ss_lote_df := Some (frame_of_rows cols rs)\<rparr>"
      define st2 where "st2 = (if boton then procesar_datos st1 fecha else st1)"
      obtain res where r: "procesar_archivo (frame_of_rows cols rs) fecha =
          Inr (res, contenido_hab (lineas_esperadas cols fecha rs))"
        using procesar_archivo_completo [OF True] by blast
      have sub: "archivo_subido st = Some (Hoja cols rs)"
        using Some Hoja by simp
      have "inv_sesion st2"
      proof (cases boton)
        case True
        then show ?thesis
          using sub \<open>columnas_faltantes cols = []\<close> r inv
          by (simp add: st2_def st1_def procesar_datos_Inr [OF _ r] inv_sesion_def sesion_consistente_def)
      next
        case False
        have "ss_procesado st \<Longrightarrow> sesion_consistente st1 = sesion_consistente st"
          using fecha inv sub unfolding st1_def
          by (intro sesion_consistente_campos) (auto simp: inv_sesion_def sesion_consistente_def)
        then show ?thesis
          using False inv by (auto simp: st2_def st1_def inv_sesion_def)
      qed
      moreover have "ejecutar_pagina st fecha boton nuevo_nombre =
          (if ss_procesado st2 \<and> ss_error st2 = None
           then (case nuevo_nombre of None \<Rightarrow> st2 | Some n \<Rightarrow> renombrar st2 n) else st2)"
        unfolding ejecutar_pagina_hoja [OF sub True] st2_def st1_def Let_def ..
      ultimately show ?thesis
        by (cases nuevo_nombre) (simp_all add: inv_renombrar)
    qed
  qed
qed

lemma inv_paso: "inv_sesion st \<Longrightarrow> inv_sesion (paso st ev)"
proof (cases ev)
  case (SubirArchivo a)
  assume inv: "inv_sesion st"
  show ?thesis
  proof (cases "a = archivo_subido st")
    case True
    then show ?thesis
      using SubirArchivo inv_ejecutar_pagina [OF inv] by simp
  next
    case False
    have "inv_sesion ((reiniciar_procesamiento st)\<lparr>archivo_subido := a\<rparr>)"
      using inv by (simp add: inv_sesion_def reiniciar_procesamiento_def)
    then show ?thesis
      using SubirArchivo False inv_ejecutar_pagina by (simp add: reiniciar_procesamiento_def)
  qed
next
  case (ElegirFecha f)
  assume inv: "inv_sesion st"
  then show ?thesis
    using ElegirFecha inv_ejecutar_pagina [OF inv] inv_ejecutar_pagina [OF inv_reiniciar [OF inv]]
    by (simp add: reiniciar_procesamiento_def)
qed (simp_all add: inv_ejecutar_pagina)

lemma alcanzable_inv_sesion: "alcanzable hoy st \<Longrightarrow> inv_sesion st"
  by (induction rule: alcanzable.induct) (simp_all add: inv_sesion_inicio inv_paso)

lemma ejecutar_snoc: "ejecutar hoy (evs @ [ev]) = paso (ejecutar hoy evs) ev"
  by (simp add: ejecutar_def)

lemma alcanzable_ejecutar: "alcanzable hoy (ejecutar hoy evs)"
proof (induction evs rule: rev_induct)
  case Nil
  then show ?case by (simp add: ejecutar_def alcanzable_inicio)
next
  case (snoc ev evs)
  then show ?case by (simp add: ejecutar_def alcanzable_paso)
qed

section \<open>What a processed session holds and shows\<close>

lemma sesion_consistenteD:
  assumes "sesion_consistente st"
  obtains cols rs resultado where "archivo_subido st = Some (Hoja cols rs)"
    and "columnas_faltantes cols = []" and "ss_lote_df st = Some (frame_of_rows cols rs)"
    and "procesar_archivo (frame_of_rows cols rs) (ss_fecha st) =
           Inr (resultado, contenido_hab (lineas_esperadas cols (ss_fecha st) rs))"
    and "ss_resultado_df st = Some resultado"
    and "ss_contenido_hab st = Some (contenido_hab (lineas_esperadas cols (ss_fecha st) rs))"
proof -
  obtain cols rs where a: "archivo_subido st = Some (Hoja cols rs)"
    using assms by (auto simp: sesion_consistente_def split: option.splits archivo.splits)
  then obtain resultado contenido where
      r: "procesar_archivo (frame_of_rows cols rs) (ss_fecha st) = Inr (resultado, contenido)"
    and c: "columnas_faltantes cols = []" "ss_lote_df st = Some (frame_of_rows cols rs)"
      "ss_resultado_df st = Some resultado" "ss_contenido_hab st = Some contenido"
    using assms by (auto simp: sesion_consistente_def split: sum.splits)
  have "contenido = contenido_hab (lineas_esperadas cols (ss_fecha st) rs)"
    by (rule procesar_archivo_Inr(4) [OF r])
  with a r c that show ?thesis by simp
qed

text \<open>Pressing the button on a complete sheet processes it.\<close>

lemma paso_procesar:
  assumes "archivo_subido st = Some (Hoja cols rs)" and "columnas_faltantes cols = []"
  shows "ss_procesado (paso st PulsarProcesar) \<and> ss_error (paso st PulsarProcesar) = None \<and>
         archivo_subido (paso st PulsarProcesar) = Some (Hoja cols rs) \<and>
         ss_fecha (paso st PulsarProcesar) = ss_fecha st \<and>
         ss_contenido_hab (paso st PulsarProcesar) =
           Some (contenido_hab (lineas_esperadas cols (ss_fecha st) rs)) \<and>
         ss_nombre_archivo (paso st PulsarProcesar) = ''deposito_'' @ ss_fecha st @ ''.hab''"
proof -
  obtain res where r: "procesar_archivo (frame_of_rows cols rs) (ss_fecha st) =
      Inr (res, contenido_hab (lineas_esperadas cols (ss_fecha st) rs))"
    using procesar_archivo_completo [OF assms(2)] by blast
  show ?thesis
    using assms by (simp add: ejecutar_pagina_hoja Let_def procesar_datos_Inr [OF _ r])
qed

lemma enlace_descarga_sesion:
  assumes "inv_sesion st" and "enlace_descarga st = Some html"
  obtains cols rs where "archivo_subido st = Some (Hoja cols rs)" and "columnas_faltantes cols = []"
    and "html = get_download_link (contenido_hab (lineas_esperadas cols (ss_fecha st) rs)) (ss_nombre_archivo st)"
proof -
  have p: "ss_procesado st" and h: "map_option (\<lambda>c. get_download_link c (ss_nombre_archivo st)) (ss_contenido_hab st) = Some html"
    using assms(2) by (simp_all add: enlace_descarga_def split: if_splits)
  then have "sesion_consistente st"
    using assms(1) by (simp add: inv_sesion_def)
  then show ?thesis
    by (rule sesion_consistenteD) (use h that in simp)
qed

lemma length_lineas_hab: "length (lineas_hab resultado) = frame_len resultado"
  by (simp add: lineas_hab_def frame_len_def)

lemma resumen_sesion_datos:
  assumes "inv_sesion st" and "resumen_sesion st = Some r"
  obtains cols rs where "archivo_subido st = Some (Hoja cols rs)" and "columnas_faltantes cols = []"
    and "registros_totales r = length rs"
    and "registros_excluidos r = length (filter (\<lambda>x. x ''CUOTA'' = Some ''3'') rs)"
    and "registros_procesados r = length (lineas_esperadas cols (ss_fecha st) rs)"
    and "apoderado_nulo r = length (filter (\<lambda>x. x ''CUIL_APODERADO'' = None) rs)"
    and "apoderado_no_nulo r = length rs - length (filter (\<lambda>x. x ''CUIL_APODERADO'' = None) rs)"
proof -
  have p: "ss_procesado st"
    using assms(2) by (simp add: resumen_sesion_def split: if_splits)
  then have "sesion_consistente st"
    using assms(1) by (simp add: inv_sesion_def)
  then obtain cols rs resultado where a: "archivo_subido st = Some (Hoja cols rs)"
      "columnas_faltantes cols = []" "ss_lote_df st = Some (frame_of_rows cols rs)"
    and pr: "procesar_archivo (frame_of_rows cols rs) (ss_fecha st) =
           Inr (resultado, contenido_hab (lineas_esperadas cols (ss_fecha st) rs))"
    and res: "ss_resultado_df st = Some resultado"
    by (rule sesion_consistenteD)
  have "r = resumen_datos (frame_of_rows cols rs) resultado"
    using assms p a res by (simp add: resumen_sesion_def inv_sesion_def)
  moreover have "frame_len resultado = length (lineas_esperadas cols (ss_fecha st) rs)"
    using procesar_archivo_Inr(3) [OF pr] by (simp flip: length_lineas_hab)
  ultimately show ?thesis
    using a that
    by (simp add: resumen_datos_def Let_def frame_len_def frame_of_rows_def
        length_filter_enumerate)
qed

lemma resumen_sesion_procesada:
  assumes "inv_sesion st" and "ss_procesado st"
  shows "\<exists>r. resumen_sesion st = Some r"
proof -
  have "sesion_consistente st"
    using assms by (simp add: inv_sesion_def)
  then obtain cols rs resultado where "ss_lote_df st = Some (frame_of_rows cols rs)"
    and "ss_resultado_df st = Some resultado"
    by (rule sesion_consistenteD)
  then show ?thesis
    using assms by (simp add: resumen_sesion_def inv_sesion_def)
qed

section \<open>Reruns without the button\<close>

lemma procesado_procesar_datos_sin_cambio:
  "ss_lote_df (procesar_datos st f) = ss_lote_df st"
  by (simp add: procesar_datos_def split: option.split sum.split prod.split)

text \<open>A rerun without the button never marks the session processed.\<close>

lemma ejecutar_pagina_sin_boton:
  "\<not> ss_procesado st \<Longrightarrow> \<not> ss_procesado (ejecutar_pagina st fecha False nuevo_nombre)"
  by (simp add: ejecutar_pagina_def verificar_columnas_def Let_def renombrar_def split: option.split sum.split)

text \<open>Typing a new name in a processed session renames it and keeps the result.\<close>

lemma paso_renombrar:
  assumes "inv_sesion st" and "ss_procesado st" and "n \<noteq> ss_nombre_archivo st"
  shows "ss_nombre_archivo (paso st (EscribirNombre n)) =
           (if py_endswith n ''.hab'' then n else n @ ''.hab'') \<and>
         ss_procesado (paso st (EscribirNombre n)) \<and>
         ss_contenido_hab (paso st (EscribirNombre n)) = ss_contenido_hab st"
proof -
  have "sesion_consistente st"
    using assms by (simp add: inv_sesion_def)
  then obtain cols rs where a: "archivo_subido st = Some (Hoja cols rs)" "columnas_faltantes cols = []"
    by (rule sesion_consistenteD)
  show ?thesis
    using assms by (simp add: ejecutar_pagina_hoja [OF a] renombrar_def inv_sesion_def)
qed

section \<open>The stored sheet\<close>

lemma lote_valido_ejecutar_pagina:
  assumes "lote_valido st"
  shows "lote_valido (ejecutar_pagina st fecha boton nuevo_nombre)"
proof (cases "\<exists>cols rs. archivo_subido st = Some (Hoja cols rs) \<and> columnas_faltantes cols = []")
  case True
  then obtain cols rs where a: "archivo_subido st = Some (Hoja cols rs)" "columnas_faltantes cols = []"
    by blast
  then show ?thesis
    by (simp add: ejecutar_pagina_hoja [OF a] Let_def lote_valido_def renombrar_def
        procesado_procesar_datos_sin_cambio split: option.split)
next
  case False
  then have "ejecutar_pagina st fecha boton nuevo_nombre = st\<lparr>ss_fecha := fecha\<rparr>"
    by (auto simp: ejecutar_pagina_def verificar_columnas_def Let_def leer_excel_def split: option.split sum.split archivo.split)
  then show ?thesis
    using assms by (simp add: lote_valido_def)
qed

lemma alcanzable_lote_valido: "alcanzable hoy st \<Longrightarrow> lote_valido st"
proof (induction rule: alcanzable.induct)
  case alcanzable_inicio
  then show ?case
    by (simp add: inicio_def ejecutar_pagina_def verificar_columnas_def sesion_inicial_def lote_valido_def)
next
  case (alcanzable_paso st ev)
  have "lote_valido (reiniciar_procesamiento st)" "lote_valido (st\<lparr>archivo_subido := a\<rparr>)"
    "lote_valido ((reiniciar_procesamiento st)\<lparr>archivo_subido := a\<rparr>)" for a
    using alcanzable_paso.IH by (simp_all add: lote_valido_def reiniciar_procesamiento_def)
  then show ?case
    using alcanzable_paso.IH by (cases ev) (simp_all add: lote_valido_ejecutar_pagina)
qed

section \<open>What a rerun keeps\<close>

lemma archivo_subido_renombrar [simp]: "archivo_subido (renombrar st n) = archivo_subido st"
  by (simp add: renombrar_def)

lemma archivo_subido_procesar_datos [simp]: "archivo_subido (procesar_datos st f) = archivo_subido st"
  by (simp add: procesar_datos_def split: option.split sum.split prod.split)

lemma fecha_renombrar [simp]: "ss_fecha (renombrar st n) = ss_fecha st"
  by (simp add: renombrar_def)

lemma fecha_procesar_datos [simp]: "ss_fecha (procesar_datos st f) = ss_fecha st"
  by (simp add: procesar_datos_def split: option.split sum.split prod.split)

text \<open>A rerun keeps the uploaded file and stores the selected date.\<close>

lemma archivo_subido_ejecutar_pagina [simp]:
  "archivo_subido (ejecutar_pagina st fecha boton nuevo_nombre) = archivo_subido st"
  by (simp add: ejecutar_pagina_def verificar_columnas_def Let_def
      split: option.split sum.split archivo.split)

lemma fecha_ejecutar_pagina [simp]:
  "ss_fecha (ejecutar_pagina st fecha boton nuevo_nombre) = fecha"
  by (simp add: ejecutar_pagina_def verificar_columnas_def Let_def
      split: option.split sum.split archivo.split)

text \<open>The button on a complete sheet, as an update of the session.\<close>

lemma paso_procesar_estado:
  assumes "archivo_subido st = Some (Hoja cols rs)" and "columnas_faltantes cols = []"
    and "procesar_archivo (frame_of_rows cols rs) (ss_fecha st) = Inr (resultado, contenido)"
  shows "paso st PulsarProcesar =
           st\<lparr>ss_lote_df := Some (frame_of_rows cols rs), ss_resultado_df := Some resultado,
              ss_contenido_hab := Some contenido,
              ss_nombre_archivo := ''deposito_'' @ ss_fecha st @ ''.hab'',
              ss_procesado := True, ss_error := None\<rparr>"
  using assms by (simp add: ejecutar_pagina_hoja Let_def procesar_datos_Inr)

end
