(* ===== verification/Pagina.thy ===== *)
theory Pagina
  imports Sesion
begin

text \<open>
  What one rerun of the page of \<open>src/app.py\<close> shows (lines 195--272), in the
  order the script emits it: the selected date, the reader's or the column check's
  error, the load message with the number of rows and a preview, the processing
  error, and, once processed, the success message, the summary, the download link,
  a preview of the result and the file's text. Markdown headings, separators and the
  styling carry no data and are left out. The lemma \<open>avisos_pagina_hoja\<close> unfolds
  the page on an uploaded sheet with every required column; the root theory states
  what is shown for an unreadable file, for missing columns, and for a processed
  sheet, whose success message reports the number of lines in the file.
\<close>

section \<open>Messages\<close>

text \<open>
  One element of the page: \<open>st.info\<close>, \<open>st.success\<close>, \<open>st.error\<close>, \<open>st.write\<close>,
  the download anchor (\<open>st.markdown\<close> with HTML), \<open>st.dataframe\<close> and \<open>st.text\<close>.
\<close>

datatype aviso =
    Info string
  | Exito string
  | Error string
  | Texto string
  | Enlace string
  | Vista frame
  | Contenido string

text \<open>Line 195.\<close>

definition mensaje_fecha :: "string \<Rightarrow> string" where
  "mensaje_fecha fecha_formateada = ''La fecha seleccionada en formato AAAAMMDD es: '' @ fecha_formateada"

text \<open>Line 215.\<close>

definition mensaje_carga :: "frame \<Rightarrow> string" where
  "mensaje_carga df =
     ''Archivo cargado exitosamente. Se encontraron '' @ py_str_nat (frame_len df) @ '' registros.''"

text \<open>Line 242; the first character is the Latin-1 inverted exclamation mark.\<close>

definition mensaje_exito :: "frame \<Rightarrow> string" where
  "mensaje_exito resultado_df =
     CHR 0xA1 # ''Procesamiento exitoso! Se generaron '' @ py_str_nat (frame_len resultado_df) @ '' registros.''"

text \<open>Lines 248--252.\<close>

definition textos_resumen :: "resumen \<Rightarrow> string list" where
  "textos_resumen r =
     [''Registros totales: '' @ py_str_nat (registros_totales r),
      ''Registros con CUOTA = '' @ [CHR 0x27, CHR ''3'', CHR 0x27] @ '' (excluidos): '' @
        py_str_nat (registros_excluidos r),
      ''Registros procesados: '' @ py_str_nat (registros_procesados r),
      ''Registros con CUIL_APODERADO nulo: '' @ py_str_nat (apoderado_nulo r),
      ''Registros con CUIL_APODERADO no nulo: '' @ py_str_nat (apoderado_no_nulo r)]"

text \<open>
  Lines 239--272 for the session after the rerun: once processed without error, the
  success message, the summary, the link, the preview of the result and the text of
  the file.
\<close>

definition avisos_resultado :: "sesion \<Rightarrow> aviso list" where
  "avisos_resultado st =
     (if ss_procesado st \<and> ss_error st = None
      then (case (ss_resultado_df st, resumen_sesion st, enlace_descarga st, ss_contenido_hab st) of
              (Some resultado_df, Some r, Some enlace, Some contenido) \<Rightarrow>
                [Exito (mensaje_exito resultado_df)] @ map Texto (textos_resumen r) @
                [Enlace enlace, Vista (frame_head 10 resultado_df), Contenido contenido]
            | _ \<Rightarrow> [])
      else [])"

text \<open>
  Lines 195--274, one rerun with the same inputs as \<open>ejecutar_pagina\<close>: the
  messages of each branch, and the results of the session the rerun leaves.
\<close>

definition avisos_pagina :: "sesion \<Rightarrow> string \<Rightarrow> bool \<Rightarrow> string option \<Rightarrow> aviso list" where
  "avisos_pagina st0 fecha boton nuevo_nombre =
     Info (mensaje_fecha fecha) #
     (case archivo_subido st0 of
        None \<Rightarrow> []
      | Some a \<Rightarrow>
          (case leer_excel a of
             Inl e \<Rightarrow> [Error (''Error al leer el archivo Excel: '' @ e)]
           | Inr df \<Rightarrow>
               (case verificar_columnas df of
                  Inl mensaje \<Rightarrow> [Error mensaje]
                | Inr df \<Rightarrow>
                    [Exito (mensaje_carga df), Vista (frame_head 10 df)] @
                    (if boton
                     then (case procesar_archivo df fecha of
                             Inl e \<Rightarrow> [Error (''Error al procesar los datos: '' @ py_error_str e)]
                           | Inr _ \<Rightarrow> [])
                     else []) @
                    avisos_resultado (ejecutar_pagina st0 fecha boton nuevo_nombre))))"

section \<open>What the page shows\<close>

lemma avisos_pagina_hoja:
  assumes "archivo_subido st = Some (Hoja cols rs)" and "columnas_faltantes cols = []"
  shows "avisos_pagina st fecha boton nuevo_nombre =
     [Info (mensaje_fecha fecha), Exito (mensaje_carga (frame_of_rows cols rs)),
      Vista (frame_head 10 (frame_of_rows cols rs))] @
     (if boton
      then (case procesar_archivo (frame_of_rows cols rs) fecha of
              Inl e \<Rightarrow> [Error (''Error al procesar los datos: '' @ py_error_str e)]
            | Inr _ \<Rightarrow> [])
      else []) @
     avisos_resultado (ejecutar_pagina st fecha boton nuevo_nombre)"
  using assms by (simp add: avisos_pagina_def leer_excel_def verificar_columnas_def)

end
