(* ===== verification/Fecha.thy ===== *)
theory Fecha
  imports Procesar
begin

text \<open>
  The deposit date of \<open>src/app.py\<close>: \<open>st.date_input\<close> returns a \<open>datetime.date\<close>
  (lines 190--191), which the page formats as \<open>fecha.strftime('%Y%m%d')\<close> (lines 192
  and 232) before passing it to \<open>procesar_archivo\<close> and into the file name. A date is
  a record of year, month and day within the ranges \<open>datetime.date\<close> accepts
  (\<open>fecha_valida\<close>); \<open>strftime_ymd\<close> writes each part with \<open>str(n).zfill(w)\<close>, as
  \<open>%Y\<close>, \<open>%m\<close> and \<open>%d\<close> do. The reader \<open>leer_fecha\<close> parses eight digits back.
  The lemmas show that the formatted date is eight digits and parses back to the
  date, and that it is the \<open>FECHA\<close> field of every line unchanged by \<open>zfill(8)\<close>.
\<close>

section \<open>Dates\<close>

record fecha =
  anio :: nat
  mes :: nat
  dia :: nat

text \<open>\<open>calendar.isleap\<close> and the month lengths \<open>datetime.date\<close> checks against.\<close>

definition bisiesto :: "nat \<Rightarrow> bool" where
  "bisiesto y = (y mod 4 = 0 \<and> (y mod 100 \<noteq> 0 \<or> y mod 400 = 0))"

definition dias_mes :: "nat \<Rightarrow> nat \<Rightarrow> nat" where
  "dias_mes y m =
     (if m = 2 then (if bisiesto y then 29 else 28)
      else if m = 4 \<or> m = 6 \<or> m = 9 \<or> m = 11 then 30 else 31)"

definition fecha_valida :: "fecha \<Rightarrow> bool" where
  "fecha_valida d =
     (1 \<le> anio d \<and> anio d \<le> 9999 \<and> 1 \<le> mes d \<and> mes d \<le> 12 \<and>
      1 \<le> dia d \<and> dia d \<le> dias_mes (anio d) (mes d))"

text \<open>\<open>fecha.strftime('%Y%m%d')\<close>: four-digit year, two-digit month and day.\<close>

definition strftime_ymd :: "fecha \<Rightarrow> string" where
  "strftime_ymd d =
     zfill (py_str_nat (anio d)) 4 @ zfill (py_str_nat (mes d)) 2 @ zfill (py_str_nat (dia d)) 2"

text \<open>Reading an eight-digit \<open>YYYYMMDD\<close> field back, as the file's consumer does.\<close>

definition es_digito :: "char \<Rightarrow> bool" where
  "es_digito c = (48 \<le> (of_char c :: nat) \<and> (of_char c :: nat) < 58)"

definition leer_fecha :: "string \<Rightarrow> fecha option" where
  "leer_fecha s =
     (if length s = 8 \<and> list_all es_digito s
      then (let d = \<lparr>anio = leer_nat (take 4 s), mes = leer_nat (take 2 (drop 4 s)),
                     dia = leer_nat (drop 6 s)\<rparr>
            in if fecha_valida d then Some d else None)
      else None)"

section \<open>The formatted date\<close>

lemma fecha_valida_partes:
  "fecha_valida d \<Longrightarrow>
     length (py_str_nat (anio d)) \<le> 4 \<and> length (py_str_nat (mes d)) \<le> 2 \<and> length (py_str_nat (dia d)) \<le> 2"
  using length_py_str_nat [of 4 "anio d"] length_py_str_nat [of 2 "mes d"] length_py_str_nat [of 2 "dia d"]
  by (simp add: fecha_valida_def dias_mes_def split: if_splits)

lemma es_digito_zfill_py_str_nat: "list_all es_digito (zfill (py_str_nat n) k)"
  using py_str_nat_digitos [of _ n]
  by (auto simp: zfill_sin_signo list_all_iff es_digito_def)

lemma length_strftime_ymd: "fecha_valida d \<Longrightarrow> length (strftime_ymd d) = 8"
  using fecha_valida_partes [of d] by (simp add: strftime_ymd_def)

lemma leer_fecha_strftime_ymd: "fecha_valida d \<Longrightarrow> leer_fecha (strftime_ymd d) = Some d"
proof -
  assume v: "fecha_valida d"
  then have l: "length (zfill (py_str_nat (anio d)) 4) = 4" "length (zfill (py_str_nat (mes d)) 2) = 2"
    "length (zfill (py_str_nat (dia d)) 2) = 2"
    using fecha_valida_partes [of d] by simp_all
  have e: "\<lparr>anio = anio d, mes = mes d, dia = dia d\<rparr> = d"
    by (cases d) simp
  show ?thesis
    using v l length_strftime_ymd [OF v]
    by (simp add: leer_fecha_def strftime_ymd_def es_digito_zfill_py_str_nat Let_def e)
qed

lemma zfill_strftime_ymd [simp]: "fecha_valida d \<Longrightarrow> zfill (strftime_ymd d) 8 = strftime_ymd d"
  by (simp add: length_strftime_ymd)

end
