(* ===== verification/Instrucciones.thy ===== *)
theory Instrucciones
  imports Procesar
begin

text \<open>
  The sidebar of \<open>src/app.py\<close> (lines 35--58) tells the user which columns the
  sheet needs and which rules the file applies. The column list and the rules are
  data of the page: \<open>columnas_instrucciones\<close> and \<open>reglas_instrucciones\<close>, a list of
  \<open>regla\<close>s with the constructors the text uses. \<open>regla_cumplida\<close> gives each rule
  its meaning on one row of the sheet, stated over the code's own steps
  (\<open>cuil_de_fila\<close>, \<open>filtrar_cuota\<close>, \<open>importe_con_ceros\<close>), so that the root theory
  can compare what the sidebar promises with what the code does.
\<close>

section \<open>The sidebar's content\<close>

text \<open>Lines 44--52: the required columns listed under "Columnas requeridas".\<close>

definition columnas_instrucciones :: "string list" where
  "columnas_instrucciones =
     [''SUCURSAL'', ''CUENTA'', ''IMPORTE'', ''SOLICITUD'', ''CBU'', ''CUOTA'', ''CUIL'', ''CUIL_APODERADO'']"

text \<open>
  Lines 54--58, "Reglas aplicadas": a character placed first in the CUIL, chosen by
  whether \<open>CUIL_APODERADO\<close> is null; rows excluded by a \<open>CUOTA\<close> value; zeros added
  on the right of \<open>IMPORTE\<close>.
\<close>

datatype regla =
    PrimerCaracterCuil bool char
  | ExcluirCuota string
  | CerosDerechaImporte nat

definition reglas_instrucciones :: "regla list" where
  "reglas_instrucciones =
     [PrimerCaracterCuil True CHR ''2'', PrimerCaracterCuil False CHR ''1'',
      ExcluirCuota ''3'', CerosDerechaImporte 2]"

section \<open>What each rule means for a row\<close>

text \<open>
  \<open>PrimerCaracterCuil nulo c\<close>: when the attorney CUIL is null (NaN) exactly if
  \<open>nulo\<close>, the CUIL field the code writes is empty or has \<open>c\<close> as the first
  character of the CUIL, that is, right before the CUIL read from the sheet (the
  comment at line 111: "antes del primer digito"); the zeros \<open>zfill\<close> puts in front
  are padding, not part of the CUIL.
  \<open>ExcluirCuota q\<close>: the CUOTA filter drops the row exactly when its CUOTA is \<open>q\<close>.
  \<open>CerosDerechaImporte n\<close>: the amount becomes \<open>str(IMPORTE)\<close> followed by \<open>n\<close> zeros.
\<close>

fun regla_cumplida :: "regla \<Rightarrow> string list \<Rightarrow> row \<Rightarrow> bool" where
  "regla_cumplida (PrimerCaracterCuil nulo c) cols r =
     (let v = cuil_de_fila cols r
      in (row_get cols r ''CUIL_APODERADO'' None = None) \<noteq> nulo \<or> v = [] \<or>
         py_endswith v (c # py_str (row_get cols r ''CUIL'' (Some ''''))))"
| "regla_cumplida (ExcluirCuota q) cols r =
     (case filtrar_cuota (frame_of_rows cols [r]) of
        Inl _ \<Rightarrow> False
      | Inr df \<Rightarrow> (rows df = []) = (r ''CUOTA'' = Some q))"
| "regla_cumplida (CerosDerechaImporte n) cols r =
     (importe_con_ceros (r ''IMPORTE'') = Some (py_str (r ''IMPORTE'') @ replicate n CHR ''0''))"

definition cumple_instrucciones :: "string list \<Rightarrow> row \<Rightarrow> bool" where
  "cumple_instrucciones cols r = list_all (\<lambda>g. regla_cumplida g cols r) reglas_instrucciones"

section \<open>The rules against the code\<close>

lemma columnas_instrucciones_requeridas: "columnas_instrucciones = columnas_requeridas"
  by (simp add: columnas_instrucciones_def columnas_requeridas_def)

lemma regla_cumplida_cuota:
  "''CUOTA'' \<in> set cols \<Longrightarrow> regla_cumplida (ExcluirCuota ''3'') cols r"
  by (simp add: filtrar_cuota_def frame_filter_col_def frame_of_rows_def)

lemma importe_con_ceros_replicate: "importe_con_ceros v = Some (py_str v @ replicate 2 CHR ''0'')"
  by (simp add: importe_con_ceros_def numeral_2_eq_2)

text \<open>The CUIL field of a row is zeros, the prefix, then the CUIL.\<close>

lemma cuil_de_fila_ceros:
  assumes "''CUIL'' \<in> set cols" "''CUIL_APODERADO'' \<in> set cols"
    and "\<not> (\<forall>x \<in> set (py_str (r ''CUIL'')). py_isspace x)"
  shows "cuil_de_fila cols r =
           replicate (21 - length (py_str (r ''CUIL''))) CHR ''0'' @ prefijo_cuil (r ''CUIL_APODERADO'') @
           py_str (r ''CUIL'')"
  using assms
  by (simp add: cuil_de_fila_columnas valor_cuil_no_blanco zfill_sin_signo prefijo_cuil_def)

end
