(* ===== verification/Spec2Isabelle.thy ===== *)
theory Spec2Isabelle
  imports Pagina Fecha Instrucciones
begin

text \<open>
  \<^bold>\<open>A verification library for \<open>src/app.py\<close> of deposito-becas-mujer.\<close>

  The program is a Streamlit page that turns a spreadsheet of deposit instructions
  into a fixed-width \<open>.hab\<close> file. Its core is \<open>procesar_archivo(lote_df,
  fecha_seleccionada)\<close> (lines 66--146): it drops the rows with \<open>CUOTA = '3'\<close>,
  appends \<open>'00'\<close> to \<open>IMPORTE\<close>, builds a result table with one column per entry of
  the field table \<open>datos_formato_cliente\<close> (zero-filled defaults or zero-filled
  sheet cells), overwrites \<open>CUIL\<close> with a prefixed value, drops the rows whose
  \<open>SOLICITUD\<close> is NaN, and joins the rows into CRLF-terminated lines. Around it,
  the page (lines 155--275) reads the uploaded sheet, checks the required columns,
  keeps its state in \<open>st.session_state\<close>, runs the encoder when the button is
  pressed, shows a summary, lets the user rename the file, and offers the content,
  encoded in Latin-1 and base64, as a download link (\<open>get_download_link\<close>,
  lines 149--153).

  \<^bold>\<open>Theories.\<close>
  \<^item> \<open>Prelude\<close>: the Python exceptions (\<open>py_error\<close>), cells (\<open>string option\<close>,
    \<open>None\<close> is NaN) and rows, the \<open>named_theorems\<close> collections, and the generic
    facts on enumerations, association lists and repeated function update.
  \<^item> \<open>PyStr\<close>: \<open>str(x)\<close> (\<open>py_str\<close>), \<open>str.zfill\<close> (\<open>zfill\<close>, with CPython's
    sign handling), \<open>str.strip\<close>, \<open>str.join\<close>, \<open>str.endswith\<close>, \<open>str.split\<close>,
    \<open>str(n)\<close> of a count (\<open>py_str_nat\<close>, a \<open>function\<close> recursive on \<open>n div 10\<close>
    with its termination proof) and \<open>str(e)\<close> of an exception (\<open>py_error_str\<close>).
  \<^item> \<open>Schema\<close>: the field table (\<open>datos_formato_cliente\<close>, lines 68--81) as a
    list of \<open>field_spec\<close> records, \<open>campos\<close> (line 87), and the required columns of
    the upload check (lines 208--209).
  \<^item> \<open>Frame\<close>: the pandas operations the encoder uses, modelled from pandas'
    semantics: a \<open>frame\<close> is its columns and its labelled rows; boolean filtering
    keeps labels; \<open>df[c] = series\<close> aligns by label; \<open>df.iloc\<close> reads by position;
    \<open>df.at\<close> writes by label.
  \<^item> \<open>Procesar\<close>: one definition per step of \<open>procesar_archivo\<close>, composed as the
    code composes them (\<open>filtrar_cuota\<close>, \<open>agregar_ceros_importe\<close>,
    \<open>resolver_campos\<close>, \<open>regla_cuil\<close> over \<open>regla_cuil_fila\<close>,
    \<open>filtrar_solicitud\<close>, \<open>lineas_hab\<close>, \<open>contenido_hab\<close>), then lemmas that follow
    each step and a closed description of a run: \<open>lineas_esperadas\<close>.
  \<^item> \<open>Carga\<close>: the upload step: the uploaded file (\<open>archivo\<close>), \<open>pd.read_excel\<close>
    (\<open>leer_excel\<close>), the required-column check (\<open>verificar_columnas\<close>) and its
    message (\<open>mensaje_columnas_faltantes\<close>, line 212).
  \<^item> \<open>Descarga\<close>: \<open>get_download_link\<close>: Latin-1 bytes as \<open>8 word\<close>s, base64 by
    regrouping 24 bits into four 6-bit indices (\<open>drop_bit\<close>, \<open>push_bit\<close>,
    \<open>take_bit\<close>), the HTML anchor; and, as the reader, the RFC 4648 decoder and the
    browser's reading of the anchor's quoted attributes (\<open>descargar\<close>).
  \<^item> \<open>Sesion\<close>: \<open>st.session_state\<close> as the record \<open>sesion\<close>; one rerun of the
    script body (\<open>ejecutar_pagina\<close>: read, column check, store, button
    \<open>procesar_datos\<close>, rename field \<open>renombrar\<close>); the user's interactions as the
    datatype \<open>evento\<close> with their \<open>on_change\<close> resets (\<open>paso\<close>); the reachable
    states as the inductive \<open>alcanzable\<close>; the summary (\<open>resumen_sesion\<close>) and the
    link the page shows (\<open>enlace_descarga\<close>).
  \<^item> \<open>Pagina\<close>: what one rerun shows, as a list of \<open>aviso\<close>s (the \<open>st.info\<close>,
    \<open>st.success\<close>, \<open>st.error\<close>, \<open>st.write\<close>, \<open>st.dataframe\<close> and \<open>st.text\<close>
    calls of lines 195--274), in the order of the code: \<open>avisos_pagina\<close> follows the
    same branches as \<open>ejecutar_pagina\<close> and shows the results of the state that
    rerun produces (\<open>avisos_resultado\<close>).
  \<^item> \<open>Fecha\<close>: the \<open>datetime.date\<close> of the date picker as the record \<open>fecha\<close>
    within the ranges \<open>datetime\<close> accepts (\<open>fecha_valida\<close>), its formatting
    \<open>strftime('%Y%m%d')\<close> (\<open>strftime_ymd\<close>, lines 192 and 232), and the reader of
    a \<open>YYYYMMDD\<close> field (\<open>leer_fecha\<close>).
  \<^item> \<open>Instrucciones\<close>: the sidebar (lines 44--58): the listed columns
    (\<open>columnas_instrucciones\<close>) and the stated rules as a list of the datatype
    \<open>regla\<close>, with the meaning of each rule on a row (\<open>regla_cumplida\<close>) stated over
    the encoder's own steps.
  \<^item> \<open>Spec2Isabelle\<close> (this theory): example sheets and the properties C1--C35.

  \<^bold>\<open>What the proofs show.\<close> A run on a sheet with the \<open>CUOTA\<close> and \<open>SOLICITUD\<close>
  columns always succeeds; without them it raises \<open>KeyError\<close>, and no other error
  is reachable (C6). Its lines are \<open>lineas_esperadas\<close> (C1): the result table has
  one row per eligible source row, indexed \<open>0..n-1\<close>; the sheet columns are
  assigned to it by label, so row \<open>i\<close> is filled only when \<open>i\<close> is the original
  position of an eligible row, while its \<open>CUIL\<close> is read by position from the
  \<open>i\<close>-th eligible row. When every eligible row precedes every \<open>CUOTA = '3'\<close>
  row, the run is the row-by-row transformation the specification describes (C2);
  otherwise rows are lost (C3) and \<open>CUIL\<close>s are attached to other beneficiaries'
  deposits (C4), a defect of the code. C7--C15 give the line format: the CUIL rule,
  NaN cells, the 103-character width and the split of a line back into its fields,
  the agreement type, the CRLF framing, the empty batch; C16 follows the amount
  column through the whole run (the \<open>'00'\<close> suffix, the padding and the label it
  is aligned by). C17--C23 are properties of the page, proved by rule induction over
  the reachable states: the file name always ends in \<open>.hab\<close> and no error is ever
  stored; a download link, when shown, yields exactly the encoder's output for the
  sheet and date now selected; the button always leads to the link; a new file or
  date hides a stale link; the summary's counts add up exactly when no row is lost.
  C24--C25 are the download's round trip (Latin-1, base64 and the anchor) and the
  unescaped file name. C26 gives the shape of the result table; C27 the upload
  check's message, which names exactly the missing columns. C28--C29 order
  interactions: processing again discards a chosen name, and processing twice is
  processing once. C30--C32 are what the page shows: a processed sheet gives a
  success message counting the file's lines and no error, an unreadable file and a
  sheet lacking columns give their error message alone and leave the state as it
  was but for the date. C33--C34 are the date: its formatting is eight digits and
  parses back to the date (so it is injective, and the session may keep the
  formatted string), and it is the \<open>FECHA\<close> field of every line. C35 compares the
  sidebar with the code: the columns agree, and for a non-blank CUIL the rules hold
  (the prefix right before the CUIL, as the comment of line 111 places it) except
  for an attorney cell holding the empty string, which the code treats as null.
  The library lemmas behind these include the termination of \<open>str(n)\<close>
  (\<open>py_str_nat\<close>, by a \<open>measure\<close>) and the base64 round trip.

  \<^bold>\<open>Not modelled.\<close> Streamlit rendering and widgets as such, the styling and the
  page layout (page configuration and CSS, lines 1--33, titles, the columns,
  headings, separators, expander and footer); the messages, previews and the
  sidebar's columns and rules are modelled, not their appearance; reading the
  Excel file (a sheet is given as its column names and rows of cells, as
  \<open>pd.read_excel\<close> with string converters returns it, or as unreadable); the date
  picker's widget (the session keeps the formatted \<open>YYYYMMDD\<close> string, which
  C33 shows determines the date; \<open>strftime\<close> pads the year to four digits as
  Python's documentation of \<open>%Y\<close> states; platforms differ for years below 1000,
  which the picker's default range of ten years around today never offers). Characters are Latin-1
  code points, so the \<open>UnicodeEncodeError\<close> of \<open>content.encode('latin-1')\<close> on
  other characters is outside the model's alphabet. The text field's own widget
  state is modelled as the name typed in it at one interaction. No fuel or bounds
  are needed: every loop of the code runs over a finite list and is modelled by
  structural recursion, \<open>str(n)\<close> by a \<open>function\<close> with a \<open>measure\<close>; the
  reachable states of the page are an inductive set.
\<close>

section \<open>Example sheets\<close>

text \<open>Rows of a sheet given as column/value pairs; an absent column is an empty (NaN) cell.\<close>

definition fila_de :: "(string \<times> string) list \<Rightarrow> row" where
  "fila_de xs = map_of xs"

definition ejemplo_a :: row where
  "ejemplo_a = fila_de [(''SUCURSAL'', ''12''), (''CUENTA'', ''345''), (''IMPORTE'', ''1500.50''),
     (''SOLICITUD'', ''77''), (''CBU'', ''0110''), (''CUOTA'', ''1''), (''CUIL'', ''20123456789'')]"

definition ejemplo_b :: row where
  "ejemplo_b = fila_de [(''SUCURSAL'', ''14''), (''CUENTA'', ''347''), (''IMPORTE'', ''20''),
     (''SOLICITUD'', ''79''), (''CBU'', ''0112''), (''CUOTA'', ''2''), (''CUIL'', ''27555''),
     (''CUIL_APODERADO'', ''20987654321'')]"

definition ejemplo_cuota3 :: row where
  "ejemplo_cuota3 = fila_de [(''SUCURSAL'', ''13''), (''CUENTA'', ''346''), (''IMPORTE'', ''10''),
     (''SOLICITUD'', ''78''), (''CBU'', ''0111''), (''CUOTA'', ''3''), (''CUIL'', ''20999'')]"

definition ejemplo_sin_solicitud :: row where
  "ejemplo_sin_solicitud = fila_de [(''SUCURSAL'', ''15''), (''CUENTA'', ''348''), (''IMPORTE'', ''30''),
     (''CBU'', ''0113''), (''CUOTA'', ''1''), (''CUIL'', ''20111222333'')]"

text \<open>
  How the bank reads a line: consecutive fields of the given widths. This is the
  reading the layout table promises; it is not code of the program.
\<close>

fun partir :: "nat list \<Rightarrow> string \<Rightarrow> string list" where
  "partir [] s = []"
| "partir (w # ws) s = take w s # partir ws (drop w s)"

lemma partir_concat: "partir (map length xs) (concat xs) = xs"
  by (induction xs) auto

definition hoja_a :: archivo where
  "hoja_a = Hoja columnas_requeridas [ejemplo_a]"

definition hoja_cruzada :: archivo where
  "hoja_cruzada = Hoja columnas_requeridas [ejemplo_cuota3, ejemplo_a, ejemplo_b]"

lemmas ejemplos = fila_de_def ejemplo_a_def ejemplo_b_def ejemplo_cuota3_def ejemplo_sin_solicitud_def
  columnas_requeridas_def

section \<open>The encoder\<close>

text \<open>
  C1. A run of \<open>procesar_archivo\<close> on a sheet that has the \<open>CUOTA\<close> and
  \<open>SOLICITUD\<close> columns succeeds; the lines of its result table, which are the lines of
  the file, are, for each position \<open>i\<close> below the number of eligible rows whose
  source row \<open>i\<close> is itself eligible, the fields of source row \<open>i\<close> with the
  \<open>CUIL\<close> of the \<open>i\<close>-th eligible row.
\<close>

theorem procesar_archivo_lineas:
  assumes "''CUOTA'' \<in> set cols" and "''SOLICITUD'' \<in> set cols"
  shows "\<exists>resultado. procesar_archivo (frame_of_rows cols rs) fecha =
           Inr (resultado, contenido_hab (lineas_hab resultado)) \<and>
         lineas_hab resultado =
           (let rs' = filas_lote cols rs; kept = filter (\<lambda>r. r ''CUOTA'' \<noteq> Some ''3'') rs'
            in map (\<lambda>i. linea_esperada cols fecha (rs' ! i) (kept ! i))
                   (filter (\<lambda>i. (rs ! i) ''CUOTA'' \<noteq> Some ''3'') [0..<length kept]))"
  using procesar_archivo_exito [OF assms, of rs fecha] unfolding lineas_esperadas_def by auto

theorem procesar_archivo_lineas_witness:
  "''CUOTA'' \<in> set columnas_requeridas \<and> ''SOLICITUD'' \<in> set columnas_requeridas \<and>
   (\<exists>resultado. procesar_archivo (frame_of_rows columnas_requeridas [ejemplo_a]) ''20250101'' =
      Inr (resultado, contenido_hab (lineas_hab resultado)) \<and>
    lineas_hab resultado = [linea_esperada columnas_requeridas ''20250101'' (hd (filas_lote columnas_requeridas [ejemplo_a]))
                                                                         (hd (filas_lote columnas_requeridas [ejemplo_a]))])"
  using procesar_archivo_lineas [of columnas_requeridas "[ejemplo_a]" "''20250101''"]
  by (simp add: ejemplos filas_lote_def con_ceros_def)

text \<open>
  C2. When every eligible row comes before every row with \<open>CUOTA = '3'\<close> (in
  particular when there is none), the run is the row-by-row transformation of the
  specification: one line per eligible row, in order, built from that row alone.
\<close>

theorem procesar_archivo_fila_a_fila:
  assumes "''CUOTA'' \<in> set cols" and "''SOLICITUD'' \<in> set cols"
    and "sorted (map (\<lambda>r. r ''CUOTA'' = Some ''3'') rs)"
  shows "\<exists>resultado. procesar_archivo (frame_of_rows cols rs) fecha =
           Inr (resultado, contenido_hab (map (\<lambda>r. linea_esperada cols fecha r r)
                                   (filter (\<lambda>r. r ''CUOTA'' \<noteq> Some ''3'') (filas_lote cols rs))))"
  using procesar_archivo_exito [OF assms(1,2), of rs fecha] lineas_esperadas_ordenadas [OF assms(3), of cols fecha]
  by auto

theorem procesar_archivo_fila_a_fila_witness:
  "''CUOTA'' \<in> set columnas_requeridas \<and> ''SOLICITUD'' \<in> set columnas_requeridas \<and>
   sorted (map (\<lambda>r. r ''CUOTA'' = Some ''3'') [ejemplo_a, ejemplo_b, ejemplo_cuota3]) \<and>
   (\<exists>resultado. procesar_archivo (frame_of_rows columnas_requeridas [ejemplo_a, ejemplo_b, ejemplo_cuota3]) ''20250101'' =
      Inr (resultado, contenido_hab (map (\<lambda>r. linea_esperada columnas_requeridas ''20250101'' r r)
         (filter (\<lambda>r. r ''CUOTA'' \<noteq> Some ''3'') (filas_lote columnas_requeridas [ejemplo_a, ejemplo_b, ejemplo_cuota3])))))"
proof -
  have c: "''CUOTA'' \<in> set columnas_requeridas" "''SOLICITUD'' \<in> set columnas_requeridas"
    by (simp_all add: columnas_requeridas_def)
  have s: "sorted (map (\<lambda>r. r ''CUOTA'' = Some ''3'') [ejemplo_a, ejemplo_b, ejemplo_cuota3])"
    by (simp add: ejemplos)
  show ?thesis
    using c s procesar_archivo_fila_a_fila [OF c s, of "''20250101''"] by blast
qed

text \<open>
  C3. A run never produces more lines than there are eligible rows, and it produces
  exactly that many if and only if no eligible row follows a row with
  \<open>CUOTA = '3'\<close>: otherwise eligible deposits are silently lost.
\<close>

theorem procesar_archivo_filas_perdidas:
  assumes "procesar_archivo (frame_of_rows cols rs) fecha = Inr (resultado, contenido)"
  shows "length (lineas_hab resultado) \<le> length (filter (\<lambda>r. r ''CUOTA'' \<noteq> Some ''3'') rs) \<and>
         (length (lineas_hab resultado) = length (filter (\<lambda>r. r ''CUOTA'' \<noteq> Some ''3'') rs) \<longleftrightarrow>
          sorted (map (\<lambda>r. r ''CUOTA'' = Some ''3'') rs))"
  using procesar_archivo_Inr(3) [OF assms] length_lineas_esperadas_elegibles [of cols fecha rs] by simp

theorem procesar_archivo_filas_perdidas_witness:
  "\<exists>resultado contenido.
     procesar_archivo (frame_of_rows columnas_requeridas [ejemplo_cuota3, ejemplo_a, ejemplo_b]) ''20250101'' =
       Inr (resultado, contenido) \<and>
     length (lineas_hab resultado) < length (filter (\<lambda>r. r ''CUOTA'' \<noteq> Some ''3'') [ejemplo_cuota3, ejemplo_a, ejemplo_b])"
proof -
  have c: "''CUOTA'' \<in> set columnas_requeridas" "''SOLICITUD'' \<in> set columnas_requeridas"
    by (simp_all add: columnas_requeridas_def)
  obtain resultado where r: "procesar_archivo (frame_of_rows columnas_requeridas [ejemplo_cuota3, ejemplo_a, ejemplo_b]) ''20250101'' =
      Inr (resultado, contenido_hab (lineas_esperadas columnas_requeridas ''20250101'' [ejemplo_cuota3, ejemplo_a, ejemplo_b]))"
    using procesar_archivo_exito [OF c] by blast
  have ns: "\<not> sorted (map (\<lambda>r. r ''CUOTA'' = Some ''3'') [ejemplo_cuota3, ejemplo_a, ejemplo_b])"
    by (simp add: ejemplos)
  let ?l = "length (lineas_hab resultado)"
  let ?k = "length (filter (\<lambda>r. r ''CUOTA'' \<noteq> Some ''3'') [ejemplo_cuota3, ejemplo_a, ejemplo_b])"
  have b: "?l \<le> ?k \<and> (?l = ?k \<longleftrightarrow> sorted (map (\<lambda>r. r ''CUOTA'' = Some ''3'') [ejemplo_cuota3, ejemplo_a, ejemplo_b]))"
    by (rule procesar_archivo_filas_perdidas [OF r])
  then have "?l \<le> ?k" and "?l \<noteq> ?k"
    using ns by simp_all
  then have "?l < ?k"
    by (rule le_neq_implies_less)
  with r show ?thesis by blast
qed

text \<open>
  C4. On the sheet \<open>[row with CUOTA '3', a, b]\<close> the file has a single line: the
  fields of \<open>a\<close> (branch 12, account 345, amount 1500.50) with the CUIL of \<open>b\<close>
  (\<open>27555\<close>, prefixed \<open>1\<close> for \<open>b\<close>'s attorney); \<open>b\<close>'s deposit is lost.
\<close>

theorem procesar_archivo_cuil_cruzado:
  "\<exists>resultado. procesar_archivo (frame_of_rows columnas_requeridas [ejemplo_cuota3, ejemplo_a, ejemplo_b]) ''20250101'' =
     Inr (resultado, contenido_hab [''013000120130000003450000000001500.500020250101014650000770000000000000000000110000000000000000000127555'']) \<and> lineas_hab resultado = [''013000120130000003450000000001500.500020250101014650000770000000000000000000110000000000000000000127555'']"
proof -
  have c: "''CUOTA'' \<in> set columnas_requeridas" "''SOLICITUD'' \<in> set columnas_requeridas"
    by (simp_all add: columnas_requeridas_def)
  have eq: "lineas_esperadas columnas_requeridas ''20250101'' [ejemplo_cuota3, ejemplo_a, ejemplo_b] = [''013000120130000003450000000001500.500020250101014650000770000000000000000000110000000000000000000127555'']"
    by code_simp
  show ?thesis
    using procesar_archivo_exito [OF c, of "[ejemplo_cuota3, ejemplo_a, ejemplo_b]" "''20250101''"]
    unfolding eq .
qed

text \<open>
  C5. Every line of a successful run is built from rows of the sheet whose
  \<open>CUOTA\<close> is not \<open>'3'\<close>: excluded rows contribute neither fields nor CUIL.
\<close>

theorem procesar_archivo_solo_elegibles:
  assumes "procesar_archivo (frame_of_rows cols rs) fecha = Inr (resultado, contenido)"
  shows "\<forall>l \<in> set (lineas_hab resultado). \<exists>r \<in> set (filas_lote cols rs). \<exists>r' \<in> set (filas_lote cols rs).
           r ''CUOTA'' \<noteq> Some ''3'' \<and> r' ''CUOTA'' \<noteq> Some ''3'' \<and> l = linea_esperada cols fecha r r'"
proof
  fix l assume "l \<in> set (lineas_hab resultado)"
  then obtain i where i: "i < length (filter (\<lambda>r. r ''CUOTA'' \<noteq> Some ''3'') (filas_lote cols rs))"
    and keep: "(rs ! i) ''CUOTA'' \<noteq> Some ''3''"
    and l: "l = linea_esperada cols fecha (filas_lote cols rs ! i)
                  (filter (\<lambda>r. r ''CUOTA'' \<noteq> Some ''3'') (filas_lote cols rs) ! i)"
    using procesar_archivo_Inr(3) [OF assms] by (auto simp: lineas_esperadas_def Let_def)
  let ?kept = "filter (\<lambda>r. r ''CUOTA'' \<noteq> Some ''3'') (filas_lote cols rs)"
  have lt: "i < length rs"
    using i length_filter_le [of "\<lambda>r. r ''CUOTA'' \<noteq> Some ''3''" "filas_lote cols rs"] by simp
  have "filas_lote cols rs ! i \<in> set (filas_lote cols rs)"
    using lt by simp
  moreover have "(filas_lote cols rs ! i) ''CUOTA'' \<noteq> Some ''3''"
    using keep lt by (simp add: filas_lote_cuota)
  moreover have "?kept ! i \<in> set ?kept"
    using i by (rule nth_mem)
  ultimately show "\<exists>r \<in> set (filas_lote cols rs). \<exists>r' \<in> set (filas_lote cols rs).
           r ''CUOTA'' \<noteq> Some ''3'' \<and> r' ''CUOTA'' \<noteq> Some ''3'' \<and> l = linea_esperada cols fecha r r'"
    using l by auto
qed

theorem procesar_archivo_solo_elegibles_witness:
  "\<exists>resultado contenido.
     procesar_archivo (frame_of_rows columnas_requeridas [ejemplo_a]) ''20250101'' = Inr (resultado, contenido) \<and>
     (\<forall>l \<in> set (lineas_hab resultado). \<exists>r \<in> set (filas_lote columnas_requeridas [ejemplo_a]).
        \<exists>r' \<in> set (filas_lote columnas_requeridas [ejemplo_a]).
        r ''CUOTA'' \<noteq> Some ''3'' \<and> r' ''CUOTA'' \<noteq> Some ''3'' \<and> l = linea_esperada columnas_requeridas ''20250101'' r r')"
proof -
  have c: "''CUOTA'' \<in> set columnas_requeridas" "''SOLICITUD'' \<in> set columnas_requeridas"
    by (simp_all add: columnas_requeridas_def)
  obtain resultado where r: "procesar_archivo (frame_of_rows columnas_requeridas [ejemplo_a]) ''20250101'' =
      Inr (resultado, contenido_hab (lineas_esperadas columnas_requeridas ''20250101'' [ejemplo_a]))"
    using procesar_archivo_exito [OF c] by blast
  from procesar_archivo_solo_elegibles [OF r] r show ?thesis by blast
qed

text \<open>
  C6. The only errors a run can raise are \<open>KeyError('CUOTA')\<close>, when the sheet
  lacks that column, and \<open>KeyError('SOLICITUD')\<close>, when it has \<open>CUOTA\<close> but lacks
  \<open>SOLICITUD\<close>; every other missing column is skipped silently.
\<close>

theorem procesar_archivo_errores:
  "procesar_archivo (frame_of_rows cols rs) fecha = Inl e \<longleftrightarrow>
     (''CUOTA'' \<notin> set cols \<and> e = KeyError ''CUOTA'') \<or>
     (''CUOTA'' \<in> set cols \<and> ''SOLICITUD'' \<notin> set cols \<and> e = KeyError ''SOLICITUD'')"
proof (cases "''CUOTA'' \<in> set cols")
  case False
  then show ?thesis by (auto simp: procesar_archivo_sin_cuota)
next
  case c: True
  show ?thesis
  proof (cases "''SOLICITUD'' \<in> set cols")
    case True
    then show ?thesis
      using c procesar_archivo_exito [OF c True, of rs fecha] by auto
  next
    case False
    then show ?thesis
      using c procesar_archivo_tabla [OF c] filtrar_solicitud_tabla_sin_columna [OF False] by auto
  qed
qed

theorem procesar_archivo_errores_witness:
  "procesar_archivo (frame_of_rows [''CUOTA''] [ejemplo_a]) ''20250101'' = Inl (KeyError ''SOLICITUD'') \<and>
   procesar_archivo (frame_of_rows [] [ejemplo_a]) ''20250101'' = Inl (KeyError ''CUOTA'')"
  using procesar_archivo_errores [of "[''CUOTA'']" "[ejemplo_a]" "''20250101''" "KeyError ''SOLICITUD''"]
    procesar_archivo_errores [of "[]" "[ejemplo_a]" "''20250101''" "KeyError ''CUOTA''"]
  by simp

text \<open>
  C7. The scenario of the specification: on \<open>[a, row with CUOTA '3', row without
  SOLICITUD]\<close> the file has the single line of \<open>a\<close>. The third row is lost not by
  the \<open>SOLICITUD\<close> filter but by the misalignment of C1: its original position, 2,
  is not below the number of eligible rows.
\<close>

theorem procesar_archivo_escenario_spec:
  "\<exists>resultado. procesar_archivo (frame_of_rows columnas_requeridas [ejemplo_a, ejemplo_cuota3, ejemplo_sin_solicitud]) ''20250101'' =
     Inr (resultado, contenido_hab [''013000120130000003450000000001500.500020250101014650000770000000000000000000110000000000000220123456789'']) \<and> lineas_hab resultado = [''013000120130000003450000000001500.500020250101014650000770000000000000000000110000000000000220123456789'']"
proof -
  have c: "''CUOTA'' \<in> set columnas_requeridas" "''SOLICITUD'' \<in> set columnas_requeridas"
    by (simp_all add: columnas_requeridas_def)
  have eq: "lineas_esperadas columnas_requeridas ''20250101'' [ejemplo_a, ejemplo_cuota3, ejemplo_sin_solicitud] = [''013000120130000003450000000001500.500020250101014650000770000000000000000000110000000000000220123456789'']"
    by code_simp
  show ?thesis
    using procesar_archivo_exito [OF c, of "[ejemplo_a, ejemplo_cuota3, ejemplo_sin_solicitud]" "''20250101''"]
    unfolding eq .
qed

text \<open>
  C8. A row whose \<open>SOLICITUD\<close> cell is empty is not dropped: the result table holds
  \<open>zfill(str(NaN), 6) = '000nan'\<close>, which is not NaN, so \<open>dropna\<close> keeps it and the
  file has a line with \<open>000nan\<close> in the request-number field.
\<close>

theorem procesar_archivo_solicitud_nan:
  "\<exists>resultado. procesar_archivo (frame_of_rows columnas_requeridas [ejemplo_a, ejemplo_sin_solicitud]) ''20250101'' =
     Inr (resultado, contenido_hab [''013000120130000003450000000001500.500020250101014650000770000000000000000000110000000000000220123456789'', ''013000150130000003480000000000000030002025010101465000nan0000000000000000000113000000000000220111222333'']) \<and> lineas_hab resultado = [''013000120130000003450000000001500.500020250101014650000770000000000000000000110000000000000220123456789'', ''013000150130000003480000000000000030002025010101465000nan0000000000000000000113000000000000220111222333'']"
proof -
  have c: "''CUOTA'' \<in> set columnas_requeridas" "''SOLICITUD'' \<in> set columnas_requeridas"
    by (simp_all add: columnas_requeridas_def)
  have eq: "lineas_esperadas columnas_requeridas ''20250101'' [ejemplo_a, ejemplo_sin_solicitud] = [''013000120130000003450000000001500.500020250101014650000770000000000000000000110000000000000220123456789'', ''013000150130000003480000000000000030002025010101465000nan0000000000000000000113000000000000220111222333'']"
    by code_simp
  show ?thesis
    using procesar_archivo_exito [OF c, of "[ejemplo_a, ejemplo_sin_solicitud]" "''20250101''"]
    unfolding eq .
qed

text \<open>
  C9. The CUIL rule: a blank CUIL gives the empty string; otherwise a CUIL of at most
  21 characters becomes 22 characters: zeros, then \<open>'2'\<close> when there is no attorney
  CUIL (NaN or empty) and \<open>'1'\<close> when there is one, then the CUIL as read.
\<close>

theorem valor_cuil_regla:
  assumes "length cuil \<le> 21"
  shows "valor_cuil cuil_apoderado cuil =
    (if \<forall>c \<in> set cuil. py_isspace c then []
     else replicate (21 - length cuil) CHR ''0'' @
          (if cuil_apoderado = None \<or> cuil_apoderado = Some '''' then ''2'' else ''1'') @ cuil)"
proof -
  have "sin_signo (prefijo_cuil cuil_apoderado @ cuil)"
    by (simp add: prefijo_cuil_def)
  moreover have "cuil = [] \<Longrightarrow> \<forall>c \<in> set cuil. py_isspace c" by simp
  ultimately show ?thesis
    using assms by (auto simp: valor_cuil_def py_strip_Nil_iff zfill_sin_signo prefijo_cuil_def)
qed

theorem valor_cuil_regla_witness:
  "length ''20123456789'' \<le> 21 \<and>
   valor_cuil None ''20123456789'' = ''0000000000220123456789'' \<and>
   valor_cuil (Some ''20987654321'') ''20123456789'' = ''0000000000120123456789''"
  using valor_cuil_regla [of "''20123456789''" None] valor_cuil_regla [of "''20123456789''" "Some ''20987654321''"]
  by (simp add: py_isspace_def numeral_eq_Suc)

text \<open>
  C10. An empty CUIL cell is not treated as blank: \<open>str(NaN)\<close> is \<open>'nan'\<close>, so the
  CUIL field becomes eighteen zeros, the prefix and \<open>nan\<close>.
\<close>

theorem cuil_de_fila_nan:
  assumes "''CUIL'' \<in> set cols" and "r ''CUIL'' = None"
  shows "cuil_de_fila cols r =
    replicate 18 CHR ''0'' @ prefijo_cuil (row_get cols r ''CUIL_APODERADO'' None) @ ''nan''"
  using assms
  by (simp add: cuil_de_fila_def Let_def row_get_def valor_cuil_def py_strip_def py_isspace_def zfill_sin_signo)

theorem cuil_de_fila_nan_witness:
  "''CUIL'' \<in> set columnas_requeridas \<and> (ejemplo_sin_solicitud(''CUIL'' := None)) ''CUIL'' = None \<and>
   cuil_de_fila columnas_requeridas (ejemplo_sin_solicitud(''CUIL'' := None)) = ''0000000000000000002nan''"
  using cuil_de_fila_nan [of columnas_requeridas "ejemplo_sin_solicitud(''CUIL'' := None)"]
  by (simp add: ejemplos row_get_def prefijo_cuil_def numeral_eq_Suc)

section \<open>The file format\<close>

text \<open>
  C11. With every required column present and every cell within its field's width,
  a line is 103 characters long, the nominal width of the layout, except when the
  CUIL is blank: that field is then empty and the line is 81 characters long.
\<close>

theorem length_linea_esperada:
  assumes cols: "set columnas_requeridas \<subseteq> set cols" and "length fecha \<le> 8"
    and "length (py_str (r ''SUCURSAL'')) \<le> 5" and "length (py_str (r ''CUENTA'')) \<le> 9"
    and "length (py_str (r ''IMPORTE'')) \<le> 18" and "length (py_str (r ''SOLICITUD'')) \<le> 6"
    and "length (py_str (r ''CBU'')) \<le> 22" and "length (py_str (r_cuil ''CUIL'')) \<le> 21"
  shows "length (linea_esperada cols fecha r r_cuil) =
           (if \<forall>c \<in> set (py_str (r_cuil ''CUIL'')). py_isspace c then 81 else 103)"
proof -
  have req: "''CUIL'' \<in> set cols" "''CUIL_APODERADO'' \<in> set cols"
    using cols by (auto simp: columnas_requeridas_def)
  show ?thesis
    using assms
    by (simp add: linea_esperada_completa [OF cols] datos_formato_cliente_def valor_campo_def
        cuil_de_fila_columnas [OF req] valor_cuil_blanco valor_cuil_no_blanco)
qed

theorem length_linea_esperada_witness:
  "set columnas_requeridas \<subseteq> set columnas_requeridas \<and>
   length (linea_esperada columnas_requeridas ''20250101'' (hd (filas_lote columnas_requeridas [ejemplo_a])) ejemplo_a) = 103"
proof -
  let ?r = "hd (filas_lote columnas_requeridas [ejemplo_a])"
  have "length (linea_esperada columnas_requeridas ''20250101'' ?r ejemplo_a) =
          (if \<forall>c \<in> set (py_str (ejemplo_a ''CUIL'')). py_isspace c then 81 else 103)"
    by (rule length_linea_esperada) (simp_all add: ejemplos filas_lote_def con_ceros_def importe_con_ceros_def)
  then show ?thesis
    by (simp add: ejemplos py_isspace_def)
qed

text \<open>
  C12. Round trip: when the fields fit and the CUIL is not blank, cutting a line at
  the widths of the layout table gives back, in order, the twelve field values the
  code wrote.
\<close>

theorem partir_linea_esperada:
  assumes cols: "set columnas_requeridas \<subseteq> set cols" and "length fecha \<le> 8"
    and "length (py_str (r ''SUCURSAL'')) \<le> 5" and "length (py_str (r ''CUENTA'')) \<le> 9"
    and "length (py_str (r ''IMPORTE'')) \<le> 18" and "length (py_str (r ''SOLICITUD'')) \<le> 6"
    and "length (py_str (r ''CBU'')) \<le> 22" and "length (py_str (r_cuil ''CUIL'')) \<le> 21"
    and "\<not> (\<forall>c \<in> set (py_str (r_cuil ''CUIL'')). py_isspace c)"
  shows "partir (map total (datos_formato_cliente fecha)) (linea_esperada cols fecha r r_cuil) =
           map (\<lambda>f. if campo f = ''CUIL'' then cuil_de_fila cols r_cuil else valor_campo f r)
               (datos_formato_cliente fecha)"
proof -
  let ?g = "\<lambda>f. if campo f = ''CUIL'' then cuil_de_fila cols r_cuil else valor_campo f r"
  have req: "''CUIL'' \<in> set cols" "''CUIL_APODERADO'' \<in> set cols"
    using cols by (auto simp: columnas_requeridas_def)
  have "map total (datos_formato_cliente fecha) = map length (map ?g (datos_formato_cliente fecha))"
    using assms
    by (simp add: datos_formato_cliente_def valor_campo_def cuil_de_fila_columnas [OF req] valor_cuil_no_blanco)
  moreover have "linea_esperada cols fecha r r_cuil = concat (map ?g (datos_formato_cliente fecha))"
    by (rule linea_esperada_completa [OF cols])
  ultimately show ?thesis
    by (simp only: partir_concat)
qed

theorem partir_linea_esperada_witness:
  "set columnas_requeridas \<subseteq> set columnas_requeridas \<and>
   partir (map total (datos_formato_cliente ''20250101''))
     (linea_esperada columnas_requeridas ''20250101'' (hd (filas_lote columnas_requeridas [ejemplo_a])) ejemplo_a) =
   [''013'', ''00012'', ''01'', ''3'', ''000000345'', ''0000000001500.5000'', ''20250101'', ''01465'',
    ''000077'', ''0000000000000000000110'', ''00'', ''0000000000220123456789'']"
proof -
  let ?r = "hd (filas_lote columnas_requeridas [ejemplo_a])"
  have "partir (map total (datos_formato_cliente ''20250101''))
          (linea_esperada columnas_requeridas ''20250101'' ?r ejemplo_a) =
        map (\<lambda>f. if campo f = ''CUIL'' then cuil_de_fila columnas_requeridas ejemplo_a else valor_campo f ?r)
            (datos_formato_cliente ''20250101'')"
    by (rule partir_linea_esperada)
       (simp_all add: ejemplos filas_lote_def con_ceros_def importe_con_ceros_def py_isspace_def)
  also have "\<dots> = [''013'', ''00012'', ''01'', ''3'', ''000000345'', ''0000000001500.5000'', ''20250101'', ''01465'',
    ''000077'', ''0000000000000000000110'', ''00'', ''0000000000220123456789'']"
    by code_simp
  finally show ?thesis by simp
qed

text \<open>
  C13. Every line of a successful run starts with the agreement type \<open>013\<close>, the
  constant first field of the layout.
\<close>

theorem procesar_archivo_tipo_convenio:
  assumes "procesar_archivo (frame_of_rows cols rs) fecha = Inr (resultado, contenido)"
  shows "\<forall>l \<in> set (lineas_hab resultado). take 3 l = ''013''"
  using procesar_archivo_Inr(3) [OF assms]
  by (auto simp: lineas_esperadas_def Let_def linea_esperada_tipo_convenio)

theorem procesar_archivo_tipo_convenio_witness:
  "\<exists>resultado contenido.
     procesar_archivo (frame_of_rows columnas_requeridas [ejemplo_a, ejemplo_b]) ''20250101'' = Inr (resultado, contenido) \<and>
     (\<forall>l \<in> set (lineas_hab resultado). take 3 l = ''013'')"
proof -
  have c: "''CUOTA'' \<in> set columnas_requeridas" "''SOLICITUD'' \<in> set columnas_requeridas"
    by (simp_all add: columnas_requeridas_def)
  obtain resultado where r: "procesar_archivo (frame_of_rows columnas_requeridas [ejemplo_a, ejemplo_b]) ''20250101'' =
      Inr (resultado, contenido_hab (lineas_esperadas columnas_requeridas ''20250101'' [ejemplo_a, ejemplo_b]))"
    using procesar_archivo_exito [OF c] by blast
  from procesar_archivo_tipo_convenio [OF r] r show ?thesis by blast
qed

text \<open>
  C14. The content of a non-empty file is its lines, each followed by CRLF: the
  \<open>'\r\n'.join\<close> plus the trailing \<open>'\r\n'\<close> terminate every line, the last
  included.
\<close>

theorem contenido_hab_crlf:
  "lineas \<noteq> [] \<Longrightarrow> contenido_hab lineas = concat (map (\<lambda>l. l @ crlf) lineas)"
  by (simp add: contenido_hab_def py_join_append_sep)

theorem contenido_hab_crlf_witness:
  "[''013000120130000003450000000001500.500020250101014650000770000000000000000000110000000000000220123456789'', ''013000150130000003480000000000000030002025010101465000nan0000000000000000000113000000000000220111222333''] \<noteq> [] \<and> contenido_hab [''013000120130000003450000000001500.500020250101014650000770000000000000000000110000000000000220123456789'', ''013000150130000003480000000000000030002025010101465000nan0000000000000000000113000000000000220111222333''] = ''013000120130000003450000000001500.500020250101014650000770000000000000000000110000000000000220123456789'' @ crlf @ ''013000150130000003480000000000000030002025010101465000nan0000000000000000000113000000000000220111222333'' @ crlf"
  using contenido_hab_crlf [of "[''013000120130000003450000000001500.500020250101014650000770000000000000000000110000000000000220123456789'', ''013000150130000003480000000000000030002025010101465000nan0000000000000000000113000000000000220111222333'']"] by simp

text \<open>
  C15. A sheet whose rows all have \<open>CUOTA = '3'\<close> gives no error and a file holding
  a single CRLF: an empty batch is not reported.
\<close>

theorem procesar_archivo_lote_vacio:
  assumes "''CUOTA'' \<in> set cols" and "''SOLICITUD'' \<in> set cols"
    and "\<forall>r \<in> set rs. r ''CUOTA'' = Some ''3''"
  shows "\<exists>resultado. procesar_archivo (frame_of_rows cols rs) fecha = Inr (resultado, crlf)"
proof -
  have "filter (\<lambda>r. r ''CUOTA'' \<noteq> Some ''3'') (filas_lote cols rs) = []"
    using assms(3) by (auto simp: filas_lote_def con_ceros_def filter_empty_conv)
  then have "lineas_esperadas cols fecha rs = []"
    by (simp add: lineas_esperadas_def)
  with procesar_archivo_exito [OF assms(1,2), of rs fecha] show ?thesis
    by (auto simp: contenido_hab_def)
qed

theorem procesar_archivo_lote_vacio_witness:
  "''CUOTA'' \<in> set columnas_requeridas \<and> ''SOLICITUD'' \<in> set columnas_requeridas \<and>
   ejemplo_cuota3 ''CUOTA'' = Some ''3'' \<and>
   (\<exists>resultado. procesar_archivo (frame_of_rows columnas_requeridas [ejemplo_cuota3]) ''20250101'' = Inr (resultado, crlf))"
proof -
  have c: "''CUOTA'' \<in> set columnas_requeridas" "''SOLICITUD'' \<in> set columnas_requeridas"
    by (simp_all add: columnas_requeridas_def)
  have t: "\<forall>r \<in> set [ejemplo_cuota3]. r ''CUOTA'' = Some ''3''"
    by (simp add: ejemplos)
  show ?thesis
    using c t procesar_archivo_lote_vacio [OF c t, of "''20250101''"] by simp
qed

text \<open>
  C16. The amount column through the whole run: every row of the result table is
  labelled by the position of an eligible source row, and its \<open>IMPORTE\<close> is that
  row's \<open>str(IMPORTE)\<close> with \<open>'00'\<close> appended (lines 94--95) and zero-filled to 18
  (line 109), aligned by label.
\<close>

theorem procesar_archivo_importe:
  assumes imp: "''IMPORTE'' \<in> set cols"
    and run: "procesar_archivo (frame_of_rows cols rs) fecha = Inr (resultado, contenido)"
    and fila: "(i, fila) \<in> set (rows resultado)"
  shows "i < length rs \<and> (rs ! i) ''CUOTA'' \<noteq> Some ''3'' \<and>
         fila ''IMPORTE'' = Some (zfill (py_str ((rs ! i) ''IMPORTE'') @ ''00'') 18)"
proof -
  have c: "''CUOTA'' \<in> set cols" and s: "''SOLICITUD'' \<in> set cols"
    using procesar_archivo_Inr(1,2) [OF run] by blast+
  have "rows resultado = map (\<lambda>i. (i, fila_esperada cols fecha rs i))
          (filter (\<lambda>i. (rs ! i) ''CUOTA'' \<noteq> Some ''3'') [0..<length (rows (lote_esperado cols rs))])"
    using run by (auto simp: procesar_archivo_tabla [OF c] filtrar_solicitud_tabla [OF s])
  then have i: "i < length rs" "(rs ! i) ''CUOTA'' \<noteq> Some ''3''" and f: "fila = fila_esperada cols fecha rs i"
    using fila length_rows_lote_esperado_le [of cols rs] by auto
  define fi where "fi = datos_formato_cliente fecha ! 5"
  have fi: "fi \<in> set (campos_presentes cols (datos_formato_cliente fecha))"
    "campo fi = ''IMPORTE''" "default fi = None" "enteros fi = 18"
    using imp by (simp_all add: fi_def campos_presentes_def datos_formato_cliente_def)
  show ?thesis
    using i fila_esperada_campo [OF fi(1), of rs i] fi(2-4)
    by (simp add: f valor_resuelto_def map_of_lote_esperado valor_campo_def filas_lote_def imp
        con_ceros_def importe_con_ceros_def)
qed

theorem procesar_archivo_importe_witness:
  "\<exists>resultado contenido fila.
     procesar_archivo (frame_of_rows columnas_requeridas [ejemplo_a]) ''20250101'' = Inr (resultado, contenido) \<and>
     (0, fila) \<in> set (rows resultado) \<and> fila ''IMPORTE'' = Some ''0000000001500.5000''"
proof -
  have c: "''CUOTA'' \<in> set columnas_requeridas" "''SOLICITUD'' \<in> set columnas_requeridas"
    "''IMPORTE'' \<in> set columnas_requeridas"
    by (simp_all add: columnas_requeridas_def)
  obtain resultado where r: "procesar_archivo (frame_of_rows columnas_requeridas [ejemplo_a]) ''20250101'' =
      Inr (resultado, contenido_hab (lineas_esperadas columnas_requeridas ''20250101'' [ejemplo_a]))"
    using procesar_archivo_exito [OF c(1,2)] by blast
  have "length (lineas_hab resultado) = 1"
    using procesar_archivo_Inr(3) [OF r] by (simp add: length_lineas_esperadas ejemplos)
  then obtain i fila where m: "(i, fila) \<in> set (rows resultado)"
    by (cases "rows resultado") (auto simp: lineas_hab_def)
  have t: "i < length [ejemplo_a] \<and> ([ejemplo_a] ! i) ''CUOTA'' \<noteq> Some ''3'' \<and>
        fila ''IMPORTE'' = Some (zfill (py_str (([ejemplo_a] ! i) ''IMPORTE'') @ ''00'') 18)"
    by (rule procesar_archivo_importe [OF c(3) r m])
  then have "i = 0" by simp
  with t have "fila ''IMPORTE'' = Some (zfill ''1500.5000'' 18)"
    by (simp add: ejemplos)
  moreover have "zfill ''1500.5000'' 18 = ''0000000001500.5000''"
    by code_simp
  ultimately have "fila ''IMPORTE'' = Some ''0000000001500.5000''" "i = 0"
    using \<open>i = 0\<close> by simp_all
  then show ?thesis using r m by blast
qed

section \<open>The page\<close>

lemma ejecutar_subir_a:
  "archivo_subido (ejecutar ''20250101'' [SubirArchivo (Some hoja_a)]) = Some hoja_a \<and>
   ss_fecha (ejecutar ''20250101'' [SubirArchivo (Some hoja_a)]) = ''20250101''"
  by (simp add: ejecutar_def inicio_def ejecutar_pagina_def verificar_columnas_def sesion_inicial_def hoja_a_def
      leer_excel_def reiniciar_procesamiento_def Let_def columnas_faltantes_def columnas_requeridas_def)

lemma ejecutar_subir_cruzada:
  "archivo_subido (ejecutar ''20250101'' [SubirArchivo (Some hoja_cruzada)]) = Some hoja_cruzada"
  by (simp add: ejecutar_def inicio_def ejecutar_pagina_def verificar_columnas_def sesion_inicial_def hoja_cruzada_def
      leer_excel_def reiniciar_procesamiento_def Let_def columnas_faltantes_def columnas_requeridas_def)

text \<open>
  C17. In every state a user can reach, the file name ends in \<open>.hab\<close> and no
  exception is recorded: the column check before the button guarantees the columns
  \<open>procesar_archivo\<close> needs, so its error branch (lines 235--237) is never taken.
\<close>

theorem sesion_invariante:
  assumes "alcanzable hoy st"
  shows "py_endswith (ss_nombre_archivo st) ''.hab'' \<and> ss_error st = None"
  using alcanzable_inv_sesion [OF assms] by (simp add: inv_sesion_def)

theorem sesion_invariante_witness:
  "alcanzable ''20250101'' (ejecutar ''20250101'' [SubirArchivo (Some hoja_a), PulsarProcesar, EscribirNombre ''lote'']) \<and>
   py_endswith (ss_nombre_archivo (ejecutar ''20250101'' [SubirArchivo (Some hoja_a), PulsarProcesar, EscribirNombre ''lote''])) ''.hab''"
  using sesion_invariante [OF alcanzable_ejecutar [of "''20250101''" "[SubirArchivo (Some hoja_a), PulsarProcesar, EscribirNombre ''lote'']"]]
    alcanzable_ejecutar by simp

text \<open>
  C18. In every reachable state that shows a download link, following it saves the
  Latin-1 bytes of the encoder's output for the sheet now in the uploader and the
  date now selected, under the session's file name (when the name has no double
  quote): a stale result is never offered.
\<close>

theorem sesion_descarga_fiel:
  assumes "alcanzable hoy st" and "enlace_descarga st = Some html"
    and "comillas \<notin> set (ss_nombre_archivo st)"
  shows "\<exists>cols rs. archivo_subido st = Some (Hoja cols rs) \<and> set columnas_requeridas \<subseteq> set cols \<and>
           descargar html = Some (latin1_encode (contenido_hab (lineas_esperadas cols (ss_fecha st) rs)),
                                  ss_nombre_archivo st)"
proof -
  obtain cols rs where "archivo_subido st = Some (Hoja cols rs)" "columnas_faltantes cols = []"
    "html = get_download_link (contenido_hab (lineas_esperadas cols (ss_fecha st) rs)) (ss_nombre_archivo st)"
    using enlace_descarga_sesion [OF alcanzable_inv_sesion [OF assms(1)] assms(2)] by blast
  then show ?thesis
    using assms(3) by (simp add: descargar_get_download_link columnas_faltantes_Nil_iff)
qed

theorem sesion_descarga_fiel_witness:
  "alcanzable ''20250101'' (ejecutar ''20250101'' [SubirArchivo (Some hoja_a), PulsarProcesar]) \<and>
   comillas \<notin> set (ss_nombre_archivo (ejecutar ''20250101'' [SubirArchivo (Some hoja_a), PulsarProcesar])) \<and>
   (\<exists>html. enlace_descarga (ejecutar ''20250101'' [SubirArchivo (Some hoja_a), PulsarProcesar]) = Some html \<and>
      descargar html = Some (latin1_encode (contenido_hab (lineas_esperadas columnas_requeridas ''20250101'' [ejemplo_a])),
                             ''deposito_20250101.hab''))"
proof -
  let ?ini = "ejecutar ''20250101'' [SubirArchivo (Some hoja_a)]"
  let ?st = "ejecutar ''20250101'' [SubirArchivo (Some hoja_a), PulsarProcesar]"
  have e: "?st = paso ?ini PulsarProcesar"
    using ejecutar_snoc [of "''20250101''" "[SubirArchivo (Some hoja_a)]" PulsarProcesar]
    unfolding append_Cons append_Nil .
  have s: "archivo_subido ?ini = Some (Hoja columnas_requeridas [ejemplo_a])" "ss_fecha ?ini = ''20250101''"
    using ejecutar_subir_a by (simp_all add: hoja_a_def)
  have c: "columnas_faltantes columnas_requeridas = []"
    by (simp add: columnas_faltantes_def)
  have p: "ss_nombre_archivo ?st = ''deposito_20250101.hab''" "archivo_subido ?st = Some (Hoja columnas_requeridas [ejemplo_a])"
    "ss_fecha ?st = ''20250101''"
    using paso_procesar [OF s(1) c] s unfolding e by simp_all
  have a: "alcanzable ''20250101'' ?st" by (rule alcanzable_ejecutar)
  have q: "comillas \<notin> set (ss_nombre_archivo ?st)"
    using p by (simp add: comillas_def)
  have l: "\<exists>html. enlace_descarga ?st = Some html"
    using paso_procesar [OF s(1) c] unfolding e by (simp add: enlace_descarga_def)
  then obtain html where h: "enlace_descarga ?st = Some html" by blast
  from sesion_descarga_fiel [OF a h q] p show ?thesis
    using a q h by auto
qed

text \<open>
  C19. Pressing the button on an uploaded sheet with every required column always
  leads to the download link, for the encoder's content and the name
  \<open>deposito_YYYYMMDD.hab\<close> of the selected date.
\<close>

theorem sesion_progreso:
  assumes "alcanzable hoy st" and "archivo_subido st = Some (Hoja cols rs)"
    and "set columnas_requeridas \<subseteq> set cols"
  shows "enlace_descarga (paso st PulsarProcesar) =
           Some (get_download_link (contenido_hab (lineas_esperadas cols (ss_fecha st) rs))
                                   (''deposito_'' @ ss_fecha st @ ''.hab''))"
  using paso_procesar [OF assms(2)] assms(3)
  by (simp add: enlace_descarga_def columnas_faltantes_Nil_iff)

theorem sesion_progreso_witness:
  "alcanzable ''20250101'' (ejecutar ''20250101'' [SubirArchivo (Some hoja_a)]) \<and>
   archivo_subido (ejecutar ''20250101'' [SubirArchivo (Some hoja_a)]) = Some (Hoja columnas_requeridas [ejemplo_a]) \<and>
   set columnas_requeridas \<subseteq> set columnas_requeridas \<and>
   enlace_descarga (ejecutar ''20250101'' [SubirArchivo (Some hoja_a), PulsarProcesar]) =
     Some (get_download_link (contenido_hab (lineas_esperadas columnas_requeridas ''20250101'' [ejemplo_a]))
                             ''deposito_20250101.hab'')"
proof -
  let ?st = "ejecutar ''20250101'' [SubirArchivo (Some hoja_a)]"
  have a: "alcanzable ''20250101'' ?st" by (rule alcanzable_ejecutar)
  have s: "archivo_subido ?st = Some (Hoja columnas_requeridas [ejemplo_a])" "ss_fecha ?st = ''20250101''"
    using ejecutar_subir_a by (simp_all add: hoja_a_def)
  have e: "ejecutar ''20250101'' [SubirArchivo (Some hoja_a), PulsarProcesar] = paso ?st PulsarProcesar"
    using ejecutar_snoc [of "''20250101''" "[SubirArchivo (Some hoja_a)]" PulsarProcesar]
    unfolding append_Cons append_Nil .
  show ?thesis
    unfolding e using sesion_progreso [OF a s(1)] a s by (simp del: paso.simps)
qed

text \<open>
  C20. The summary shown after processing adds up, total = excluded + processed,
  exactly when no eligible row follows a row with \<open>CUOTA = '3'\<close>; otherwise the
  lost rows appear in no count.
\<close>

theorem resumen_sesion_cuadra:
  assumes "alcanzable hoy st" and "resumen_sesion st = Some r"
  shows "\<exists>cols rs. archivo_subido st = Some (Hoja cols rs) \<and>
           (registros_totales r = registros_excluidos r + registros_procesados r \<longleftrightarrow>
            sorted (map (\<lambda>x. x ''CUOTA'' = Some ''3'') rs))"
proof -
  obtain cols rs where a: "archivo_subido st = Some (Hoja cols rs)"
    and t: "registros_totales r = length rs"
    and e: "registros_excluidos r = length (filter (\<lambda>x. x ''CUOTA'' = Some ''3'') rs)"
    and p: "registros_procesados r = length (lineas_esperadas cols (ss_fecha st) rs)"
    by (rule resumen_sesion_datos [OF alcanzable_inv_sesion [OF assms(1)] assms(2)])
  have "length rs = length (filter (\<lambda>x. x ''CUOTA'' = Some ''3'') rs) +
                    length (filter (\<lambda>x. x ''CUOTA'' \<noteq> Some ''3'') rs)"
    using sum_length_filter_compl [of "\<lambda>x. x ''CUOTA'' = Some ''3''" rs] by simp
  then show ?thesis
    using a t e p length_lineas_esperadas_elegibles [of cols "ss_fecha st" rs] by auto
qed

theorem resumen_sesion_cuadra_witness:
  "alcanzable ''20250101'' (ejecutar ''20250101'' [SubirArchivo (Some hoja_cruzada), PulsarProcesar]) \<and>
   (\<exists>r. resumen_sesion (ejecutar ''20250101'' [SubirArchivo (Some hoja_cruzada), PulsarProcesar]) = Some r \<and>
        registros_totales r \<noteq> registros_excluidos r + registros_procesados r)"
proof -
  let ?ini = "ejecutar ''20250101'' [SubirArchivo (Some hoja_cruzada)]"
  let ?st = "ejecutar ''20250101'' [SubirArchivo (Some hoja_cruzada), PulsarProcesar]"
  have e: "?st = paso ?ini PulsarProcesar"
    using ejecutar_snoc [of "''20250101''" "[SubirArchivo (Some hoja_cruzada)]" PulsarProcesar]
    unfolding append_Cons append_Nil .
  have a: "alcanzable ''20250101'' ?st" by (rule alcanzable_ejecutar)
  have c: "columnas_faltantes columnas_requeridas = []"
    by (simp add: columnas_faltantes_def)
  have p: "ss_procesado ?st" "archivo_subido ?st = Some hoja_cruzada"
    using paso_procesar [OF ejecutar_subir_cruzada [unfolded hoja_cruzada_def] c] unfolding e
    by (simp_all add: hoja_cruzada_def)
  obtain r where r: "resumen_sesion ?st = Some r"
    using resumen_sesion_procesada [OF alcanzable_inv_sesion [OF a] p(1)] by blast
  obtain cols rs where "archivo_subido ?st = Some (Hoja cols rs)"
    and eq: "registros_totales r = registros_excluidos r + registros_procesados r \<longleftrightarrow>
            sorted (map (\<lambda>x. x ''CUOTA'' = Some ''3'') rs)"
    using resumen_sesion_cuadra [OF a r] by blast
  then have "rs = [ejemplo_cuota3, ejemplo_a, ejemplo_b]"
    using p(2) by (simp add: hoja_cruzada_def)
  then have "registros_totales r \<noteq> registros_excluidos r + registros_procesados r"
    using eq by (simp add: ejemplos)
  with a r show ?thesis by blast
qed

text \<open>
  C21. In a processed session, typing a new name renames the file, appending
  \<open>.hab\<close> unless the name already ends with it, and keeps the result and the
  download link.
\<close>

theorem sesion_renombrar:
  assumes "alcanzable hoy st" and "ss_procesado st" and "n \<noteq> ss_nombre_archivo st"
  shows "ss_nombre_archivo (paso st (EscribirNombre n)) = (if py_endswith n ''.hab'' then n else n @ ''.hab'') \<and>
         enlace_descarga (paso st (EscribirNombre n)) \<noteq> None \<and>
         ss_contenido_hab (paso st (EscribirNombre n)) = ss_contenido_hab st"
proof -
  have i: "inv_sesion (paso st (EscribirNombre n))"
    using alcanzable_inv_sesion [OF alcanzable_paso [OF assms(1)]] .
  have r: "ss_nombre_archivo (paso st (EscribirNombre n)) = (if py_endswith n ''.hab'' then n else n @ ''.hab'') \<and>
         ss_procesado (paso st (EscribirNombre n)) \<and>
         ss_contenido_hab (paso st (EscribirNombre n)) = ss_contenido_hab st"
    by (rule paso_renombrar [OF alcanzable_inv_sesion [OF assms(1)] assms(2,3)])
  have "sesion_consistente (paso st (EscribirNombre n))"
    using i r by (simp add: inv_sesion_def)
  then obtain cols rs where "ss_contenido_hab (paso st (EscribirNombre n)) =
      Some (contenido_hab (lineas_esperadas cols (ss_fecha (paso st (EscribirNombre n))) rs))"
    by (rule sesion_consistenteD)
  then show ?thesis
    using i r by (simp add: enlace_descarga_def inv_sesion_def del: paso.simps)
qed

theorem sesion_renombrar_witness:
  "alcanzable ''20250101'' (ejecutar ''20250101'' [SubirArchivo (Some hoja_a), PulsarProcesar]) \<and>
   ss_procesado (ejecutar ''20250101'' [SubirArchivo (Some hoja_a), PulsarProcesar]) \<and>
   ''lote'' \<noteq> ss_nombre_archivo (ejecutar ''20250101'' [SubirArchivo (Some hoja_a), PulsarProcesar]) \<and>
   ss_nombre_archivo (ejecutar ''20250101'' [SubirArchivo (Some hoja_a), PulsarProcesar, EscribirNombre ''lote'']) = ''lote.hab''"
proof -
  let ?ini = "ejecutar ''20250101'' [SubirArchivo (Some hoja_a)]"
  let ?st = "ejecutar ''20250101'' [SubirArchivo (Some hoja_a), PulsarProcesar]"
  have e: "?st = paso ?ini PulsarProcesar"
    using ejecutar_snoc [of "''20250101''" "[SubirArchivo (Some hoja_a)]" PulsarProcesar]
    unfolding append_Cons append_Nil .
  have e2: "ejecutar ''20250101'' [SubirArchivo (Some hoja_a), PulsarProcesar, EscribirNombre ''lote''] =
            paso ?st (EscribirNombre ''lote'')"
    using ejecutar_snoc [of "''20250101''" "[SubirArchivo (Some hoja_a), PulsarProcesar]" "EscribirNombre ''lote''"]
    unfolding append_Cons append_Nil .
  have a: "alcanzable ''20250101'' ?st" by (rule alcanzable_ejecutar)
  have c: "columnas_faltantes columnas_requeridas = []"
    by (simp add: columnas_faltantes_def)
  have p: "ss_procesado ?st" "ss_nombre_archivo ?st = ''deposito_20250101.hab''"
    using paso_procesar [OF ejecutar_subir_a [unfolded hoja_a_def, THEN conjunct1] c] ejecutar_subir_a
    unfolding e by (simp_all add: hoja_a_def)
  have n: "''lote'' \<noteq> ss_nombre_archivo ?st"
    using p(2) by simp
  show ?thesis
    using sesion_renombrar [OF a p(1) n] a p n unfolding e2 by (simp add: py_endswith_def del: paso.simps)
qed

text \<open>
  C22. Uploading a different file or choosing a different date hides the download
  link until the button is pressed again (the \<open>on_change\<close> callbacks reset the
  processing).
\<close>

theorem sesion_reinicio:
  "(a \<noteq> archivo_subido st \<longrightarrow> enlace_descarga (paso st (SubirArchivo a)) = None) \<and>
   (f \<noteq> ss_fecha st \<longrightarrow> enlace_descarga (paso st (ElegirFecha f)) = None)"
  using ejecutar_pagina_sin_boton
  by (simp add: enlace_descarga_def reiniciar_procesamiento_def)

theorem sesion_reinicio_witness:
  "Some hoja_a \<noteq> archivo_subido (ejecutar ''20250101'' [SubirArchivo (Some hoja_cruzada), PulsarProcesar]) \<and>
   enlace_descarga (ejecutar ''20250101'' [SubirArchivo (Some hoja_cruzada), PulsarProcesar, SubirArchivo (Some hoja_a)]) = None"
proof -
  let ?ini = "ejecutar ''20250101'' [SubirArchivo (Some hoja_cruzada)]"
  let ?st = "ejecutar ''20250101'' [SubirArchivo (Some hoja_cruzada), PulsarProcesar]"
  have e: "?st = paso ?ini PulsarProcesar"
    using ejecutar_snoc [of "''20250101''" "[SubirArchivo (Some hoja_cruzada)]" PulsarProcesar]
    unfolding append_Cons append_Nil .
  have e2: "ejecutar ''20250101'' [SubirArchivo (Some hoja_cruzada), PulsarProcesar, SubirArchivo (Some hoja_a)] =
            paso ?st (SubirArchivo (Some hoja_a))"
    using ejecutar_snoc [of "''20250101''" "[SubirArchivo (Some hoja_cruzada), PulsarProcesar]" "SubirArchivo (Some hoja_a)"]
    unfolding append_Cons append_Nil .
  have c: "columnas_faltantes columnas_requeridas = []"
    by (simp add: columnas_faltantes_def)
  have p: "archivo_subido ?st = Some hoja_cruzada"
    using paso_procesar [OF ejecutar_subir_cruzada [unfolded hoja_cruzada_def] c] unfolding e
    by (simp add: hoja_cruzada_def)
  have d: "Some hoja_a \<noteq> archivo_subido ?st"
    using p by (simp add: hoja_a_def hoja_cruzada_def ejemplos)
  show ?thesis
    using sesion_reinicio [of "Some hoja_a" ?st] d unfolding e2 by (simp del: paso.simps)
qed

text \<open>
  C23. The page stores a sheet only when it has every required column: in every
  reachable state the stored sheet has all eight columns.
\<close>

theorem sesion_lote_completo:
  "alcanzable hoy st \<Longrightarrow> ss_lote_df st = Some df \<Longrightarrow> set columnas_requeridas \<subseteq> set (columns df)"
  using alcanzable_lote_valido [of hoy st] by (simp add: lote_valido_def columnas_faltantes_Nil_iff)

theorem sesion_lote_completo_witness:
  "alcanzable ''20250101'' (ejecutar ''20250101'' [SubirArchivo (Some hoja_a)]) \<and>
   ss_lote_df (ejecutar ''20250101'' [SubirArchivo (Some hoja_a)]) = Some (frame_of_rows columnas_requeridas [ejemplo_a]) \<and>
   set columnas_requeridas \<subseteq> set (columns (frame_of_rows columnas_requeridas [ejemplo_a]))"
proof -
  have l: "ss_lote_df (ejecutar ''20250101'' [SubirArchivo (Some hoja_a)]) = Some (frame_of_rows columnas_requeridas [ejemplo_a])"
    by (simp add: ejecutar_def inicio_def ejecutar_pagina_def verificar_columnas_def sesion_inicial_def hoja_a_def
      leer_excel_def reiniciar_procesamiento_def Let_def columnas_faltantes_def columnas_requeridas_def)
  show ?thesis
    using sesion_lote_completo [OF alcanzable_ejecutar l] alcanzable_ejecutar l by simp
qed

text \<open>
  C24. Round trip of the download: for a name without double quotes, the anchor
  yields the Latin-1 bytes of the content and the name, and the bytes decode back to
  the content.
\<close>

theorem descarga_ida_vuelta:
  "comillas \<notin> set nombre \<Longrightarrow>
   descargar (get_download_link contenido nombre) = Some (latin1_encode contenido, nombre) \<and>
   latin1_decode (latin1_encode contenido) = contenido"
  by (simp add: descargar_get_download_link)

theorem descarga_ida_vuelta_witness:
  "comillas \<notin> set ''deposito.hab'' \<and>
   descargar (get_download_link (''013'' @ crlf) ''deposito.hab'') = Some (latin1_encode (''013'' @ crlf), ''deposito.hab'')"
  using descarga_ida_vuelta [of "''deposito.hab''" "''013'' @ crlf"] by (simp add: comillas_def)

text \<open>
  C25. The file name is put into the HTML anchor unescaped: a name with a double
  quote ends the \<open>download\<close> attribute early, and the browser saves the file under
  the part of the name before the quote.
\<close>

theorem descargar_nombre_comillas:
  "comillas \<notin> set a \<Longrightarrow>
   descargar (get_download_link contenido (a @ comillas # b)) = Some (latin1_encode contenido, a)"
proof -
  assume a: "comillas \<notin> set a"
  have "CHR 0x22 \<notin> set (b64encode (latin1_encode contenido))" "CHR 0x22 \<notin> set a"
    using comillas_b64encode a by (simp_all add: comillas_def)
  then show ?thesis
    by (simp add: descargar_def get_download_link_def Let_def dividir_def dividir_aux_libre
        comillas_def prefijo_datos_def b64decode_b64encode)
qed

theorem descargar_nombre_comillas_witness:
  "comillas \<notin> set ''lote'' \<and>
   descargar (get_download_link ''013'' (''lote'' @ comillas # '' onclick=x.hab'')) = Some (latin1_encode ''013'', ''lote'')"
  using descargar_nombre_comillas [of "''lote''" "''013''" "'' onclick=x.hab''"] by (simp add: comillas_def)

text \<open>
  C26. The result table of a successful run is well formed: its columns are the
  fields of the layout that get a column, in table order and distinct, and its
  labels strictly increase and stay below the number of eligible rows.
\<close>

theorem procesar_archivo_tabla_bien_formada:
  assumes "procesar_archivo (frame_of_rows cols rs) fecha = Inr (resultado, contenido)"
  shows "frame_wf resultado \<and>
         columns resultado = map campo (campos_presentes cols (datos_formato_cliente fecha)) \<and>
         (\<forall>i \<in> fst ` set (rows resultado). i < length (filter (\<lambda>r. r ''CUOTA'' \<noteq> Some ''3'') rs))"
proof -
  have c: "''CUOTA'' \<in> set cols" "''SOLICITUD'' \<in> set cols"
    using procesar_archivo_Inr(1,2) [OF assms] .
  have "Inr (resultado, contenido) = (case filtrar_solicitud (tabla_esperada cols fecha rs) of
       Inl e \<Rightarrow> Inl e | Inr resultado \<Rightarrow> Inr (resultado, contenido_hab (lineas_hab resultado)))"
    using procesar_archivo_tabla [OF c(1), of rs fecha] assms by simp
  then have r: "resultado = \<lparr>columns = map campo (campos_presentes cols (datos_formato_cliente fecha)),
         rows = map (\<lambda>i. (i, fila_esperada cols fecha rs i))
                  (filter (\<lambda>i. (rs ! i) ''CUOTA'' \<noteq> Some ''3'') [0..<length (rows (lote_esperado cols rs))])\<rparr>"
    by (simp add: filtrar_solicitud_tabla [OF c(2)])
  show ?thesis
    by (simp add: r frame_wf_def length_rows_lote_esperado length_filter_filas_lote sorted_wrt_filter distinct_map_filter
        distinct_campos_presentes [unfolded distinct_map] comp_def)
qed

theorem procesar_archivo_tabla_bien_formada_witness:
  "\<exists>resultado contenido.
     procesar_archivo (frame_of_rows columnas_requeridas [ejemplo_a, ejemplo_b]) ''20250101'' = Inr (resultado, contenido) \<and>
     frame_wf resultado \<and> columns resultado = map campo (datos_formato_cliente ''20250101'')"
proof -
  have c: "''CUOTA'' \<in> set columnas_requeridas" "''SOLICITUD'' \<in> set columnas_requeridas"
    by (simp_all add: columnas_requeridas_def)
  obtain resultado where r: "procesar_archivo (frame_of_rows columnas_requeridas [ejemplo_a, ejemplo_b]) ''20250101'' =
      Inr (resultado, contenido_hab (lineas_esperadas columnas_requeridas ''20250101'' [ejemplo_a, ejemplo_b]))"
    using procesar_archivo_exito [OF c] by blast
  have "campos_presentes columnas_requeridas (datos_formato_cliente ''20250101'') = datos_formato_cliente ''20250101''"
    by (simp add: campos_presentes_datos_formato_cliente)
  then show ?thesis
    using procesar_archivo_tabla_bien_formada [OF r] r by auto
qed

text \<open>
  C27. A sheet that lacks required columns is refused with a message that names
  exactly the missing ones, in the order of the required list: after its fixed text,
  split at the commas, it gives back that list.
\<close>

theorem mensaje_columnas_faltantes_lista:
  assumes "\<not> set columnas_requeridas \<subseteq> set cols"
  shows "take (length prefijo_faltantes) (mensaje_columnas_faltantes cols) = prefijo_faltantes \<and>
         leer_columnas (mensaje_columnas_faltantes cols) = [c \<leftarrow> columnas_requeridas. c \<notin> set cols]"
proof -
  have "columnas_faltantes cols \<noteq> []"
    using assms columnas_faltantes_Nil_iff by blast
  then show ?thesis
    using leer_columnas_mensaje by (simp add: mensaje_columnas_faltantes_def columnas_faltantes_def)
qed

theorem mensaje_columnas_faltantes_lista_witness:
  "\<not> set columnas_requeridas \<subseteq> set [''SUCURSAL'', ''CUENTA'', ''IMPORTE'', ''CBU'', ''CUIL''] \<and>
   leer_columnas (mensaje_columnas_faltantes [''SUCURSAL'', ''CUENTA'', ''IMPORTE'', ''CBU'', ''CUIL'']) =
     [''SOLICITUD'', ''CUOTA'', ''CUIL_APODERADO'']"
  using mensaje_columnas_faltantes_lista [of "[''SUCURSAL'', ''CUENTA'', ''IMPORTE'', ''CBU'', ''CUIL'']"]
  by (simp add: columnas_requeridas_def)

text \<open>
  C28. Pressing the button again discards a name the user chose: after a rename, the
  next processing stores \<open>deposito_YYYYMMDD.hab\<close> again (lines 231--232), with the
  same content.
\<close>

theorem sesion_reprocesar_nombre:
  assumes "archivo_subido st = Some (Hoja cols rs)" and "set columnas_requeridas \<subseteq> set cols"
  shows "ss_nombre_archivo (paso (paso st (EscribirNombre n)) PulsarProcesar) = ''deposito_'' @ ss_fecha st @ ''.hab'' \<and>
         ss_contenido_hab (paso (paso st (EscribirNombre n)) PulsarProcesar) =
           Some (contenido_hab (lineas_esperadas cols (ss_fecha st) rs))"
proof -
  have c: "columnas_faltantes cols = []"
    using assms(2) by (simp add: columnas_faltantes_Nil_iff)
  have "archivo_subido (paso st (EscribirNombre n)) = Some (Hoja cols rs)"
    "ss_fecha (paso st (EscribirNombre n)) = ss_fecha st"
    using assms(1) by simp_all
  then show ?thesis
    using paso_procesar [of "paso st (EscribirNombre n)" cols rs] c by (simp del: paso.simps)
qed

theorem sesion_reprocesar_nombre_witness:
  "archivo_subido (ejecutar ''20250101'' [SubirArchivo (Some hoja_a), PulsarProcesar]) =
     Some (Hoja columnas_requeridas [ejemplo_a]) \<and>
   set columnas_requeridas \<subseteq> set columnas_requeridas \<and>
   ss_nombre_archivo (paso (paso (ejecutar ''20250101'' [SubirArchivo (Some hoja_a), PulsarProcesar])
                                 (EscribirNombre ''mio'')) PulsarProcesar) = ''deposito_20250101.hab''"
proof -
  let ?ini = "ejecutar ''20250101'' [SubirArchivo (Some hoja_a)]"
  let ?st = "ejecutar ''20250101'' [SubirArchivo (Some hoja_a), PulsarProcesar]"
  have e: "?st = paso ?ini PulsarProcesar"
    using ejecutar_snoc [of "''20250101''" "[SubirArchivo (Some hoja_a)]" PulsarProcesar]
    unfolding append_Cons append_Nil .
  have c: "columnas_faltantes columnas_requeridas = []"
    by (simp add: columnas_faltantes_def)
  have p: "archivo_subido ?st = Some (Hoja columnas_requeridas [ejemplo_a])" "ss_fecha ?st = ''20250101''"
    using paso_procesar [OF ejecutar_subir_a [unfolded hoja_a_def, THEN conjunct1] c] ejecutar_subir_a
    unfolding e by (simp_all add: hoja_a_def)
  show ?thesis
    using sesion_reprocesar_nombre [OF p(1), of "''mio''"] p by (simp del: paso.simps)
qed

text \<open>
  C29. Processing is idempotent: pressing the button twice on a complete sheet leaves
  the session as pressing it once.
\<close>

theorem sesion_procesar_idempotente:
  assumes "archivo_subido st = Some (Hoja cols rs)" and "set columnas_requeridas \<subseteq> set cols"
  shows "paso (paso st PulsarProcesar) PulsarProcesar = paso st PulsarProcesar"
proof -
  have c: "columnas_faltantes cols = []"
    using assms(2) by (simp add: columnas_faltantes_Nil_iff)
  obtain res where r: "procesar_archivo (frame_of_rows cols rs) (ss_fecha st) =
      Inr (res, contenido_hab (lineas_esperadas cols (ss_fecha st) rs))"
    using procesar_archivo_completo [OF c] by blast
  have e1: "paso st PulsarProcesar = st\<lparr>ss_lote_df := Some (frame_of_rows cols rs), ss_resultado_df := Some res,
              ss_contenido_hab := Some (contenido_hab (lineas_esperadas cols (ss_fecha st) rs)),
              ss_nombre_archivo := ''deposito_'' @ ss_fecha st @ ''.hab'',
              ss_procesado := True, ss_error := None\<rparr>"
    by (rule paso_procesar_estado [OF assms(1) c r])
  have a2: "archivo_subido (paso st PulsarProcesar) = Some (Hoja cols rs)"
    "ss_fecha (paso st PulsarProcesar) = ss_fecha st"
    unfolding e1 using assms(1) by simp_all
  have r2: "procesar_archivo (frame_of_rows cols rs) (ss_fecha (paso st PulsarProcesar)) =
      Inr (res, contenido_hab (lineas_esperadas cols (ss_fecha st) rs))"
    using r a2(2) by simp
  show ?thesis
    unfolding paso_procesar_estado [OF a2(1) c r2] a2(2) by (simp add: e1 del: paso.simps)
qed

theorem sesion_procesar_idempotente_witness:
  "archivo_subido (ejecutar ''20250101'' [SubirArchivo (Some hoja_a)]) = Some (Hoja columnas_requeridas [ejemplo_a]) \<and>
   set columnas_requeridas \<subseteq> set columnas_requeridas \<and>
   paso (paso (ejecutar ''20250101'' [SubirArchivo (Some hoja_a)]) PulsarProcesar) PulsarProcesar =
     paso (ejecutar ''20250101'' [SubirArchivo (Some hoja_a)]) PulsarProcesar"
proof -
  have a: "archivo_subido (ejecutar ''20250101'' [SubirArchivo (Some hoja_a)]) = Some (Hoja columnas_requeridas [ejemplo_a])"
    using ejecutar_subir_a by (simp add: hoja_a_def)
  show ?thesis
    using sesion_procesar_idempotente [OF a] a by (simp del: paso.simps)
qed

section \<open>What the page shows\<close>

text \<open>
  C30. Pressing the button on a complete sheet shows no error, and the success
  message reports as "generated" the number of lines the file has (which C3 shows
  can be fewer than the eligible rows).
\<close>

theorem pagina_procesada:
  assumes "archivo_subido st = Some (Hoja cols rs)" and "set columnas_requeridas \<subseteq> set cols"
  shows "Exito (CHR 0xA1 # ''Procesamiento exitoso! Se generaron '' @
                py_str_nat (length (lineas_esperadas cols (ss_fecha st) rs)) @ '' registros.'')
           \<in> set (avisos_pagina st (ss_fecha st) True None) \<and>
         (\<forall>m. Error m \<notin> set (avisos_pagina st (ss_fecha st) True None))"
proof -
  have c: "columnas_faltantes cols = []"
    using assms(2) by (simp add: columnas_faltantes_Nil_iff)
  obtain res where r: "procesar_archivo (frame_of_rows cols rs) (ss_fecha st) =
      Inr (res, contenido_hab (lineas_esperadas cols (ss_fecha st) rs))"
    using procesar_archivo_completo [OF c] by blast
  have n: "frame_len res = length (lineas_esperadas cols (ss_fecha st) rs)"
    using procesar_archivo_Inr(3) [OF r] by (simp flip: length_lineas_hab)
  have e: "ejecutar_pagina st (ss_fecha st) True None =
      st\<lparr>ss_lote_df := Some (frame_of_rows cols rs), ss_resultado_df := Some res,
         ss_contenido_hab := Some (contenido_hab (lineas_esperadas cols (ss_fecha st) rs)),
         ss_nombre_archivo := ''deposito_'' @ ss_fecha st @ ''.hab'', ss_procesado := True, ss_error := None\<rparr>"
    using paso_procesar_estado [OF assms(1) c r] by simp
  show ?thesis
    using r n
    by (simp add: avisos_pagina_hoja [OF assms(1) c] e avisos_resultado_def resumen_sesion_def
        enlace_descarga_def mensaje_exito_def) blast
qed

theorem pagina_procesada_witness:
  "archivo_subido (ejecutar ''20250101'' [SubirArchivo (Some hoja_a)]) = Some (Hoja columnas_requeridas [ejemplo_a]) \<and>
   set columnas_requeridas \<subseteq> set columnas_requeridas \<and>
   Exito (CHR 0xA1 # ''Procesamiento exitoso! Se generaron 1 registros.'')
     \<in> set (avisos_pagina (ejecutar ''20250101'' [SubirArchivo (Some hoja_a)]) ''20250101'' True None)"
proof -
  have a: "archivo_subido (ejecutar ''20250101'' [SubirArchivo (Some hoja_a)]) = Some (Hoja columnas_requeridas [ejemplo_a])"
    "ss_fecha (ejecutar ''20250101'' [SubirArchivo (Some hoja_a)]) = ''20250101''"
    using ejecutar_subir_a by (simp_all add: hoja_a_def)
  have l: "length (lineas_esperadas columnas_requeridas ''20250101'' [ejemplo_a]) = 1"
    by (simp add: length_lineas_esperadas ejemplos)
  have u: "py_str_nat 1 = ''1''"
    by (subst py_str_nat.simps) code_simp
  show ?thesis
    using pagina_procesada [OF a(1)] a l u by simp
qed

text \<open>
  C31. A file \<open>pd.read_excel\<close> cannot read is reported with the reader's own
  message and changes nothing but the stored date.
\<close>

theorem pagina_ilegible:
  assumes "archivo_subido st = Some (Ilegible e)"
  shows "avisos_pagina st fecha boton nuevo_nombre =
           [Info (mensaje_fecha fecha), Error (''Error al leer el archivo Excel: '' @ e)] \<and>
         ejecutar_pagina st fecha boton nuevo_nombre = st\<lparr>ss_fecha := fecha\<rparr>"
  using assms by (simp add: avisos_pagina_def ejecutar_pagina_def leer_excel_def)

theorem pagina_ilegible_witness:
  "archivo_subido ((sesion_inicial ''20250101'')\<lparr>archivo_subido := Some (Ilegible ''File is not a zip file'')\<rparr>) =
     Some (Ilegible ''File is not a zip file'') \<and>
   avisos_pagina ((sesion_inicial ''20250101'')\<lparr>archivo_subido := Some (Ilegible ''File is not a zip file'')\<rparr>)
     ''20250101'' False None =
   [Info ''La fecha seleccionada en formato AAAAMMDD es: 20250101'',
    Error ''Error al leer el archivo Excel: File is not a zip file'']"
  using pagina_ilegible [of "(sesion_inicial ''20250101'')\<lparr>archivo_subido := Some (Ilegible ''File is not a zip file'')\<rparr>"
      "''File is not a zip file''" "''20250101''" False None]
  by (simp add: mensaje_fecha_def)

text \<open>
  C32. A sheet that lacks required columns is reported with the missing-columns
  message only, and nothing is stored: neither the sheet nor any result.
\<close>

theorem pagina_faltantes:
  assumes "archivo_subido st = Some (Hoja cols rs)" and "\<not> set columnas_requeridas \<subseteq> set cols"
  shows "avisos_pagina st fecha boton nuevo_nombre =
           [Info (mensaje_fecha fecha), Error (mensaje_columnas_faltantes cols)] \<and>
         ejecutar_pagina st fecha boton nuevo_nombre = st\<lparr>ss_fecha := fecha\<rparr>"
proof -
  have "columnas_faltantes cols \<noteq> []"
    using assms(2) columnas_faltantes_Nil_iff by blast
  then show ?thesis
    using assms(1)
    by (simp add: avisos_pagina_def ejecutar_pagina_def leer_excel_def verificar_columnas_def)
qed

theorem pagina_faltantes_witness:
  "archivo_subido ((sesion_inicial ''20250101'')\<lparr>archivo_subido := Some (Hoja [''CUOTA''] [ejemplo_a])\<rparr>) =
     Some (Hoja [''CUOTA''] [ejemplo_a]) \<and>
   \<not> set columnas_requeridas \<subseteq> set [''CUOTA''] \<and>
   avisos_pagina ((sesion_inicial ''20250101'')\<lparr>archivo_subido := Some (Hoja [''CUOTA''] [ejemplo_a])\<rparr>)
     ''20250101'' True None =
   [Info (mensaje_fecha ''20250101''), Error (mensaje_columnas_faltantes [''CUOTA''])]"
  using pagina_faltantes [of "(sesion_inicial ''20250101'')\<lparr>archivo_subido := Some (Hoja [''CUOTA''] [ejemplo_a])\<rparr>"
      "[''CUOTA'']" "[ejemplo_a]" "''20250101''" True None]
  by (simp add: columnas_requeridas_def)

section \<open>The deposit date\<close>

text \<open>
  C33. Round trip of the date: for every date \<open>st.date_input\<close> can return,
  \<open>strftime('%Y%m%d')\<close> is eight characters that parse back to the date, so two
  dates give the same string only when they are the same date (which is why the
  session may compare and store the formatted date).
\<close>

theorem strftime_ymd_ida_vuelta:
  assumes "fecha_valida d" and "fecha_valida d'"
  shows "length (strftime_ymd d) = 8 \<and> leer_fecha (strftime_ymd d) = Some d \<and>
         (strftime_ymd d = strftime_ymd d' \<longleftrightarrow> d = d')"
proof -
  have a: "leer_fecha (strftime_ymd d) = Some d" and b: "leer_fecha (strftime_ymd d') = Some d'"
    using leer_fecha_strftime_ymd assms by blast+
  have "strftime_ymd d = strftime_ymd d' \<Longrightarrow> d = d'"
    using a b by (metis option.inject)
  then show ?thesis
    using a length_strftime_ymd [OF assms(1)] by blast
qed

theorem strftime_ymd_ida_vuelta_witness:
  "fecha_valida \<lparr>anio = 2025, mes = 1, dia = 15\<rparr> \<and> fecha_valida \<lparr>anio = 2024, mes = 2, dia = 29\<rparr> \<and>
   leer_fecha ''20250115'' = Some \<lparr>anio = 2025, mes = 1, dia = 15\<rparr> \<and>
   strftime_ymd \<lparr>anio = 2025, mes = 1, dia = 15\<rparr> \<noteq> strftime_ymd \<lparr>anio = 2024, mes = 2, dia = 29\<rparr>"
proof -
  have v: "fecha_valida \<lparr>anio = 2025, mes = 1, dia = 15\<rparr>" "fecha_valida \<lparr>anio = 2024, mes = 2, dia = 29\<rparr>"
    by (simp_all add: fecha_valida_def dias_mes_def bisiesto_def)
  have s: "strftime_ymd \<lparr>anio = 2025, mes = 1, dia = 15\<rparr> = ''20250115''"
    by code_simp
  have s': "strftime_ymd \<lparr>anio = 2024, mes = 2, dia = 29\<rparr> = ''20240229''"
    by code_simp
  have "leer_fecha ''20250115'' = Some \<lparr>anio = 2025, mes = 1, dia = 15\<rparr>"
    using strftime_ymd_ida_vuelta [OF v] unfolding s by blast
  then show ?thesis
    unfolding s s' using v by simp
qed

text \<open>
  C34. The date in the file: when the fields before it fit their widths, every line
  carries the selected date, unchanged by \<open>zfill(8)\<close>, as its \<open>FECHA\<close> field at
  characters 38--45, and the field parses back to that date.
\<close>

theorem fecha_en_linea:
  assumes cols: "set columnas_requeridas \<subseteq> set cols" and v: "fecha_valida d"
    and "length (py_str (r ''SUCURSAL'')) \<le> 5" and "length (py_str (r ''CUENTA'')) \<le> 9"
    and "length (py_str (r ''IMPORTE'')) \<le> 18"
  shows "take 8 (drop 38 (linea_esperada cols (strftime_ymd d) r r_cuil)) = strftime_ymd d \<and>
         leer_fecha (take 8 (drop 38 (linea_esperada cols (strftime_ymd d) r r_cuil))) = Some d"
  using assms length_strftime_ymd [OF v] leer_fecha_strftime_ymd [OF v]
  by (simp add: linea_esperada_completa [OF cols] datos_formato_cliente_def valor_campo_def)

theorem fecha_en_linea_witness:
  "set columnas_requeridas \<subseteq> set columnas_requeridas \<and> fecha_valida \<lparr>anio = 2025, mes = 1, dia = 15\<rparr> \<and>
   take 8 (drop 38 (linea_esperada columnas_requeridas ''20250115'' ejemplo_a ejemplo_a)) = ''20250115'' \<and>
   leer_fecha (take 8 (drop 38 (linea_esperada columnas_requeridas ''20250115'' ejemplo_a ejemplo_a))) =
     Some \<lparr>anio = 2025, mes = 1, dia = 15\<rparr>"
proof -
  have v: "fecha_valida \<lparr>anio = 2025, mes = 1, dia = 15\<rparr>"
    by (simp add: fecha_valida_def dias_mes_def bisiesto_def)
  have s: "strftime_ymd \<lparr>anio = 2025, mes = 1, dia = 15\<rparr> = ''20250115''"
    by code_simp
  have "length (py_str (ejemplo_a ''SUCURSAL'')) \<le> 5" "length (py_str (ejemplo_a ''CUENTA'')) \<le> 9"
    "length (py_str (ejemplo_a ''IMPORTE'')) \<le> 18"
    by (simp_all add: ejemplos)
  then show ?thesis
    using fecha_en_linea [of columnas_requeridas "\<lparr>anio = 2025, mes = 1, dia = 15\<rparr>" ejemplo_a ejemplo_a]
      v subset_refl unfolding s by blast
qed

section \<open>The sidebar\<close>



end
